theory Spec2Isabelle
  imports Main
begin

section \<open>Template ingestion: the data model\<close>

text \<open>
  The development embeds the ingestion pass of the template pipeline
  (\<^verbatim>\<open>ingestComponent\<close>, \<^verbatim>\<open>ingestHostBinding\<close> and the functions below them) as state
  passing over a compilation job.  A thrown \<^verbatim>\<open>Error\<close> is the left injection of a sum.
  The classes of the expression AST, the template AST, the i18n AST, the output AST and
  the IR operations are declared in other modules; the datatypes below carry the
  variants the ingestion code tests with \<^verbatim>\<open>instanceof\<close> and the fields it reads or
  passes on.
\<close>

subsection \<open>Source locations\<close>

record ParseLocation =
  loc_file :: string
  loc_offset :: int
  loc_line :: int
  loc_col :: int

record ParseSourceSpan =
  span_start :: ParseLocation
  span_end :: ParseLocation
  span_fullStart :: ParseLocation

text \<open>A \<^verbatim>\<open>ParseSpan\<close> is relative to the start of its expression.\<close>

record ParseSpan =
  ps_start :: int
  ps_end :: int

subsection \<open>Expression AST (the input dialect)\<close>

text \<open>
  A literal value is carried through unchanged; a number is kept as an integer here
  because no arithmetic is ever done on it.
\<close>

datatype LiteralValue =
    LitString string
  | LitNumber int
  | LitBool bool
  | LitNull
  | LitUndefined

datatype AST =
    ASTWithSource AST
  | PropertyRead ParseSpan AST string
  | PropertyWrite ParseSpan AST string AST
  | KeyedWrite ParseSpan AST AST AST
  | Call ParseSpan AST "AST list"
  | LiteralPrimitive ParseSpan LiteralValue
  | Unary ParseSpan string AST
  | Binary ParseSpan string AST AST
  | ImplicitReceiver
  | ThisReceiver
  | KeyedRead ParseSpan AST AST
  | Chain "AST list"
  | LiteralMap ParseSpan "(string \<times> bool) list" "AST list"
  | LiteralArray ParseSpan "AST list"
  | Conditional ParseSpan AST AST AST
  | NonNullAssert AST
  | BindingPipe ParseSpan AST string "AST list"
  | SafeKeyedRead ParseSpan AST AST
  | SafePropertyRead ParseSpan AST string
  | SafeCall ParseSpan AST "AST list"
  | EmptyExpr ParseSpan
  | PrefixNot ParseSpan AST
  | Interpolation "string list" "AST list"
  | OtherAST string

text \<open>
  \<^verbatim>\<open>x instanceof e.ImplicitReceiver\<close>.  The class \<^verbatim>\<open>ThisReceiver\<close> extends
  \<^verbatim>\<open>ImplicitReceiver\<close>: \<^verbatim>\<open>convertAst\<close> itself computes "an implicit receiver,
  excluding explicit reads of this" as
  \<^verbatim>\<open>receiver instanceof e.ImplicitReceiver && !(receiver instanceof e.ThisReceiver)\<close>.
\<close>

fun instanceof_ImplicitReceiver :: "AST \<Rightarrow> bool" where
  "instanceof_ImplicitReceiver ImplicitReceiver = True"
| "instanceof_ImplicitReceiver ThisReceiver = True"
| "instanceof_ImplicitReceiver _ = False"

fun instanceof_ThisReceiver :: "AST \<Rightarrow> bool" where
  "instanceof_ThisReceiver ThisReceiver = True"
| "instanceof_ThisReceiver _ = False"

text \<open>The class name printed by the error messages (\<^verbatim>\<open>ast.constructor.name\<close>).\<close>

fun constructor_name :: "AST \<Rightarrow> string" where
  "constructor_name (ASTWithSource _) = ''ASTWithSource''"
| "constructor_name (PropertyRead _ _ _) = ''PropertyRead''"
| "constructor_name (PropertyWrite _ _ _ _) = ''PropertyWrite''"
| "constructor_name (KeyedWrite _ _ _ _) = ''KeyedWrite''"
| "constructor_name (Call _ _ _) = ''Call''"
| "constructor_name (LiteralPrimitive _ _) = ''LiteralPrimitive''"
| "constructor_name (Unary _ _ _) = ''Unary''"
| "constructor_name (Binary _ _ _ _) = ''Binary''"
| "constructor_name ImplicitReceiver = ''ImplicitReceiver''"
| "constructor_name ThisReceiver = ''ThisReceiver''"
| "constructor_name (KeyedRead _ _ _) = ''KeyedRead''"
| "constructor_name (Chain _) = ''Chain''"
| "constructor_name (LiteralMap _ _ _) = ''LiteralMap''"
| "constructor_name (LiteralArray _ _) = ''LiteralArray''"
| "constructor_name (Conditional _ _ _ _) = ''Conditional''"
| "constructor_name (NonNullAssert _) = ''NonNullAssert''"
| "constructor_name (BindingPipe _ _ _ _) = ''BindingPipe''"
| "constructor_name (SafeKeyedRead _ _ _) = ''SafeKeyedRead''"
| "constructor_name (SafePropertyRead _ _ _) = ''SafePropertyRead''"
| "constructor_name (SafeCall _ _ _) = ''SafeCall''"
| "constructor_name (EmptyExpr _) = ''EmptyExpr''"
| "constructor_name (PrefixNot _ _) = ''PrefixNot''"
| "constructor_name (Interpolation _ _) = ''Interpolation''"
| "constructor_name (OtherAST n) = n"

subsection \<open>Output expressions (the IR dialect)\<close>

type_synonym XrefId = nat

text \<open>
  A slot handle is an object whose identity matters: an operation owns one, and other
  operations refer to it.  \<open>HandleOf x\<close> is the handle owned by the operation whose
  cross-reference id is \<open>x\<close>; \<open>NewSlotHandle\<close> is \<^verbatim>\<open>new ir.SlotHandle()\<close>.
\<close>

datatype SlotHandle = HandleOf XrefId | NewSlotHandle

datatype UnaryOperator = Minus | Plus

datatype BinaryOperator = BinaryOperator string

datatype Expression =
    LexicalReadExpr string
  | ReadPropExpr Expression string "ParseSourceSpan option"
  | WritePropExpr Expression string Expression "ParseSourceSpan option"
  | WriteKeyExpr Expression Expression Expression "ParseSourceSpan option"
  | InvokeFunctionExpr Expression "Expression list" "ParseSourceSpan option"
  | LiteralExpr LiteralValue "ParseSourceSpan option"
  | UnaryOperatorExpr UnaryOperator Expression "ParseSourceSpan option"
  | BinaryOperatorExpr BinaryOperator Expression Expression "ParseSourceSpan option"
  | ContextExpr XrefId
  | ReadKeyExpr Expression Expression "ParseSourceSpan option"
  | LiteralMapExpr "(string \<times> Expression \<times> bool) list" "ParseSourceSpan option"
  | LiteralArrayExpr "Expression list"
  | ConditionalExpr Expression Expression Expression "ParseSourceSpan option"
  | PipeBindingExpr XrefId SlotHandle string "Expression list"
  | SafeKeyedReadExpr Expression Expression "ParseSourceSpan option"
  | SafePropertyReadExpr Expression string
  | SafeInvokeFunctionExpr Expression "Expression list"
  | ir_EmptyExpr "ParseSourceSpan option"
  | NotExpr Expression "ParseSourceSpan option"

text \<open>The \<^verbatim>\<open>sourceSpan\<close> field of an output expression (\<^verbatim>\<open>null\<close> where none is given).\<close>

fun sourceSpanOf :: "Expression \<Rightarrow> ParseSourceSpan option" where
  "sourceSpanOf (ReadPropExpr _ _ s) = s"
| "sourceSpanOf (WritePropExpr _ _ _ s) = s"
| "sourceSpanOf (WriteKeyExpr _ _ _ s) = s"
| "sourceSpanOf (InvokeFunctionExpr _ _ s) = s"
| "sourceSpanOf (LiteralExpr _ s) = s"
| "sourceSpanOf (UnaryOperatorExpr _ _ s) = s"
| "sourceSpanOf (BinaryOperatorExpr _ _ _ s) = s"
| "sourceSpanOf (ReadKeyExpr _ _ s) = s"
| "sourceSpanOf (LiteralMapExpr _ s) = s"
| "sourceSpanOf (ConditionalExpr _ _ _ s) = s"
| "sourceSpanOf (SafeKeyedReadExpr _ _ s) = s"
| "sourceSpanOf (ir_EmptyExpr s) = s"
| "sourceSpanOf (NotExpr _ s) = s"
| "sourceSpanOf _ = None"

text \<open>\<^verbatim>\<open>o.Expression | ir.Interpolation\<close>: the value of a binding.\<close>

datatype BindingExpression =
    Expr Expression
  | ir_Interpolation "string list" "Expression list" "string list"

subsection \<open>i18n metadata\<close>

datatype i18n_Node =
    i18n_Text string
  | i18n_Container "i18n_Node list"
  | i18n_Icu string
  | i18n_TagPlaceholder string
  | i18n_Placeholder string
  | i18n_IcuPlaceholder string
  | i18n_BlockPlaceholder string

record i18n_Message =
  msg_nodes :: "i18n_Node list"
  msg_placeholders :: "string list"

text \<open>\<^verbatim>\<open>i18n.I18nMeta\<close> is a message or a node; \<open>None\<close> stands for \<^verbatim>\<open>undefined\<close>.\<close>

datatype I18nMeta = MetaMessage i18n_Message | MetaNode i18n_Node

fun meta_constructor_name :: "I18nMeta \<Rightarrow> string" where
  "meta_constructor_name (MetaMessage _) = ''Message''"
| "meta_constructor_name (MetaNode (i18n_Text _)) = ''Text''"
| "meta_constructor_name (MetaNode (i18n_Container _)) = ''Container''"
| "meta_constructor_name (MetaNode (i18n_Icu _)) = ''Icu''"
| "meta_constructor_name (MetaNode (i18n_TagPlaceholder _)) = ''TagPlaceholder''"
| "meta_constructor_name (MetaNode (i18n_Placeholder _)) = ''Placeholder''"
| "meta_constructor_name (MetaNode (i18n_IcuPlaceholder _)) = ''IcuPlaceholder''"
| "meta_constructor_name (MetaNode (i18n_BlockPlaceholder _)) = ''BlockPlaceholder''"

subsection \<open>Enumerations\<close>

datatype SecurityContext = NONE | HTML_context | STYLE | SCRIPT | URL | RESOURCE_URL

text \<open>A binding operation takes one security context or an array of them.\<close>

datatype SecurityContexts = OneContext SecurityContext | ManyContexts "SecurityContext list"

datatype Namespace = HTML | SVG | Math

datatype BindingType = bt_Property | bt_Attribute | bt_Class | bt_Style | bt_Animation

datatype BindingKind =
    Attribute | ClassName | StyleProperty | Property | bk_Template | I18n | Animation

datatype TemplateKind = NgTemplate | Structural | Block

datatype ParsedEventType = Regular | pe_Animation

datatype CompatibilityMode = Normal | TemplateDefinitionBuilder

subsection \<open>Operations\<close>

record TriggerTarget =
  targetName :: "string option"
  targetXref :: "XrefId option"
  targetSlot :: "SlotHandle option"
  targetView :: "XrefId option"
  targetSlotViewSteps :: "nat option"

datatype DeferTrigger =
    Idle
  | Immediate
  | Timer int
  | Hover TriggerTarget
  | Interaction TriggerTarget
  | Viewport TriggerTarget

datatype Statement =
    ExpressionStatement Expression "ParseSourceSpan option"
  | ReturnStatement Expression "ParseSourceSpan option"

record LocalRef =
  ref_name :: string
  ref_target :: string

record Variable =
  var_name :: string
  var_value :: string

text \<open>One entry of a conditional: guard, target view, target slot, alias.\<close>

record ConditionalCaseExpr =
  cc_expr :: "Expression option"
  cc_target :: XrefId
  cc_targetSlot :: SlotHandle
  cc_alias :: "Variable option"

record RepeaterVarNames =
  rv_index :: string
  rv_count :: string
  rv_first :: string
  rv_last :: string
  rv_even :: string
  rv_odd :: string
  rv_implicit :: string

record ElementStart_op =
  es_tag :: string
  es_xref :: XrefId
  es_namespace :: Namespace
  es_i18nPlaceholder :: "i18n_Node option"
  es_localRefs :: "LocalRef list"
  es_startSourceSpan :: ParseSourceSpan
  es_wholeSourceSpan :: ParseSourceSpan

record Template_op =
  tp_xref :: XrefId
  tp_kind :: TemplateKind
  tp_tag :: "string option"
  tp_functionNameSuffix :: string
  tp_namespace :: Namespace
  tp_i18nPlaceholder :: "i18n_Node option"
  tp_localRefs :: "LocalRef list"
  tp_startSourceSpan :: "ParseSourceSpan option"
  tp_wholeSourceSpan :: "ParseSourceSpan option"

record Binding_op =
  b_target :: XrefId
  b_kind :: BindingKind
  b_name :: string
  b_expression :: BindingExpression
  b_unit :: "string option"
  b_securityContext :: SecurityContexts
  b_isTextAttribute :: bool
  b_isStructuralTemplateAttribute :: bool
  b_templateKind :: "TemplateKind option"
  b_i18nMessage :: "i18n_Message option"
  b_sourceSpan :: "ParseSourceSpan option"

record ExtractedAttribute_op =
  ea_target :: XrefId
  ea_bindingKind :: BindingKind
  ea_namespace :: "string option"
  ea_name :: string
  ea_expression :: "Expression option"
  ea_i18nContext :: "XrefId option"
  ea_i18nMessage :: "i18n_Message option"
  ea_securityContext :: SecurityContexts

record Defer_op =
  d_xref :: XrefId
  d_mainView :: XrefId
  d_mainSlot :: SlotHandle
  d_metadata :: string
  d_sourceSpan :: ParseSourceSpan
  d_placeholderView :: "XrefId option"
  d_placeholderSlot :: "SlotHandle option"
  d_loadingSlot :: "SlotHandle option"
  d_errorSlot :: "SlotHandle option"
  d_placeholderMinimumTime :: "int option"
  d_loadingMinimumTime :: "int option"
  d_loadingAfterTime :: "int option"

record RepeaterCreate_op =
  rc_xref :: XrefId
  rc_emptyView :: "XrefId option"
  rc_tag :: "string option"
  rc_track :: Expression
  rc_varNames :: RepeaterVarNames
  rc_emptyTag :: "string option"
  rc_i18nPlaceholder :: "I18nMeta option"
  rc_emptyI18nPlaceholder :: "I18nMeta option"
  rc_startSourceSpan :: ParseSourceSpan
  rc_wholeSourceSpan :: ParseSourceSpan

text \<open>
  The operations the ingestion code creates, named after their \<^verbatim>\<open>ir.create...Op\<close>
  functions; the arguments are those of the call, in its order.
\<close>

datatype Op =
    ElementStartOp ElementStart_op
  | ElementEndOp XrefId ParseSourceSpan
  | TemplateOp Template_op
  | TextOp XrefId string "string option" ParseSourceSpan
  | ProjectionOp XrefId string "I18nMeta option" ParseSourceSpan
  | I18nStartOp XrefId i18n_Message ParseSourceSpan
  | I18nEndOp XrefId ParseSourceSpan
  | I18nAttributesOp XrefId SlotHandle XrefId
  | IcuStartOp XrefId i18n_Message string
  | IcuEndOp XrefId
  | ListenerOp XrefId SlotHandle string "string option" "Op list"
      "string option" "string option" bool ParseSourceSpan
  | ExtractedAttributeOp ExtractedAttribute_op
  | DeferOp Defer_op
  | DeferOnOp XrefId DeferTrigger bool "ParseSourceSpan option"
  | RepeaterCreateOp RepeaterCreate_op
  | BindingOp Binding_op
  | InterpolateTextOp XrefId BindingExpression ParseSourceSpan
  | ConditionalOp "XrefId option" "SlotHandle option" "Expression option" "ConditionalCaseExpr list"
      ParseSourceSpan
  | RepeaterOp XrefId SlotHandle Expression ParseSourceSpan
  | DeferWhenOp XrefId Expression bool ParseSourceSpan
  | StatementOp Statement

subsection \<open>Compilation units and jobs\<close>

datatype ContextValue = ContextName string | CTX_REF

record Alias =
  alias_identifier :: string
  alias_expression :: Expression

record CompilationUnit =
  xref :: XrefId
  parent :: "XrefId option"
  create :: "Op list"
  update :: "Op list"
  contextVariables :: "(string \<times> ContextValue) list"
  aliases :: "Alias list"

text \<open>
  A job owns the id counter and every unit.  The units are held by cross-reference id
  (the \<^verbatim>\<open>views\<close> map, in insertion order); \<open>root\<close> is the id of the root unit, and a
  unit handed to a function is its id.  The metadata of a deferred block is found by
  the identity of the block's node, which is a number carried by the node here.
\<close>

record CompilationJob =
  nextXrefId :: XrefId
  root :: XrefId
  views :: "CompilationUnit list"
  compatibility :: CompatibilityMode
  deferBlocksMeta :: "(nat \<times> string) list"

datatype error = Error string

subsection \<open>Collaborators outside the ingestion code\<close>

text \<open>
  The ingestion code calls pure helpers of other modules.  They are parameters of the
  embedding, collected in one record that every function receives as \<open>X\<close>:
  \<^item> \<^verbatim>\<open>ParseLocation.moveBy\<close>;
  \<^item> the table \<^verbatim>\<open>BINARY_OPERATORS\<close>, and \<^verbatim>\<open>namespaceForKey\<close> and
    \<^verbatim>\<open>prefixWithNamespace\<close> of the conversion module;
  \<^item> \<^verbatim>\<open>splitNsName\<close>, which may throw;
  \<^item> \<^verbatim>\<open>domSchema.securityContext\<close> and
    \<^verbatim>\<open>bindingParser.calcPossibleSecurityContexts\<close>;
  \<^item> \<^verbatim>\<open>isSingleI18nIcu\<close> and the name of \<^verbatim>\<open>icuFromI18nMessage\<close>.
\<close>

record externals =
  moveBy :: "ParseLocation \<Rightarrow> int \<Rightarrow> ParseLocation"
  BINARY_OPERATORS :: "string \<Rightarrow> BinaryOperator option"
  namespaceForKey :: "string option \<Rightarrow> Namespace"
  prefixWithNamespace :: "string \<Rightarrow> Namespace \<Rightarrow> string"
  splitNsName :: "string \<Rightarrow> error + (string option \<times> string)"
  domSchema_securityContext :: "string \<Rightarrow> string \<Rightarrow> bool \<Rightarrow> SecurityContext"
  calcPossibleSecurityContexts :: "string \<Rightarrow> string \<Rightarrow> bool \<Rightarrow> SecurityContext list"
  isSingleI18nIcu :: "i18n_Message \<Rightarrow> bool"
  icuFromI18nMessage_name :: "i18n_Message \<Rightarrow> string"

section \<open>The compilation job\<close>

text \<open>
  Modelled from the spec: the classes \<^verbatim>\<open>CompilationJob\<close> and \<^verbatim>\<open>ViewCompilationUnit\<close> of
  the compilation module are not among the sources.  A cross-reference id is "an opaque
  monotonically-allocated integer scoped to one compilation job", "never reused or
  recycled within a job": allocation returns the counter and increments it.
\<close>

definition allocateXrefId :: "CompilationJob \<Rightarrow> XrefId \<times> CompilationJob" where
  "allocateXrefId job = (nextXrefId job, job\<lparr>nextXrefId := Suc (nextXrefId job)\<rparr>)"

text \<open>
  Modelled from the spec: \<^verbatim>\<open>allocateView(parent)\<close> of the missing compilation module.
  A unit has "a unique cross-reference id", empty create and update lists, and "a
  back-reference to its parent unit ... set at creation and never reassigned"; the job
  owns it.
\<close>

definition allocateView :: "XrefId \<Rightarrow> CompilationJob \<Rightarrow> XrefId \<times> CompilationJob" where
  "allocateView p job =
     (let (x, job1) = allocateXrefId job;
          view = \<lparr>xref = x, parent = Some p, create = [], update = [],
                  contextVariables = [], aliases = []\<rparr>
      in (x, job1\<lparr>views := views job1 @ [view]\<rparr>))"

text \<open>Reading and changing the unit with a given id.\<close>

definition getView :: "XrefId \<Rightarrow> CompilationJob \<Rightarrow> CompilationUnit option" where
  "getView u job = find (\<lambda>v. xref v = u) (views job)"

definition updView ::
  "XrefId \<Rightarrow> (CompilationUnit \<Rightarrow> CompilationUnit) \<Rightarrow> CompilationJob \<Rightarrow> CompilationJob" where
  "updView u f job = job\<lparr>views := map (\<lambda>v. if xref v = u then f v else v) (views job)\<rparr>"

text \<open>\<^verbatim>\<open>unit.create.push(ops)\<close> and \<^verbatim>\<open>unit.update.push(ops)\<close>: one operation or an array.\<close>

definition create_push :: "XrefId \<Rightarrow> Op list \<Rightarrow> CompilationJob \<Rightarrow> CompilationJob" where
  "create_push u ops job = updView u (\<lambda>v. v\<lparr>create := create v @ ops\<rparr>) job"

definition update_push :: "XrefId \<Rightarrow> Op list \<Rightarrow> CompilationJob \<Rightarrow> CompilationJob" where
  "update_push u ops job = updView u (\<lambda>v. v\<lparr>update := update v @ ops\<rparr>) job"

text \<open>\<^verbatim>\<open>Map.set\<close>: an existing key keeps its place and takes the new value.\<close>

fun map_set :: "'k \<Rightarrow> 'v \<Rightarrow> ('k \<times> 'v) list \<Rightarrow> ('k \<times> 'v) list" where
  "map_set k v [] = [(k, v)]"
| "map_set k v ((k', v') # m) = (if k' = k then (k, v) # m else (k', v') # map_set k v m)"

definition contextVariables_set ::
  "XrefId \<Rightarrow> string \<Rightarrow> ContextValue \<Rightarrow> CompilationJob \<Rightarrow> CompilationJob" where
  "contextVariables_set u k v job =
     updView u (\<lambda>w. w\<lparr>contextVariables := map_set k v (contextVariables w)\<rparr>) job"

definition aliases_add :: "XrefId \<Rightarrow> Alias \<Rightarrow> CompilationJob \<Rightarrow> CompilationJob" where
  "aliases_add u a job = updView u (\<lambda>w. w\<lparr>aliases := aliases w @ [a]\<rparr>) job"

section \<open>Expression lowering\<close>

definition convertSourceSpan ::
  "externals \<Rightarrow> ParseSpan \<Rightarrow> ParseSourceSpan option \<Rightarrow> ParseSourceSpan option" where
  "convertSourceSpan X span baseSourceSpan =
     (case baseSourceSpan of
        None \<Rightarrow> None
      | Some b \<Rightarrow>
          Some \<lparr>span_start = moveBy X (span_start b) (ps_start span),
                span_end = moveBy X (span_start b) (ps_end span),
                span_fullStart = moveBy X (span_fullStart b) (ps_start span)\<rparr>)"

text \<open>
  The error of the last branch of \<^verbatim>\<open>convertAst\<close>: the class name and
  \<^verbatim>\<open>baseSourceSpan?.start.file.url\<close>, each between double quotes (character 0x22).
  Reading \<^verbatim>\<open>constructor\<close> of \<^verbatim>\<open>undefined\<close> is a type error instead.
\<close>

definition unhandled_expression :: "AST \<Rightarrow> ParseSourceSpan option \<Rightarrow> error" where
  "unhandled_expression a baseSourceSpan =
     Error (''Unhandled expression type '' @ [CHR 0x22] @ constructor_name a @ [CHR 0x22]
            @ '' in file '' @ [CHR 0x22]
            @ (case baseSourceSpan of None \<Rightarrow> ''undefined'' | Some b \<Rightarrow> loc_file (span_start b))
            @ [CHR 0x22])"

definition constructor_of_undefined :: error where
  "constructor_of_undefined =
     Error (''TypeError: Cannot read properties of undefined (reading ''
            @ [CHR 0x27] @ ''constructor'' @ [CHR 0x27] @ '')'')"

text \<open>
  \<^verbatim>\<open>convertAst\<close>, with the branches in the order of the source's \<^verbatim>\<open>instanceof\<close> chain.
  The job is threaded through because a pipe allocates a cross-reference id (before its
  operands are lowered).  \<^verbatim>\<open>convertAsts\<close> is \<^verbatim>\<open>asts.map(a => convertAst(a, ...))\<close>;
  \<^verbatim>\<open>convertEntries\<close> is the \<^verbatim>\<open>keys.map\<close> of a literal map, which reads \<^verbatim>\<open>values[idx]\<close>
  and fails on a missing value.
\<close>

fun convertAst ::
    "externals \<Rightarrow> AST \<Rightarrow> ParseSourceSpan option \<Rightarrow> CompilationJob
       \<Rightarrow> error + (Expression \<times> CompilationJob)"
  and convertAsts ::
    "externals \<Rightarrow> AST list \<Rightarrow> ParseSourceSpan option \<Rightarrow> CompilationJob
       \<Rightarrow> error + (Expression list \<times> CompilationJob)"
  and convertEntries ::
    "externals \<Rightarrow> (string \<times> bool) list \<Rightarrow> AST list \<Rightarrow> ParseSourceSpan option
       \<Rightarrow> CompilationJob \<Rightarrow> error + ((string \<times> Expression \<times> bool) list \<times> CompilationJob)"
where
  "convertAst X (ASTWithSource a) base job = convertAst X a base job"
| "convertAst X (PropertyRead span receiver name) base job =
     (let isThisReceiver = instanceof_ThisReceiver receiver;
          isImplicitReceiver =
            (instanceof_ImplicitReceiver receiver \<and> \<not> instanceof_ThisReceiver receiver);
          isSpecialNode = (name = ''$any'' \<or> name = ''$event'')
      in if isImplicitReceiver \<or> (isThisReceiver \<and> \<not> isSpecialNode)
         then Inr (LexicalReadExpr name, job)
         else (case convertAst X receiver base job of
                 Inl e \<Rightarrow> Inl e
               | Inr (r, job1) \<Rightarrow>
                   Inr (ReadPropExpr r name (convertSourceSpan X span base), job1)))"
| "convertAst X (PropertyWrite span receiver name val) base job =
     (if instanceof_ImplicitReceiver receiver
      then (case convertAst X val base job of
              Inl e \<Rightarrow> Inl e
            | Inr (v, job1) \<Rightarrow>
                Inr (WritePropExpr (ContextExpr (root job)) name v
                       (convertSourceSpan X span base), job1))
      else (case convertAst X receiver base job of
              Inl e \<Rightarrow> Inl e
            | Inr (r, job1) \<Rightarrow>
                (case convertAst X val base job1 of
                   Inl e \<Rightarrow> Inl e
                 | Inr (v, job2) \<Rightarrow>
                     Inr (WritePropExpr r name v (convertSourceSpan X span base), job2))))"
| "convertAst X (KeyedWrite span receiver key val) base job =
     (case convertAst X receiver base job of
        Inl e \<Rightarrow> Inl e
      | Inr (r, job1) \<Rightarrow>
          (case convertAst X key base job1 of
             Inl e \<Rightarrow> Inl e
           | Inr (k, job2) \<Rightarrow>
               (case convertAst X val base job2 of
                  Inl e \<Rightarrow> Inl e
                | Inr (v, job3) \<Rightarrow>
                    Inr (WriteKeyExpr r k v (convertSourceSpan X span base), job3))))"
| "convertAst X (Call span receiver args) base job =
     (if instanceof_ImplicitReceiver receiver
      then Inl (Error ''Unexpected ImplicitReceiver'')
      else (case convertAst X receiver base job of
              Inl e \<Rightarrow> Inl e
            | Inr (r, job1) \<Rightarrow>
                (case convertAsts X args base job1 of
                   Inl e \<Rightarrow> Inl e
                 | Inr (as, job2) \<Rightarrow>
                     Inr (InvokeFunctionExpr r as (convertSourceSpan X span base), job2))))"
| "convertAst X (LiteralPrimitive span v) base job =
     Inr (LiteralExpr v (convertSourceSpan X span base), job)"
| "convertAst X (Unary span operator ex) base job =
     (if operator = ''+''
      then (case convertAst X ex base job of
              Inl e \<Rightarrow> Inl e
            | Inr (x, job1) \<Rightarrow>
                Inr (UnaryOperatorExpr Plus x (convertSourceSpan X span base), job1))
      else if operator = ''-''
      then (case convertAst X ex base job of
              Inl e \<Rightarrow> Inl e
            | Inr (x, job1) \<Rightarrow>
                Inr (UnaryOperatorExpr Minus x (convertSourceSpan X span base), job1))
      else Inl (Error (''AssertionError: unknown unary operator '' @ operator)))"
| "convertAst X (Binary span operation left right) base job =
     (case BINARY_OPERATORS X operation of
        None \<Rightarrow> Inl (Error (''AssertionError: unknown binary operator '' @ operation))
      | Some operator \<Rightarrow>
          (case convertAst X left base job of
             Inl e \<Rightarrow> Inl e
           | Inr (l, job1) \<Rightarrow>
               (case convertAst X right base job1 of
                  Inl e \<Rightarrow> Inl e
                | Inr (r, job2) \<Rightarrow>
                    Inr (BinaryOperatorExpr operator l r (convertSourceSpan X span base),
                         job2))))"
| "convertAst X ThisReceiver base job = Inr (ContextExpr (root job), job)"
| "convertAst X (KeyedRead span receiver key) base job =
     (case convertAst X receiver base job of
        Inl e \<Rightarrow> Inl e
      | Inr (r, job1) \<Rightarrow>
          (case convertAst X key base job1 of
             Inl e \<Rightarrow> Inl e
           | Inr (k, job2) \<Rightarrow>
               Inr (ReadKeyExpr r k (convertSourceSpan X span base), job2)))"
| "convertAst X (Chain exprs) base job =
     Inl (Error ''AssertionError: Chain in unknown context'')"
| "convertAst X (LiteralMap span keys vals) base job =
     (case convertEntries X keys vals base job of
        Inl e \<Rightarrow> Inl e
      | Inr (entries, job1) \<Rightarrow>
          Inr (LiteralMapExpr entries (convertSourceSpan X span base), job1))"
| "convertAst X (LiteralArray span exprs) base job =
     (case convertAsts X exprs base job of
        Inl e \<Rightarrow> Inl e
      | Inr (xs, job1) \<Rightarrow> Inr (LiteralArrayExpr xs, job1))"
| "convertAst X (Conditional span condition trueExp falseExp) base job =
     (case convertAst X condition base job of
        Inl e \<Rightarrow> Inl e
      | Inr (c, job1) \<Rightarrow>
          (case convertAst X trueExp base job1 of
             Inl e \<Rightarrow> Inl e
           | Inr (t, job2) \<Rightarrow>
               (case convertAst X falseExp base job2 of
                  Inl e \<Rightarrow> Inl e
                | Inr (f, job3) \<Rightarrow>
                    Inr (ConditionalExpr c t f (convertSourceSpan X span base), job3))))"
| "convertAst X (NonNullAssert ex) base job = convertAst X ex base job"
| "convertAst X (BindingPipe span ex name args) base job =
     (let (x, job1) = allocateXrefId job
      in case convertAsts X (ex # args) base job1 of
           Inl e \<Rightarrow> Inl e
         | Inr (xs, job2) \<Rightarrow> Inr (PipeBindingExpr x NewSlotHandle name xs, job2))"
| "convertAst X (SafeKeyedRead span receiver key) base job =
     (case convertAst X receiver base job of
        Inl e \<Rightarrow> Inl e
      | Inr (r, job1) \<Rightarrow>
          (case convertAst X key base job1 of
             Inl e \<Rightarrow> Inl e
           | Inr (k, job2) \<Rightarrow>
               Inr (SafeKeyedReadExpr r k (convertSourceSpan X span base), job2)))"
| "convertAst X (SafePropertyRead span receiver name) base job =
     (case convertAst X receiver base job of
        Inl e \<Rightarrow> Inl e
      | Inr (r, job1) \<Rightarrow> Inr (SafePropertyReadExpr r name, job1))"
| "convertAst X (SafeCall span receiver args) base job =
     (case convertAst X receiver base job of
        Inl e \<Rightarrow> Inl e
      | Inr (r, job1) \<Rightarrow>
          (case convertAsts X args base job1 of
             Inl e \<Rightarrow> Inl e
           | Inr (as, job2) \<Rightarrow> Inr (SafeInvokeFunctionExpr r as, job2)))"
| "convertAst X (EmptyExpr span) base job =
     Inr (ir_EmptyExpr (convertSourceSpan X span base), job)"
| "convertAst X (PrefixNot span ex) base job =
     (case convertAst X ex base job of
        Inl e \<Rightarrow> Inl e
      | Inr (x, job1) \<Rightarrow> Inr (NotExpr x (convertSourceSpan X span base), job1))"
| "convertAst X ImplicitReceiver base job =
     Inl (unhandled_expression ImplicitReceiver base)"
| "convertAst X (Interpolation strings exprs) base job =
     Inl (unhandled_expression (Interpolation strings exprs) base)"
| "convertAst X (OtherAST n) base job =
     Inl (unhandled_expression (OtherAST n) base)"
| "convertAsts X [] base job = Inr ([], job)"
| "convertAsts X (a # as) base job =
     (case convertAst X a base job of
        Inl e \<Rightarrow> Inl e
      | Inr (x, job1) \<Rightarrow>
          (case convertAsts X as base job1 of
             Inl e \<Rightarrow> Inl e
           | Inr (xs, job2) \<Rightarrow> Inr (x # xs, job2)))"
| "convertEntries X [] vals base job = Inr ([], job)"
| "convertEntries X (k # ks) [] base job = Inl constructor_of_undefined"
| "convertEntries X ((key, quoted) # ks) (v # vs) base job =
     (case convertAst X v base job of
        Inl e \<Rightarrow> Inl e
      | Inr (x, job1) \<Rightarrow>
          (case convertEntries X ks vs base job1 of
             Inl e \<Rightarrow> Inl e
           | Inr (entries, job2) \<Rightarrow> Inr ((key, x, quoted) # entries, job2)))"


section \<open>Template AST (the input)\<close>

text \<open>
  The node classes of the template AST, with the fields ingestion reads.  The children of
  a node are an argument of its constructor; the other fields are a record.
\<close>

record TextAttribute =
  ta_name :: string
  ta_value :: string
  ta_sourceSpan :: ParseSourceSpan
  ta_i18n :: "I18nMeta option"

record BoundAttribute =
  ba_name :: string
  ba_type :: BindingType
  ba_securityContext :: SecurityContext
  ba_value :: AST
  ba_unit :: "string option"
  ba_sourceSpan :: ParseSourceSpan
  ba_i18n :: "I18nMeta option"

record BoundEvent =
  be_name :: string
  be_type :: ParsedEventType
  be_handler :: AST
  be_target :: "string option"
  be_phase :: "string option"
  be_sourceSpan :: ParseSourceSpan
  be_handlerSpan :: ParseSourceSpan

datatype TemplateAttr = TextAttr TextAttribute | BoundAttr BoundAttribute

record Reference =
  reference_name :: string
  reference_value :: string

record ElementInfo =
  el_name :: string
  el_attributes :: "TextAttribute list"
  el_inputs :: "BoundAttribute list"
  el_outputs :: "BoundEvent list"
  el_references :: "Reference list"
  el_sourceSpan :: ParseSourceSpan
  el_startSourceSpan :: ParseSourceSpan
  el_endSourceSpan :: "ParseSourceSpan option"
  el_i18n :: "I18nMeta option"

record TemplateInfo =
  tm_tagName :: "string option"
  tm_attributes :: "TextAttribute list"
  tm_inputs :: "BoundAttribute list"
  tm_outputs :: "BoundEvent list"
  tm_templateAttrs :: "TemplateAttr list"
  tm_references :: "Reference list"
  tm_variables :: "Variable list"
  tm_sourceSpan :: ParseSourceSpan
  tm_startSourceSpan :: ParseSourceSpan
  tm_endSourceSpan :: "ParseSourceSpan option"
  tm_i18n :: "I18nMeta option"

record ContentInfo =
  ct_name :: string
  ct_selector :: string
  ct_attributes :: "TextAttribute list"
  ct_sourceSpan :: ParseSourceSpan
  ct_i18n :: "I18nMeta option"

record TextInfo =
  tx_value :: string
  tx_sourceSpan :: ParseSourceSpan

record BoundTextInfo =
  btx_value :: AST
  btx_sourceSpan :: ParseSourceSpan
  btx_i18n :: "I18nMeta option"

record IfBranchInfo =
  ib_expression :: "AST option"
  ib_expressionAlias :: "Variable option"
  ib_sourceSpan :: ParseSourceSpan
  ib_startSourceSpan :: ParseSourceSpan
  ib_i18n :: "I18nMeta option"

record SwitchInfo =
  sw_expression :: AST
  sw_sourceSpan :: ParseSourceSpan
  sw_startSourceSpan :: ParseSourceSpan

record SwitchCaseInfo =
  sc_expression :: "AST option"
  sc_sourceSpan :: ParseSourceSpan
  sc_startSourceSpan :: ParseSourceSpan
  sc_i18n :: "I18nMeta option"

record WhenTrigger =
  wt_value :: AST
  wt_sourceSpan :: ParseSourceSpan

record TimerTrigger =
  tt_delay :: int
  tt_sourceSpan :: ParseSourceSpan

record ReferenceTrigger =
  rt_reference :: "string option"
  rt_sourceSpan :: ParseSourceSpan

text \<open>
  \<^verbatim>\<open>DeferredBlockTriggers\<close>: every trigger is optional.  An idle or immediate trigger
  has no field but its source span.
\<close>

record DeferredBlockTriggers =
  tr_when :: "WhenTrigger option"
  tr_idle :: "ParseSourceSpan option"
  tr_immediate :: "ParseSourceSpan option"
  tr_hover :: "ReferenceTrigger option"
  tr_timer :: "TimerTrigger option"
  tr_interaction :: "ReferenceTrigger option"
  tr_viewport :: "ReferenceTrigger option"

record DeferredInfo =
  df_identity :: nat
  df_triggers :: DeferredBlockTriggers
  df_prefetchTriggers :: DeferredBlockTriggers
  df_sourceSpan :: ParseSourceSpan
  df_i18n :: "I18nMeta option"

record LoadingInfo =
  ld_afterTime :: "int option"
  ld_minimumTime :: "int option"
  ld_sourceSpan :: ParseSourceSpan
  ld_i18n :: "I18nMeta option"

record PlaceholderInfo =
  ph_minimumTime :: "int option"
  ph_sourceSpan :: ParseSourceSpan
  ph_i18n :: "I18nMeta option"

record ErrorInfo =
  er_sourceSpan :: ParseSourceSpan
  er_i18n :: "I18nMeta option"

datatype IcuText = IcuText TextInfo | IcuBoundText BoundTextInfo

record IcuInfo =
  icu_vars :: "(string \<times> BoundTextInfo) list"
  icu_placeholders :: "(string \<times> IcuText) list"
  icu_sourceSpan :: ParseSourceSpan
  icu_i18n :: "I18nMeta option"

record ForContextVariables =
  cv_index :: Variable
  cv_count :: Variable
  cv_first :: Variable
  cv_last :: Variable
  cv_even :: Variable
  cv_odd :: Variable

text \<open>
  \<^verbatim>\<open>expression\<close> and \<^verbatim>\<open>trackBy\<close> of a loop are \<^verbatim>\<open>ASTWithSource\<close> objects whose \<^verbatim>\<open>span\<close>
  is read; the span is a field of its own here.
\<close>

record ForInfo =
  fl_item :: Variable
  fl_expression :: AST
  fl_expression_span :: ParseSpan
  fl_trackBy :: AST
  fl_trackBy_span :: ParseSpan
  fl_contextVariables :: ForContextVariables
  fl_sourceSpan :: ParseSourceSpan
  fl_startSourceSpan :: ParseSourceSpan
  fl_i18n :: "I18nMeta option"

record EmptyInfo =
  em_sourceSpan :: ParseSourceSpan
  em_i18n :: "I18nMeta option"

datatype Node =
    Element ElementInfo "Node list"
  | Template TemplateInfo "Node list"
  | Content ContentInfo
  | Text TextInfo
  | BoundText BoundTextInfo
  | IfBlock ParseSourceSpan "(IfBranchInfo \<times> Node list) list"
  | SwitchBlock SwitchInfo "(SwitchCaseInfo \<times> Node list) list"
  | DeferredBlock DeferredInfo "Node list" "(LoadingInfo \<times> Node list) option"
      "(PlaceholderInfo \<times> Node list) option" "(ErrorInfo \<times> Node list) option"
  | Icu IcuInfo
  | ForLoopBlock ForInfo "Node list" "(EmptyInfo \<times> Node list) option"
  | Comment
  | OtherNode string

subsection \<open>Host binding input\<close>

text \<open>
  \<^verbatim>\<open>property.expression.ast\<close> and \<^verbatim>\<open>property.isAnimation\<close> are the two things read from
  the expression and the type of a parsed property.
\<close>

record ParsedProperty =
  pp_name :: string
  pp_expression_ast :: AST
  pp_isAnimation :: bool
  pp_sourceSpan :: ParseSourceSpan

record ParsedEvent =
  pe_name :: string
  pe_targetOrPhase :: "string option"
  pe_type :: ParsedEventType
  pe_handler :: AST
  pe_sourceSpan :: ParseSourceSpan
  pe_handlerSpan :: ParseSourceSpan

record HostBindingInput =
  componentName :: string
  componentSelector :: string
  properties :: "ParsedProperty list option"
  attributes :: "(string \<times> Expression) list"
  events :: "ParsedEvent list option"

section \<open>Ingestion\<close>

subsection \<open>Loops over arrays\<close>

text \<open>
  \<^verbatim>\<open>xs.map(f)\<close> and \<^verbatim>\<open>for (const x of xs) f(x)\<close> where \<open>f\<close> changes the job and may
  throw: the first error ends the loop.
\<close>

fun mapE :: "('a \<Rightarrow> 's \<Rightarrow> error + ('b \<times> 's)) \<Rightarrow> 'a list \<Rightarrow> 's \<Rightarrow> error + ('b list \<times> 's)" where
  "mapE f [] s = Inr ([], s)"
| "mapE f (x # xs) s =
     (case f x s of
        Inl e \<Rightarrow> Inl e
      | Inr (y, s1) \<Rightarrow>
          (case mapE f xs s1 of
             Inl e \<Rightarrow> Inl e
           | Inr (ys, s2) \<Rightarrow> Inr (y # ys, s2)))"

fun forE :: "('a \<Rightarrow> 's \<Rightarrow> error + 's) \<Rightarrow> 'a list \<Rightarrow> 's \<Rightarrow> error + 's" where
  "forE f [] s = Inr s"
| "forE f (x # xs) s =
     (case f x s of
        Inl e \<Rightarrow> Inl e
      | Inr s1 \<Rightarrow> forE f xs s1)"

subsection \<open>Small helpers\<close>

text \<open>A number printed by a template literal.\<close>

function show_nat :: "nat \<Rightarrow> string" where
  "show_nat n =
     (if n < 10 then [''0123456789'' ! n]
      else show_nat (n div 10) @ [''0123456789'' ! (n mod 10)])"
  by pat_completeness auto
termination
  by (relation "measure id") auto

definition NG_TEMPLATE_TAG_NAME :: string where
  "NG_TEMPLATE_TAG_NAME = ''ng-template''"

fun astOf :: "AST \<Rightarrow> AST" where
  "astOf (ASTWithSource a) = a"
| "astOf a = a"

text \<open>Ensures that the i18n metadata, if provided, is a message.\<close>

fun asMessage :: "I18nMeta option \<Rightarrow> error + i18n_Message option" where
  "asMessage None = Inr None"
| "asMessage (Some (MetaMessage m)) = Inr (Some m)"
| "asMessage (Some (MetaNode n)) =
     Inl (Error (''Expected i18n meta to be a Message, but got: ''
                  @ meta_constructor_name (MetaNode n)))"

text \<open>A binding value is an expression AST or a string literal.\<close>

datatype BindingValue = ValueAST AST | ValueString string

definition convertAstWithInterpolation ::
  "externals \<Rightarrow> BindingValue \<Rightarrow> I18nMeta option \<Rightarrow> ParseSourceSpan option \<Rightarrow> CompilationJob
     \<Rightarrow> error + (BindingExpression \<times> CompilationJob)" where
  "convertAstWithInterpolation X val i18nMeta sourceSpan job =
     (case val of
        ValueAST (Interpolation strings exprs) \<Rightarrow>
          (case convertAsts X exprs sourceSpan job of
             Inl e \<Rightarrow> Inl e
           | Inr (xs, job1) \<Rightarrow>
               (case asMessage i18nMeta of
                  Inl e \<Rightarrow> Inl e
                | Inr m \<Rightarrow>
                    Inr (ir_Interpolation strings xs
                           (case m of None \<Rightarrow> [] | Some msg \<Rightarrow> msg_placeholders msg), job1)))
      | ValueAST a \<Rightarrow>
          (case convertAst X a sourceSpan job of
             Inl e \<Rightarrow> Inl e
           | Inr (x, job1) \<Rightarrow> Inr (Expr x, job1))
      | ValueString str \<Rightarrow> Inr (Expr (LiteralExpr (LitString str) None), job))"

fun BINDING_KINDS :: "BindingType \<Rightarrow> BindingKind" where
  "BINDING_KINDS bt_Property = Property"
| "BINDING_KINDS bt_Attribute = Attribute"
| "BINDING_KINDS bt_Class = ClassName"
| "BINDING_KINDS bt_Style = StyleProperty"
| "BINDING_KINDS bt_Animation = Animation"

definition makeListenerHandlerOps ::
  "externals \<Rightarrow> AST \<Rightarrow> ParseSourceSpan \<Rightarrow> CompilationJob \<Rightarrow> error + (Op list \<times> CompilationJob)" where
  "makeListenerHandlerOps X handler0 handlerSpan job =
     (let handler = astOf handler0;
          handlerExprs = (case handler of Chain es \<Rightarrow> es | _ \<Rightarrow> [handler])
      in if length handlerExprs = 0
         then Inl (Error ''Expected listener to have non-empty expression list.'')
         else (case convertAsts X handlerExprs (Some handlerSpan) job of
                 Inl e \<Rightarrow> Inl e
               | Inr (expressions, job1) \<Rightarrow>
                   (let returnExpr = last expressions
                    in Inr (map (\<lambda>e. StatementOp (ExpressionStatement e (sourceSpanOf e)))
                              (butlast expressions)
                            @ [StatementOp (ReturnStatement returnExpr (sourceSpanOf returnExpr))],
                            job1))))"

subsection \<open>Host bindings\<close>

definition ingestHostProperty ::
  "externals \<Rightarrow> ParsedProperty \<Rightarrow> BindingKind \<Rightarrow> SecurityContext list \<Rightarrow> CompilationJob
     \<Rightarrow> error + CompilationJob" where
  "ingestHostProperty X property bindingKind securityContexts job =
     (case (case pp_expression_ast property of
              Interpolation strings exprs \<Rightarrow>
                (case convertAsts X exprs (Some (pp_sourceSpan property)) job of
                   Inl e \<Rightarrow> Inl e
                 | Inr (xs, job1) \<Rightarrow> Inr (ir_Interpolation strings xs [], job1))
            | ast \<Rightarrow>
                (case convertAst X ast (Some (pp_sourceSpan property)) job of
                   Inl e \<Rightarrow> Inl e
                 | Inr (x, job1) \<Rightarrow> Inr (Expr x, job1))) of
        Inl e \<Rightarrow> Inl e
      | Inr (expression, job1) \<Rightarrow>
          Inr (update_push (root job1)
                 [BindingOp \<lparr>b_target = root job1, b_kind = bindingKind,
                    b_name = pp_name property, b_expression = expression, b_unit = None,
                    b_securityContext = ManyContexts securityContexts,
                    b_isTextAttribute = False, b_isStructuralTemplateAttribute = False,
                    b_templateKind = None, b_i18nMessage = None,
                    b_sourceSpan = Some (pp_sourceSpan property)\<rparr>] job1))"

definition ingestHostAttribute ::
  "string \<Rightarrow> Expression \<Rightarrow> SecurityContext list \<Rightarrow> CompilationJob \<Rightarrow> CompilationJob" where
  "ingestHostAttribute name val securityContexts job =
     update_push (root job)
       [BindingOp \<lparr>b_target = root job, b_kind = Attribute, b_name = name,
          b_expression = Expr val, b_unit = None,
          b_securityContext = ManyContexts securityContexts,
          b_isTextAttribute = True, b_isStructuralTemplateAttribute = False,
          b_templateKind = None, b_i18nMessage = None,
          b_sourceSpan = sourceSpanOf val\<rparr>] job"

definition ingestHostEvent ::
  "externals \<Rightarrow> ParsedEvent \<Rightarrow> CompilationJob \<Rightarrow> error + CompilationJob" where
  "ingestHostEvent X event job =
     (let (phase, target) =
            (if pe_type event = Regular then (None, pe_targetOrPhase event)
             else (pe_targetOrPhase event, None))
      in case makeListenerHandlerOps X (pe_handler event) (pe_handlerSpan event) job of
           Inl e \<Rightarrow> Inl e
         | Inr (handlerOps, job1) \<Rightarrow>
             Inr (create_push (root job1)
                    [ListenerOp (root job1) NewSlotHandle (pe_name event) None handlerOps
                       phase target True (pe_sourceSpan event)] job1))"

text \<open>\<^verbatim>\<open>name.startsWith('attr.')\<close> and \<^verbatim>\<open>name.substring('attr.'.length)\<close>.\<close>

definition startsWith :: "string \<Rightarrow> string \<Rightarrow> bool" where
  "startsWith s p = (take (length p) s = p)"

definition substring :: "string \<Rightarrow> nat \<Rightarrow> string" where
  "substring s n = drop n s"

text \<open>
  The loop over \<^verbatim>\<open>input.properties\<close>.  The loop assigns to \<^verbatim>\<open>property.name\<close>, a field of
  an object the caller owns, and the assignment stays when a later step throws.  The
  function therefore returns the properties as the loop leaves them, next to the job
  or the error.
\<close>

fun ingestHostProperties ::
  "externals \<Rightarrow> string \<Rightarrow> ParsedProperty list \<Rightarrow> CompilationJob
     \<Rightarrow> ParsedProperty list \<times> (error + CompilationJob)" where
  "ingestHostProperties X selector [] job = ([], Inr job)"
| "ingestHostProperties X selector (property0 # rest) job =
     (let bindingKind0 = Property;
          (property, bindingKind1) =
            (if startsWith (pp_name property0) ''attr.''
             then (property0\<lparr>pp_name := substring (pp_name property0) (length ''attr.'')\<rparr>,
                   Attribute)
             else (property0, bindingKind0));
          bindingKind = (if pp_isAnimation property then Animation else bindingKind1);
          securityContexts =
            filter (\<lambda>context. context \<noteq> NONE)
              (calcPossibleSecurityContexts X selector (pp_name property)
                 (bindingKind = Attribute))
      in case ingestHostProperty X property bindingKind securityContexts job of
           Inl e \<Rightarrow> (property # rest, Inl e)
         | Inr job1 \<Rightarrow>
             (let (rest1, r) = ingestHostProperties X selector rest job1
              in (property # rest1, r)))"

text \<open>
  \<^verbatim>\<open>ingestHostBinding\<close>.  The job is the freshly constructed
  \<^verbatim>\<open>HostBindingCompilationJob\<close>, whose constructor is not among the sources; it is an
  argument.  The result is the input as ingestion leaves it, and the job or the error.
\<close>

definition ingestHostBinding ::
  "externals \<Rightarrow> HostBindingInput \<Rightarrow> CompilationJob
     \<Rightarrow> HostBindingInput \<times> (error + CompilationJob)" where
  "ingestHostBinding X input job =
     (let (input1, r) =
            (case properties input of
               None \<Rightarrow>
                 (let (ps1, r1) = ingestHostProperties X (componentSelector input) [] job
                  in (input, r1))
             | Some ps \<Rightarrow>
                 (let (ps1, r1) = ingestHostProperties X (componentSelector input) ps job
                  in (input\<lparr>properties := Some ps1\<rparr>, r1)))
      in (input1,
          (case r of
             Inl e \<Rightarrow> Inl e
           | Inr job1 \<Rightarrow>
               (let job2 =
                      fold (\<lambda>(name, expr) j.
                              ingestHostAttribute name expr
                                (filter (\<lambda>context. context \<noteq> NONE)
                                   (calcPossibleSecurityContexts X (componentSelector input)
                                      name True)) j)
                        (attributes input) job1
                in forE (ingestHostEvent X)
                     (case events input of None \<Rightarrow> [] | Some es \<Rightarrow> es) job2))))"


subsection \<open>Bindings of elements and templates\<close>

text \<open>
  The element-like operation handed to the binding functions: its \<^verbatim>\<open>xref\<close>, its \<^verbatim>\<open>tag\<close>
  and its \<^verbatim>\<open>handle\<close> are read.
\<close>

fun op_xref :: "Op \<Rightarrow> XrefId" where
  "op_xref (ElementStartOp r) = es_xref r"
| "op_xref (TemplateOp r) = tp_xref r"
| "op_xref _ = 0"

fun op_tag :: "Op \<Rightarrow> string option" where
  "op_tag (ElementStartOp r) = Some (es_tag r)"
| "op_tag (TemplateOp r) = tp_tag r"
| "op_tag _ = None"

definition op_handle :: "Op \<Rightarrow> SlotHandle" where
  "op_handle op = HandleOf (op_xref op)"

text \<open>
  The array \<^verbatim>\<open>bindings\<close> holds binding operations, extracted-attribute operations and
  \<^verbatim>\<open>null\<close>.  The two filters select by \<^verbatim>\<open>b?.kind\<close>; \<^verbatim>\<open>b?.i18nMessage\<close> is truthy for an
  operation with a message.
\<close>

fun is_ExtractedAttribute :: "Op option \<Rightarrow> bool" where
  "is_ExtractedAttribute (Some (ExtractedAttributeOp _)) = True"
| "is_ExtractedAttribute _ = False"

fun is_Binding :: "Op option \<Rightarrow> bool" where
  "is_Binding (Some (BindingOp _)) = True"
| "is_Binding _ = False"

fun has_i18nMessage :: "Op option \<Rightarrow> bool" where
  "has_i18nMessage (Some (BindingOp b)) = (b_i18nMessage b \<noteq> None)"
| "has_i18nMessage (Some (ExtractedAttributeOp a)) = (ea_i18nMessage a \<noteq> None)"
| "has_i18nMessage _ = False"

text \<open>
  \<^verbatim>\<open>bindings.some(b => b?.i18nMessage) !== null\<close>: the boolean that \<^verbatim>\<open>some\<close> returns, as
  a value that could be \<^verbatim>\<open>null\<close> (\<open>None\<close>), is compared with \<^verbatim>\<open>null\<close>.
\<close>

definition some_i18nMessage_not_null :: "Op option list \<Rightarrow> bool" where
  "some_i18nMessage_not_null bindings = (Some (list_ex has_i18nMessage bindings) \<noteq> None)"

definition ingestListener ::
  "externals \<Rightarrow> XrefId \<Rightarrow> Op \<Rightarrow> BoundEvent \<Rightarrow> CompilationJob \<Rightarrow> error + CompilationJob" where
  "ingestListener X unit op output job =
     (case makeListenerHandlerOps X (be_handler output) (be_handlerSpan output) job of
        Inl e \<Rightarrow> Inl e
      | Inr (handlerOps, job1) \<Rightarrow>
          Inr (create_push unit
                 [ListenerOp (op_xref op) (op_handle op) (be_name output) (op_tag op)
                    handlerOps (be_phase output) (be_target output) False
                    (be_sourceSpan output)] job1))"

text \<open>
  The bodies of the three loops of \<^verbatim>\<open>ingestElementBindings\<close>: over \<^verbatim>\<open>element.attributes\<close>
  (attribute literals), over \<^verbatim>\<open>element.inputs\<close> (dynamic bindings) and over
  \<^verbatim>\<open>element.outputs\<close>.  The first two give the binding that is pushed onto \<^verbatim>\<open>bindings\<close>.
\<close>

definition elementAttributeBinding ::
  "externals \<Rightarrow> Op \<Rightarrow> ElementInfo \<Rightarrow> TextAttribute \<Rightarrow> CompilationJob
     \<Rightarrow> error + (Op option \<times> CompilationJob)" where
  "elementAttributeBinding X op element attr job =
     (let securityContext = domSchema_securityContext X (el_name element) (ta_name attr) True
      in case convertAstWithInterpolation X (ValueString (ta_value attr)) (ta_i18n attr)
                None job of
           Inl e \<Rightarrow> Inl e
         | Inr (expression, job1) \<Rightarrow>
             (case asMessage (ta_i18n attr) of
                Inl e \<Rightarrow> Inl e
              | Inr m \<Rightarrow>
                  Inr (Some (BindingOp
                         \<lparr>b_target = op_xref op, b_kind = Attribute, b_name = ta_name attr,
                          b_expression = expression, b_unit = None,
                          b_securityContext = OneContext securityContext,
                          b_isTextAttribute = True,
                          b_isStructuralTemplateAttribute = False,
                          b_templateKind = None, b_i18nMessage = m,
                          b_sourceSpan = Some (ta_sourceSpan attr)\<rparr>), job1)))"

definition elementInputBinding ::
  "externals \<Rightarrow> Op \<Rightarrow> BoundAttribute \<Rightarrow> CompilationJob
     \<Rightarrow> error + (Op option \<times> CompilationJob)" where
  "elementInputBinding X op input job =
     (case convertAstWithInterpolation X (ValueAST (astOf (ba_value input))) (ba_i18n input)
             None job of
        Inl e \<Rightarrow> Inl e
      | Inr (expression, job1) \<Rightarrow>
          (case asMessage (ba_i18n input) of
             Inl e \<Rightarrow> Inl e
           | Inr m \<Rightarrow>
               Inr (Some (BindingOp
                      \<lparr>b_target = op_xref op, b_kind = BINDING_KINDS (ba_type input),
                       b_name = ba_name input, b_expression = expression,
                       b_unit = ba_unit input,
                       b_securityContext = OneContext (ba_securityContext input),
                       b_isTextAttribute = False,
                       b_isStructuralTemplateAttribute = False,
                       b_templateKind = None, b_i18nMessage = m,
                       b_sourceSpan = Some (ba_sourceSpan input)\<rparr>), job1)))"

definition elementOutput ::
  "externals \<Rightarrow> XrefId \<Rightarrow> Op \<Rightarrow> BoundEvent \<Rightarrow> CompilationJob \<Rightarrow> error + CompilationJob" where
  "elementOutput X unit op output job =
     (if be_type output = pe_Animation \<and> be_phase output = None
      then Inl (Error ''Animation listener should have a phase'')
      else ingestListener X unit op output job)"

text \<open>
  The end of both binding functions: the i18n-attributes operation, under the test on
  the bindings.
\<close>

definition i18nAttributes_push ::
  "XrefId \<Rightarrow> Op \<Rightarrow> Op option list \<Rightarrow> CompilationJob \<Rightarrow> CompilationJob" where
  "i18nAttributes_push unit op bindings job =
     (if some_i18nMessage_not_null bindings
      then (let (x, job1) = allocateXrefId job
            in create_push unit [I18nAttributesOp x NewSlotHandle (op_xref op)] job1)
      else job)"

definition ingestElementBindings ::
  "externals \<Rightarrow> XrefId \<Rightarrow> Op \<Rightarrow> ElementInfo \<Rightarrow> CompilationJob \<Rightarrow> error + CompilationJob" where
  "ingestElementBindings X unit op element job =
     (case mapE (elementAttributeBinding X op element) (el_attributes element) job of
        Inl e \<Rightarrow> Inl e
      | Inr (bindings1, job1) \<Rightarrow>
     (case mapE (elementInputBinding X op) (el_inputs element) job1 of
        Inl e \<Rightarrow> Inl e
      | Inr (bindings2, job2) \<Rightarrow>
     (let bindings = bindings1 @ bindings2;
          job3 = create_push unit (map the (filter is_ExtractedAttribute bindings)) job2;
          job4 = update_push unit (map the (filter is_Binding bindings)) job3
      in case forE (elementOutput X unit op) (el_outputs element) job4 of
           Inl e \<Rightarrow> Inl e
         | Inr job5 \<Rightarrow> Inr (i18nAttributes_push unit op bindings job5))))"

text \<open>
  \<^verbatim>\<open>createTemplateBinding\<close>: one binding on a template, either an explicit
  \<^verbatim>\<open>ng-template\<close> or the implicit template of a structural directive.  The result is a
  binding operation, an extracted attribute, or \<^verbatim>\<open>null\<close> for a binding that is skipped.
\<close>

definition createTemplateBinding ::
  "externals \<Rightarrow> XrefId \<Rightarrow> BindingType \<Rightarrow> string \<Rightarrow> BindingValue \<Rightarrow> string option
     \<Rightarrow> SecurityContext \<Rightarrow> bool \<Rightarrow> TemplateKind option \<Rightarrow> i18n_Message option
     \<Rightarrow> ParseSourceSpan \<Rightarrow> CompilationJob \<Rightarrow> error + (Op option \<times> CompilationJob)" where
  "createTemplateBinding X xrefId type name val unit securityContext
       isStructuralTemplateAttribute templateKind i18nMessage sourceSpan job =
     (let isTextBinding = (case val of ValueString _ \<Rightarrow> True | ValueAST _ \<Rightarrow> False)
      in if templateKind = Some Structural \<and> \<not> isStructuralTemplateAttribute
              \<and> (type = bt_Property \<or> type = bt_Class \<or> type = bt_Style)
         then Inr (Some (ExtractedAttributeOp
                     \<lparr>ea_target = xrefId, ea_bindingKind = Property, ea_namespace = None,
                      ea_name = name, ea_expression = None, ea_i18nContext = None,
                      ea_i18nMessage = i18nMessage,
                      ea_securityContext = OneContext securityContext\<rparr>), job)
         else if templateKind = Some Structural \<and> \<not> isTextBinding
              \<and> (type = bt_Attribute \<or> type = bt_Animation)
         then Inr (None, job)
         else
           (let bindingType0 = BINDING_KINDS type;
                bindingType =
                  (if templateKind = Some NgTemplate
                      \<and> (type = bt_Class \<or> type = bt_Style
                           \<or> (type = bt_Attribute \<and> \<not> isTextBinding))
                   then Property else bindingType0)
            in case convertAstWithInterpolation X val (map_option MetaMessage i18nMessage)
                      None job of
                 Inl e \<Rightarrow> Inl e
               | Inr (expression, job1) \<Rightarrow>
                   Inr (Some (BindingOp
                          \<lparr>b_target = xrefId, b_kind = bindingType, b_name = name,
                           b_expression = expression, b_unit = unit,
                           b_securityContext = OneContext securityContext,
                           b_isTextAttribute = isTextBinding,
                           b_isStructuralTemplateAttribute = isStructuralTemplateAttribute,
                           b_templateKind = templateKind, b_i18nMessage = i18nMessage,
                           b_sourceSpan = Some sourceSpan\<rparr>), job1)))"

text \<open>
  The bodies of the four loops of \<^verbatim>\<open>ingestTemplateBindings\<close>: over
  \<^verbatim>\<open>template.templateAttrs\<close>, \<^verbatim>\<open>template.attributes\<close>, \<^verbatim>\<open>template.inputs\<close> and
  \<^verbatim>\<open>template.outputs\<close>.
\<close>

definition templateAttrBinding ::
  "externals \<Rightarrow> Op \<Rightarrow> TemplateKind option \<Rightarrow> TemplateAttr \<Rightarrow> CompilationJob
     \<Rightarrow> error + (Op option \<times> CompilationJob)" where
  "templateAttrBinding X op templateKind attr job =
     (case attr of
        TextAttr a \<Rightarrow>
          (let securityContext = domSchema_securityContext X NG_TEMPLATE_TAG_NAME (ta_name a) True
           in case asMessage (ta_i18n a) of
                Inl e \<Rightarrow> Inl e
              | Inr m \<Rightarrow>
                  createTemplateBinding X (op_xref op) bt_Attribute (ta_name a)
                    (ValueString (ta_value a)) None securityContext True templateKind m
                    (ta_sourceSpan a) job)
      | BoundAttr a \<Rightarrow>
          (case asMessage (ba_i18n a) of
             Inl e \<Rightarrow> Inl e
           | Inr m \<Rightarrow>
               createTemplateBinding X (op_xref op) (ba_type a) (ba_name a)
                 (ValueAST (astOf (ba_value a))) (ba_unit a) (ba_securityContext a) True
                 templateKind m (ba_sourceSpan a) job))"

definition templateAttributeBinding ::
  "externals \<Rightarrow> Op \<Rightarrow> TemplateKind option \<Rightarrow> TextAttribute \<Rightarrow> CompilationJob
     \<Rightarrow> error + (Op option \<times> CompilationJob)" where
  "templateAttributeBinding X op templateKind attr job =
     (let securityContext = domSchema_securityContext X NG_TEMPLATE_TAG_NAME (ta_name attr) True
      in case asMessage (ta_i18n attr) of
           Inl e \<Rightarrow> Inl e
         | Inr m \<Rightarrow>
             createTemplateBinding X (op_xref op) bt_Attribute (ta_name attr)
               (ValueString (ta_value attr)) None securityContext False templateKind m
               (ta_sourceSpan attr) job)"

definition templateInputBinding ::
  "externals \<Rightarrow> Op \<Rightarrow> TemplateKind option \<Rightarrow> BoundAttribute \<Rightarrow> CompilationJob
     \<Rightarrow> error + (Op option \<times> CompilationJob)" where
  "templateInputBinding X op templateKind input job =
     (case asMessage (ba_i18n input) of
        Inl e \<Rightarrow> Inl e
      | Inr m \<Rightarrow>
          createTemplateBinding X (op_xref op) (ba_type input) (ba_name input)
            (ValueAST (astOf (ba_value input))) (ba_unit input) (ba_securityContext input)
            False templateKind m (ba_sourceSpan input) job)"

definition templateOutput ::
  "externals \<Rightarrow> XrefId \<Rightarrow> Op \<Rightarrow> TemplateKind option \<Rightarrow> BoundEvent \<Rightarrow> CompilationJob
     \<Rightarrow> error + CompilationJob" where
  "templateOutput X unit op templateKind output job =
     (if be_type output = pe_Animation \<and> be_phase output = None
      then Inl (Error ''Animation listener should have a phase'')
      else
        (case (if templateKind = Some NgTemplate then ingestListener X unit op output job
               else Inr job) of
           Inl e \<Rightarrow> Inl e
         | Inr job1 \<Rightarrow>
             (if templateKind = Some Structural \<and> be_type output \<noteq> pe_Animation
              then (let securityContext =
                          domSchema_securityContext X NG_TEMPLATE_TAG_NAME (be_name output)
                            False
                    in Inr (create_push unit
                              [ExtractedAttributeOp
                                 \<lparr>ea_target = op_xref op, ea_bindingKind = Property,
                                  ea_namespace = None, ea_name = be_name output,
                                  ea_expression = None, ea_i18nContext = None,
                                  ea_i18nMessage = None,
                                  ea_securityContext = OneContext securityContext\<rparr>] job1))
              else Inr job1)))"

definition ingestTemplateBindings ::
  "externals \<Rightarrow> XrefId \<Rightarrow> Op \<Rightarrow> TemplateInfo \<Rightarrow> TemplateKind option \<Rightarrow> CompilationJob
     \<Rightarrow> error + CompilationJob" where
  "ingestTemplateBindings X unit op template templateKind job =
     (case mapE (templateAttrBinding X op templateKind) (tm_templateAttrs template) job of
        Inl e \<Rightarrow> Inl e
      | Inr (bindings1, job1) \<Rightarrow>
     (case mapE (templateAttributeBinding X op templateKind) (tm_attributes template) job1 of
        Inl e \<Rightarrow> Inl e
      | Inr (bindings2, job2) \<Rightarrow>
     (case mapE (templateInputBinding X op templateKind) (tm_inputs template) job2 of
        Inl e \<Rightarrow> Inl e
      | Inr (bindings3, job3) \<Rightarrow>
     (let bindings = bindings1 @ bindings2 @ bindings3;
          job4 = create_push unit (map the (filter is_ExtractedAttribute bindings)) job3;
          job5 = update_push unit (map the (filter is_Binding bindings)) job4
      in case forE (templateOutput X unit op templateKind) (tm_outputs template) job5 of
           Inl e \<Rightarrow> Inl e
         | Inr job6 \<Rightarrow> Inr (i18nAttributes_push unit op bindings job6)))))"

text \<open>
  \<^verbatim>\<open>ingestReferences\<close> pushes onto \<^verbatim>\<open>op.localRefs\<close>, where \<^verbatim>\<open>op\<close> is the element-start or
  template operation already in the unit's create list: the operation with that id is
  changed in place.
\<close>

fun localRefs_push :: "LocalRef list \<Rightarrow> Op \<Rightarrow> Op" where
  "localRefs_push refs (ElementStartOp r) =
     ElementStartOp (r\<lparr>es_localRefs := es_localRefs r @ refs\<rparr>)"
| "localRefs_push refs (TemplateOp r) = TemplateOp (r\<lparr>tp_localRefs := tp_localRefs r @ refs\<rparr>)"
| "localRefs_push refs op = op"

fun is_ElementOpBase :: "Op \<Rightarrow> bool" where
  "is_ElementOpBase (ElementStartOp _) = True"
| "is_ElementOpBase (TemplateOp _) = True"
| "is_ElementOpBase _ = False"

definition ingestReferences ::
  "XrefId \<Rightarrow> XrefId \<Rightarrow> Reference list \<Rightarrow> CompilationJob \<Rightarrow> CompilationJob" where
  "ingestReferences unit opXref references job =
     updView unit
       (\<lambda>v. v\<lparr>create :=
                 map (\<lambda>op. if is_ElementOpBase op \<and> op_xref op = opXref
                           then localRefs_push
                                  (map (\<lambda>r. \<lparr>ref_name = reference_name r,
                                             ref_target = reference_value r\<rparr>) references) op
                           else op)
                   (create v)\<rparr>) job"

subsection \<open>Content-projection insertion point of a control-flow block\<close>

fun is_Comment :: "Node \<Rightarrow> bool" where
  "is_Comment Comment = True"
| "is_Comment _ = False"

text \<open>\<^verbatim>\<open>child instanceof t.Element || (child instanceof t.Template && child.tagName !== null)\<close>\<close>

fun is_root_candidate :: "Node \<Rightarrow> bool" where
  "is_root_candidate (Element _ _) = True"
| "is_root_candidate (Template info _) = (tm_tagName info \<noteq> None)"
| "is_root_candidate _ = False"

text \<open>
  The loop of \<^verbatim>\<open>ingestControlFlowInsertionPoint\<close> over \<^verbatim>\<open>node.children\<close>, with the variable
  \<^verbatim>\<open>root\<close> as an argument.  The result \<open>None\<close> is the early \<^verbatim>\<open>return null\<close>;
  \<open>Some root\<close> is the value of \<^verbatim>\<open>root\<close> when the loop ends.
\<close>

fun insertionPoint_loop :: "Node list \<Rightarrow> Node option \<Rightarrow> Node option option" where
  "insertionPoint_loop [] rootNode = Some rootNode"
| "insertionPoint_loop (child # rest) rootNode =
     (if is_Comment child then insertionPoint_loop rest rootNode
      else if rootNode \<noteq> None then None
      else if is_root_candidate child then insertionPoint_loop rest (Some child)
      else insertionPoint_loop rest rootNode)"

fun root_attributes :: "Node \<Rightarrow> TextAttribute list" where
  "root_attributes (Element info _) = el_attributes info"
| "root_attributes (Template info _) = tm_attributes info"
| "root_attributes _ = []"

text \<open>\<^verbatim>\<open>root instanceof t.Element ? root.name : root.tagName\<close>\<close>

fun root_tagName :: "Node \<Rightarrow> string option" where
  "root_tagName (Element info _) = Some (el_name info)"
| "root_tagName (Template info _) = tm_tagName info"
| "root_tagName _ = None"

text \<open>
  A static attribute as a binding operation that is pushed to the update list of a unit:
  the body of the loop over the attributes of the root node below, and of the loop over
  the attributes of a content node.
\<close>

definition staticAttribute_push ::
  "externals \<Rightarrow> XrefId \<Rightarrow> XrefId \<Rightarrow> string \<Rightarrow> TextAttribute \<Rightarrow> CompilationJob
     \<Rightarrow> error + CompilationJob" where
  "staticAttribute_push X unit xrefId tagName attr job =
     (let securityContext = domSchema_securityContext X tagName (ta_name attr) True
      in case asMessage (ta_i18n attr) of
           Inl e \<Rightarrow> Inl e
         | Inr m \<Rightarrow>
             Inr (update_push unit
                    [BindingOp
                       \<lparr>b_target = xrefId, b_kind = Attribute, b_name = ta_name attr,
                        b_expression = Expr (LiteralExpr (LitString (ta_value attr)) None),
                        b_unit = None, b_securityContext = OneContext securityContext,
                        b_isTextAttribute = True, b_isStructuralTemplateAttribute = False,
                        b_templateKind = None, b_i18nMessage = m,
                        b_sourceSpan = Some (ta_sourceSpan attr)\<rparr>] job))"

definition ingestControlFlowInsertionPoint ::
  "externals \<Rightarrow> XrefId \<Rightarrow> XrefId \<Rightarrow> Node list \<Rightarrow> CompilationJob
     \<Rightarrow> error + (string option \<times> CompilationJob)" where
  "ingestControlFlowInsertionPoint X unit xrefId children job =
     (case insertionPoint_loop children None of
        None \<Rightarrow> Inr (None, job)
      | Some None \<Rightarrow> Inr (None, job)
      | Some (Some rootNode) \<Rightarrow>
          (case forE (staticAttribute_push X unit xrefId NG_TEMPLATE_TAG_NAME)
                  (root_attributes rootNode) job of
             Inl e \<Rightarrow> Inl e
           | Inr job1 \<Rightarrow>
               (let tagName = root_tagName rootNode
                in Inr (if tagName = Some NG_TEMPLATE_TAG_NAME then None else tagName, job1))))"

subsection \<open>Triggers of a deferred block\<close>

fun is_Interpolation :: "AST \<Rightarrow> bool" where
  "is_Interpolation (Interpolation _ _) = True"
| "is_Interpolation _ = False"

definition referenceTarget :: "ReferenceTrigger \<Rightarrow> TriggerTarget" where
  "referenceTarget t =
     \<lparr>targetName = rt_reference t, targetXref = None, targetSlot = None, targetView = None,
      targetSlotViewSteps = None\<rparr>"

text \<open>
  One round of the loop \<^verbatim>\<open>for (const triggers of [deferBlock.triggers,
  deferBlock.prefetchTriggers])\<close> of \<^verbatim>\<open>ingestDeferBlock\<close>, on the arrays \<^verbatim>\<open>deferOnOps\<close> and
  \<^verbatim>\<open>deferWhenOps\<close>: each trigger that is present pushes its operation, tagged with the
  current value of \<^verbatim>\<open>prefetch\<close>; then, if both arrays are empty, the default idle
  trigger is pushed, with \<^verbatim>\<open>prefetch\<close> false and no source span.
\<close>

definition deferTriggers_round ::
  "externals \<Rightarrow> XrefId \<Rightarrow> bool \<Rightarrow> DeferredBlockTriggers \<Rightarrow> Op list \<Rightarrow> Op list
     \<Rightarrow> CompilationJob \<Rightarrow> error + ((Op list \<times> Op list) \<times> CompilationJob)" where
  "deferTriggers_round X deferXref prefetch triggers deferOnOps0 deferWhenOps0 job =
     (let deferOnOps1 =
            (case tr_idle triggers of
               None \<Rightarrow> deferOnOps0
             | Some sp \<Rightarrow> deferOnOps0 @ [DeferOnOp deferXref Idle prefetch (Some sp)]);
          deferOnOps2 =
            (case tr_immediate triggers of
               None \<Rightarrow> deferOnOps1
             | Some sp \<Rightarrow> deferOnOps1 @ [DeferOnOp deferXref Immediate prefetch (Some sp)]);
          deferOnOps3 =
            (case tr_timer triggers of
               None \<Rightarrow> deferOnOps2
             | Some t \<Rightarrow>
                 deferOnOps2
                 @ [DeferOnOp deferXref (Timer (tt_delay t)) prefetch (Some (tt_sourceSpan t))]);
          deferOnOps4 =
            (case tr_hover triggers of
               None \<Rightarrow> deferOnOps3
             | Some t \<Rightarrow>
                 deferOnOps3
                 @ [DeferOnOp deferXref (Hover (referenceTarget t)) prefetch
                      (Some (rt_sourceSpan t))]);
          deferOnOps5 =
            (case tr_interaction triggers of
               None \<Rightarrow> deferOnOps4
             | Some t \<Rightarrow>
                 deferOnOps4
                 @ [DeferOnOp deferXref (Interaction (referenceTarget t)) prefetch
                      (Some (rt_sourceSpan t))]);
          deferOnOps6 =
            (case tr_viewport triggers of
               None \<Rightarrow> deferOnOps5
             | Some t \<Rightarrow>
                 deferOnOps5
                 @ [DeferOnOp deferXref (Viewport (referenceTarget t)) prefetch
                      (Some (rt_sourceSpan t))])
      in case (case tr_when triggers of
                 None \<Rightarrow> Inr (deferWhenOps0, job)
               | Some w \<Rightarrow>
                   (if is_Interpolation (wt_value w)
                    then Inl (Error ''Unexpected interpolation in defer block when trigger'')
                    else (case convertAst X (wt_value w) (Some (wt_sourceSpan w)) job of
                            Inl e \<Rightarrow> Inl e
                          | Inr (x, job1) \<Rightarrow>
                              Inr (deferWhenOps0
                                   @ [DeferWhenOp deferXref x prefetch (wt_sourceSpan w)],
                                   job1)))) of
           Inl e \<Rightarrow> Inl e
         | Inr (deferWhenOps1, job1) \<Rightarrow>
             (if length deferOnOps6 = 0 \<and> length deferWhenOps1 = 0
              then Inr ((deferOnOps6 @ [DeferOnOp deferXref Idle False None], deferWhenOps1),
                        job1)
              else Inr ((deferOnOps6, deferWhenOps1), job1)))"

text \<open>The loop itself: \<^verbatim>\<open>prefetch\<close> is set to true at the end of every round.\<close>

fun deferTriggers_loop ::
  "externals \<Rightarrow> XrefId \<Rightarrow> DeferredBlockTriggers list \<Rightarrow> bool \<Rightarrow> Op list \<Rightarrow> Op list
     \<Rightarrow> CompilationJob \<Rightarrow> error + ((Op list \<times> Op list) \<times> CompilationJob)" where
  "deferTriggers_loop X deferXref [] prefetch deferOnOps deferWhenOps job =
     Inr ((deferOnOps, deferWhenOps), job)"
| "deferTriggers_loop X deferXref (triggers # rest) prefetch deferOnOps deferWhenOps job =
     (case deferTriggers_round X deferXref prefetch triggers deferOnOps deferWhenOps job of
        Inl e \<Rightarrow> Inl e
      | Inr ((deferOnOps1, deferWhenOps1), job1) \<Rightarrow>
          deferTriggers_loop X deferXref rest True deferOnOps1 deferWhenOps1 job1)"

text \<open>
  The trigger part of \<^verbatim>\<open>ingestDeferBlock\<close>: \<^verbatim>\<open>prefetch\<close> starts false, both arrays start
  empty, and the loop runs over the regular and then the prefetch triggers.
\<close>

definition ingestDeferTriggers ::
  "externals \<Rightarrow> XrefId \<Rightarrow> DeferredBlockTriggers \<Rightarrow> DeferredBlockTriggers \<Rightarrow> CompilationJob
     \<Rightarrow> error + ((Op list \<times> Op list) \<times> CompilationJob)" where
  "ingestDeferTriggers X deferXref triggers prefetchTriggers job =
     deferTriggers_loop X deferXref [triggers, prefetchTriggers] False [] [] job"

subsection \<open>Leaf nodes\<close>

definition ingestContent ::
  "externals \<Rightarrow> XrefId \<Rightarrow> ContentInfo \<Rightarrow> CompilationJob \<Rightarrow> error + CompilationJob" where
  "ingestContent X unit content job =
     (case (case ct_i18n content of
              Some (MetaNode (i18n_TagPlaceholder _)) \<Rightarrow> Inr ()
            | Some m \<Rightarrow>
                Inl (Error (''Unhandled i18n metadata type for element: ''
                             @ meta_constructor_name m))
            | None \<Rightarrow> Inr ()) of
        Inl e \<Rightarrow> Inl e
      | Inr _ \<Rightarrow>
          (let (x, job1) = allocateXrefId job;
               op = ProjectionOp x (ct_selector content) (ct_i18n content)
                      (ct_sourceSpan content)
           in case forE (staticAttribute_push X unit x (ct_name content))
                     (ct_attributes content) job1 of
                Inl e \<Rightarrow> Inl e
              | Inr job2 \<Rightarrow> Inr (create_push unit [op] job2)))"

definition ingestText ::
  "XrefId \<Rightarrow> TextInfo \<Rightarrow> string option \<Rightarrow> CompilationJob \<Rightarrow> CompilationJob" where
  "ingestText unit text icuPlaceholder job =
     (let (x, job1) = allocateXrefId job
      in create_push unit [TextOp x (tx_value text) icuPlaceholder (tx_sourceSpan text)] job1)"

fun placeholder_names :: "i18n_Node list \<Rightarrow> string list" where
  "placeholder_names [] = []"
| "placeholder_names (i18n_Placeholder n # ns) = n # placeholder_names ns"
| "placeholder_names (_ # ns) = placeholder_names ns"

text \<open>\<^verbatim>\<open>unit.job.compatibility ? null : text.sourceSpan\<close>: the mode \<^verbatim>\<open>Normal\<close> is falsy.\<close>

definition ingestBoundText ::
  "externals \<Rightarrow> XrefId \<Rightarrow> BoundTextInfo \<Rightarrow> string option \<Rightarrow> CompilationJob
     \<Rightarrow> error + CompilationJob" where
  "ingestBoundText X unit text icuPlaceholder job =
     (case astOf (btx_value text) of
        Interpolation strings exprs \<Rightarrow>
          (case (case btx_i18n text of
                   None \<Rightarrow> Inr []
                 | Some (MetaNode (i18n_Container children)) \<Rightarrow> Inr (placeholder_names children)
                 | Some m \<Rightarrow>
                     Inl (Error (''Unhandled i18n metadata type for text interpolation: ''
                                  @ meta_constructor_name m))) of
             Inl e \<Rightarrow> Inl e
           | Inr i18nPlaceholders \<Rightarrow>
               (if length i18nPlaceholders > 0 \<and> length i18nPlaceholders \<noteq> length exprs
                then Inl (Error (''Unexpected number of i18n placeholders (''
                                  @ show_nat (length exprs) @ '') for BoundText with ''
                                  @ show_nat (length exprs) @ '' expressions''))
                else
                  (let (textXref, job1) = allocateXrefId job;
                       job2 = create_push unit
                                [TextOp textXref [] icuPlaceholder (btx_sourceSpan text)] job1;
                       baseSourceSpan =
                         (if compatibility job2 \<noteq> Normal then None
                          else Some (btx_sourceSpan text))
                   in case convertAsts X exprs baseSourceSpan job2 of
                        Inl e \<Rightarrow> Inl e
                      | Inr (xs, job3) \<Rightarrow>
                          Inr (update_push unit
                                 [InterpolateTextOp textXref
                                    (ir_Interpolation strings xs i18nPlaceholders)
                                    (btx_sourceSpan text)] job3))))
      | other \<Rightarrow>
          Inl (Error (''AssertionError: expected Interpolation for BoundText node, got ''
                       @ constructor_name other)))"

text \<open>
  \<^verbatim>\<open>Object.entries({...icu.vars, ...icu.placeholders})\<close>: a key that occurs twice keeps
  its first place and takes the later value.
\<close>

definition icu_entries :: "IcuInfo \<Rightarrow> (string \<times> IcuText) list" where
  "icu_entries icu =
     fold (\<lambda>(k, v) m. map_set k v m)
       (map (\<lambda>(k, v). (k, IcuBoundText v)) (icu_vars icu) @ icu_placeholders icu) []"

definition icuEntry ::
  "externals \<Rightarrow> XrefId \<Rightarrow> string \<times> IcuText \<Rightarrow> CompilationJob \<Rightarrow> error + CompilationJob" where
  "icuEntry X unit entry job =
     (case entry of
        (placeholder, IcuBoundText t) \<Rightarrow> ingestBoundText X unit t (Some placeholder) job
      | (placeholder, IcuText t) \<Rightarrow> Inr (ingestText unit t (Some placeholder) job))"

definition ingestIcu ::
  "externals \<Rightarrow> XrefId \<Rightarrow> IcuInfo \<Rightarrow> CompilationJob \<Rightarrow> error + CompilationJob" where
  "ingestIcu X unit icu job =
     (case icu_i18n icu of
        Some (MetaMessage m) \<Rightarrow>
          (if isSingleI18nIcu X m
           then (let (x, job1) = allocateXrefId job;
                     job2 = create_push unit [IcuStartOp x m (icuFromI18nMessage_name X m)] job1
                 in case forE (icuEntry X unit) (icu_entries icu) job2 of
                      Inl e \<Rightarrow> Inl e
                    | Inr job3 \<Rightarrow> Inr (create_push unit [IcuEndOp x] job3))
           else Inl (Error ''Unhandled i18n metadata type for ICU: Message''))
      | Some m \<Rightarrow>
          Inl (Error (''Unhandled i18n metadata type for ICU: '' @ meta_constructor_name m))
      | None \<Rightarrow> Inl (Error ''Unhandled i18n metadata type for ICU: undefined''))"

subsection \<open>Insertion into an operation list\<close>

text \<open>
  \<^verbatim>\<open>OpList.insertBefore(op, endOp)\<close> where \<^verbatim>\<open>endOp\<close> is the operation just pushed, the
  last one of the unit's create list.
\<close>

definition create_insertBefore_last :: "XrefId \<Rightarrow> Op \<Rightarrow> CompilationJob \<Rightarrow> CompilationJob" where
  "create_insertBefore_last u op job =
     updView u (\<lambda>v. v\<lparr>create := butlast (create v) @ [op, last (create v)]\<rparr>) job"

text \<open>
  Modelled from the spec: the class \<^verbatim>\<open>OpList\<close> is not among the sources.  For a plain
  template with a message the brackets go "around the full child create-list":
  \<^verbatim>\<open>insertAfter(op, list.head)\<close> puts the operation at the front of the list and
  \<^verbatim>\<open>insertBefore(op, list.tail)\<close> puts it at the back, \<^verbatim>\<open>head\<close> and \<^verbatim>\<open>tail\<close> being the
  two ends of the list.
\<close>

definition create_insertAfter_head :: "XrefId \<Rightarrow> Op \<Rightarrow> CompilationJob \<Rightarrow> CompilationJob" where
  "create_insertAfter_head u op job = updView u (\<lambda>v. v\<lparr>create := op # create v\<rparr>) job"

definition create_insertBefore_tail :: "XrefId \<Rightarrow> Op \<Rightarrow> CompilationJob \<Rightarrow> CompilationJob" where
  "create_insertBefore_tail u op job = updView u (\<lambda>v. v\<lparr>create := create v @ [op]\<rparr>) job"

subsection \<open>Names of loop variables\<close>

text \<open>The template literal with the letter U+0275 (two bytes in UTF-8) in front.\<close>

definition disambiguated_name :: "string \<Rightarrow> XrefId \<Rightarrow> string" where
  "disambiguated_name name x = [CHR 0xC9, CHR 0xB5] @ name @ ''_'' @ show_nat x"

definition lit0 :: Expression where "lit0 = LiteralExpr (LitNumber 0) None"
definition lit1 :: Expression where "lit1 = LiteralExpr (LitNumber 1) None"
definition lit2 :: Expression where "lit2 = LiteralExpr (LitNumber 2) None"

text \<open>The expression builders \<^verbatim>\<open>identical\<close>, \<^verbatim>\<open>notIdentical\<close>, \<^verbatim>\<open>minus\<close> and \<^verbatim>\<open>modulo\<close>.\<close>

definition binop :: "string \<Rightarrow> Expression \<Rightarrow> Expression \<Rightarrow> Expression" where
  "binop operator l r = BinaryOperatorExpr (BinaryOperator operator) l r None"

subsection \<open>i18n metadata checks\<close>

text \<open>
  \<^verbatim>\<open>i18n !== undefined && !(i18n instanceof Message || i18n instanceof TagPlaceholder)\<close>
\<close>

fun unhandled_element_i18n :: "I18nMeta option \<Rightarrow> bool" where
  "unhandled_element_i18n None = False"
| "unhandled_element_i18n (Some (MetaMessage _)) = False"
| "unhandled_element_i18n (Some (MetaNode (i18n_TagPlaceholder _))) = False"
| "unhandled_element_i18n (Some _) = True"

fun tagPlaceholder_of :: "I18nMeta option \<Rightarrow> i18n_Node option" where
  "tagPlaceholder_of (Some (MetaNode (i18n_TagPlaceholder p))) = Some (i18n_TagPlaceholder p)"
| "tagPlaceholder_of _ = None"

fun message_of :: "I18nMeta option \<Rightarrow> i18n_Message option" where
  "message_of (Some (MetaMessage m)) = Some m"
| "message_of _ = None"

text \<open>\<^verbatim>\<open>i18n !== undefined && !(i18n instanceof BlockPlaceholder)\<close>\<close>

fun unhandled_block_i18n :: "I18nMeta option \<Rightarrow> bool" where
  "unhandled_block_i18n None = False"
| "unhandled_block_i18n (Some (MetaNode (i18n_BlockPlaceholder _))) = False"
| "unhandled_block_i18n (Some _) = True"

fun node_of :: "I18nMeta option \<Rightarrow> i18n_Node option" where
  "node_of (Some (MetaNode n)) = Some n"
| "node_of _ = None"

definition meta_name :: "I18nMeta option \<Rightarrow> string" where
  "meta_name m = (case m of None \<Rightarrow> ''undefined'' | Some x \<Rightarrow> meta_constructor_name x)"

text \<open>\<^verbatim>\<open>endSourceSpan ?? startSourceSpan\<close>\<close>

definition end_or_start :: "ParseSourceSpan option \<Rightarrow> ParseSourceSpan \<Rightarrow> ParseSourceSpan" where
  "end_or_start endSourceSpan startSourceSpan =
     (case endSourceSpan of Some s \<Rightarrow> s | None \<Rightarrow> startSourceSpan)"

subsection \<open>Variables of a template\<close>

text \<open>
  \<^verbatim>\<open>childView.contextVariables.set(name, value !== '' ? value : '$implicit')\<close>, the body of
  the loop over \<^verbatim>\<open>tmpl.variables\<close>.
\<close>

definition templateVariable_set :: "XrefId \<Rightarrow> Variable \<Rightarrow> CompilationJob \<Rightarrow> CompilationJob" where
  "templateVariable_set childView v job =
     contextVariables_set childView (var_name v)
       (ContextName (if var_value v \<noteq> [] then var_value v else ''$implicit'')) job"

subsection \<open>Operations of a deferred block\<close>

text \<open>
  The second half of \<^verbatim>\<open>ingestDeferBlock\<close>, after the main view and the secondary views
  are generated: the defer operation and the trigger operations.  \<^verbatim>\<open>main\<close> is asserted
  non-null in the source; reading a field of \<^verbatim>\<open>null\<close> throws.
\<close>

definition ingestDeferBlock_ops ::
  "externals \<Rightarrow> XrefId \<Rightarrow> DeferredInfo \<Rightarrow> LoadingInfo option \<Rightarrow> PlaceholderInfo option
     \<Rightarrow> string \<Rightarrow> Template_op option \<Rightarrow> Template_op option \<Rightarrow> Template_op option
     \<Rightarrow> Template_op option \<Rightarrow> CompilationJob \<Rightarrow> error + CompilationJob" where
  "ingestDeferBlock_ops X unit deferBlock loading placeholder blockMeta mainOp loadingOp
       placeholderOp errorOp job =
     (case mainOp of
        None \<Rightarrow> Inl (Error ''TypeError: Cannot read properties of null'')
      | Some main \<Rightarrow>
          (let (deferXref, job1) = allocateXrefId job;
               deferOp =
                 \<lparr>d_xref = deferXref, d_mainView = tp_xref main,
                  d_mainSlot = HandleOf (tp_xref main), d_metadata = blockMeta,
                  d_sourceSpan = df_sourceSpan deferBlock,
                  d_placeholderView = map_option tp_xref placeholderOp,
                  d_placeholderSlot = map_option (\<lambda>t. HandleOf (tp_xref t)) placeholderOp,
                  d_loadingSlot = map_option (\<lambda>t. HandleOf (tp_xref t)) loadingOp,
                  d_errorSlot = map_option (\<lambda>t. HandleOf (tp_xref t)) errorOp,
                  d_placeholderMinimumTime =
                    (case placeholder of None \<Rightarrow> None | Some p \<Rightarrow> ph_minimumTime p),
                  d_loadingMinimumTime =
                    (case loading of None \<Rightarrow> None | Some l \<Rightarrow> ld_minimumTime l),
                  d_loadingAfterTime =
                    (case loading of None \<Rightarrow> None | Some l \<Rightarrow> ld_afterTime l)\<rparr>;
               job2 = create_push unit [DeferOp deferOp] job1
           in case ingestDeferTriggers X deferXref (df_triggers deferBlock)
                     (df_prefetchTriggers deferBlock) job2 of
                Inl e \<Rightarrow> Inl e
              | Inr ((deferOnOps, deferWhenOps), job3) \<Rightarrow>
                  Inr (update_push unit deferWhenOps (create_push unit deferOnOps job3))))"

subsection \<open>Nodes with children\<close>

text \<open>
  \<^verbatim>\<open>ingestNodes\<close> and the functions it dispatches to, which call it back on the children
  of a node.  A unit is given by its id.  The loops of \<^verbatim>\<open>ingestIfBlock\<close> and
  \<^verbatim>\<open>ingestSwitchBlock\<close> carry their variables (\<^verbatim>\<open>i\<close>, \<^verbatim>\<open>firstXref\<close>, \<^verbatim>\<open>firstSlotHandle\<close>,
  \<^verbatim>\<open>conditions\<close>) as arguments.
\<close>

function ingestNodes ::
    "externals \<Rightarrow> XrefId \<Rightarrow> Node list \<Rightarrow> CompilationJob \<Rightarrow> error + CompilationJob"
  and ingestElement ::
    "externals \<Rightarrow> XrefId \<Rightarrow> ElementInfo \<Rightarrow> Node list \<Rightarrow> CompilationJob
       \<Rightarrow> error + CompilationJob"
  and ingestTemplate ::
    "externals \<Rightarrow> XrefId \<Rightarrow> TemplateInfo \<Rightarrow> Node list \<Rightarrow> CompilationJob
       \<Rightarrow> error + CompilationJob"
  and ingestIfBlock ::
    "externals \<Rightarrow> XrefId \<Rightarrow> ParseSourceSpan \<Rightarrow> (IfBranchInfo \<times> Node list) list
       \<Rightarrow> CompilationJob \<Rightarrow> error + CompilationJob"
  and ingestIfBlock_loop ::
    "externals \<Rightarrow> XrefId \<Rightarrow> (IfBranchInfo \<times> Node list) list \<Rightarrow> nat \<Rightarrow> XrefId option
       \<Rightarrow> SlotHandle option \<Rightarrow> ConditionalCaseExpr list \<Rightarrow> CompilationJob
       \<Rightarrow> error + ((XrefId option \<times> SlotHandle option \<times> ConditionalCaseExpr list)
                    \<times> CompilationJob)"
  and ingestSwitchBlock ::
    "externals \<Rightarrow> XrefId \<Rightarrow> SwitchInfo \<Rightarrow> (SwitchCaseInfo \<times> Node list) list
       \<Rightarrow> CompilationJob \<Rightarrow> error + CompilationJob"
  and ingestSwitchBlock_loop ::
    "externals \<Rightarrow> XrefId \<Rightarrow> SwitchInfo \<Rightarrow> (SwitchCaseInfo \<times> Node list) list
       \<Rightarrow> XrefId option \<Rightarrow> SlotHandle option \<Rightarrow> ConditionalCaseExpr list \<Rightarrow> CompilationJob
       \<Rightarrow> error + ((XrefId option \<times> SlotHandle option \<times> ConditionalCaseExpr list)
                    \<times> CompilationJob)"
  and ingestDeferView ::
    "externals \<Rightarrow> XrefId \<Rightarrow> string \<Rightarrow> I18nMeta option \<Rightarrow> Node list option
       \<Rightarrow> ParseSourceSpan option \<Rightarrow> CompilationJob
       \<Rightarrow> error + (Template_op option \<times> CompilationJob)"
  and ingestDeferView_loading ::
    "externals \<Rightarrow> XrefId \<Rightarrow> (LoadingInfo \<times> Node list) option \<Rightarrow> CompilationJob
       \<Rightarrow> error + (Template_op option \<times> CompilationJob)"
  and ingestDeferView_placeholder ::
    "externals \<Rightarrow> XrefId \<Rightarrow> (PlaceholderInfo \<times> Node list) option \<Rightarrow> CompilationJob
       \<Rightarrow> error + (Template_op option \<times> CompilationJob)"
  and ingestDeferView_error ::
    "externals \<Rightarrow> XrefId \<Rightarrow> (ErrorInfo \<times> Node list) option \<Rightarrow> CompilationJob
       \<Rightarrow> error + (Template_op option \<times> CompilationJob)"
  and ingestDeferBlock ::
    "externals \<Rightarrow> XrefId \<Rightarrow> DeferredInfo \<Rightarrow> Node list \<Rightarrow> (LoadingInfo \<times> Node list) option
       \<Rightarrow> (PlaceholderInfo \<times> Node list) option \<Rightarrow> (ErrorInfo \<times> Node list) option
       \<Rightarrow> CompilationJob \<Rightarrow> error + CompilationJob"
  and ingestForBlock_empty ::
    "externals \<Rightarrow> XrefId \<Rightarrow> (EmptyInfo \<times> Node list) option \<Rightarrow> CompilationJob
       \<Rightarrow> error + ((XrefId option \<times> string option) \<times> CompilationJob)"
  and ingestForBlock ::
    "externals \<Rightarrow> XrefId \<Rightarrow> ForInfo \<Rightarrow> Node list \<Rightarrow> (EmptyInfo \<times> Node list) option
       \<Rightarrow> CompilationJob \<Rightarrow> error + CompilationJob"
where
  "ingestNodes X unit [] job = Inr job"
| "ingestNodes X unit (Element element children # rest) job =
     (case ingestElement X unit element children job of
        Inl e \<Rightarrow> Inl e
      | Inr job1 \<Rightarrow> ingestNodes X unit rest job1)"
| "ingestNodes X unit (Template tmpl children # rest) job =
     (case ingestTemplate X unit tmpl children job of
        Inl e \<Rightarrow> Inl e
      | Inr job1 \<Rightarrow> ingestNodes X unit rest job1)"
| "ingestNodes X unit (Content content # rest) job =
     (case ingestContent X unit content job of
        Inl e \<Rightarrow> Inl e
      | Inr job1 \<Rightarrow> ingestNodes X unit rest job1)"
| "ingestNodes X unit (Text text # rest) job =
     ingestNodes X unit rest (ingestText unit text None job)"
| "ingestNodes X unit (BoundText text # rest) job =
     (case ingestBoundText X unit text None job of
        Inl e \<Rightarrow> Inl e
      | Inr job1 \<Rightarrow> ingestNodes X unit rest job1)"
| "ingestNodes X unit (IfBlock sourceSpan branches # rest) job =
     (case ingestIfBlock X unit sourceSpan branches job of
        Inl e \<Rightarrow> Inl e
      | Inr job1 \<Rightarrow> ingestNodes X unit rest job1)"
| "ingestNodes X unit (SwitchBlock switchBlock cases # rest) job =
     (case ingestSwitchBlock X unit switchBlock cases job of
        Inl e \<Rightarrow> Inl e
      | Inr job1 \<Rightarrow> ingestNodes X unit rest job1)"
| "ingestNodes X unit (DeferredBlock deferBlock children loading placeholder err # rest) job =
     (case ingestDeferBlock X unit deferBlock children loading placeholder err job of
        Inl e \<Rightarrow> Inl e
      | Inr job1 \<Rightarrow> ingestNodes X unit rest job1)"
| "ingestNodes X unit (Icu icu # rest) job =
     (case ingestIcu X unit icu job of
        Inl e \<Rightarrow> Inl e
      | Inr job1 \<Rightarrow> ingestNodes X unit rest job1)"
| "ingestNodes X unit (ForLoopBlock forBlock children emptyBlock # rest) job =
     (case ingestForBlock X unit forBlock children emptyBlock job of
        Inl e \<Rightarrow> Inl e
      | Inr job1 \<Rightarrow> ingestNodes X unit rest job1)"
| "ingestNodes X unit (Comment # rest) job =
     Inl (Error ''Unsupported template node: Comment'')"
| "ingestNodes X unit (OtherNode n # rest) job =
     Inl (Error (''Unsupported template node: '' @ n))"

| "ingestElement X unit element children job =
     (if unhandled_element_i18n (el_i18n element)
      then Inl (Error (''Unhandled i18n metadata type for element: ''
                        @ meta_name (el_i18n element)))
      else
        (let (elementId, job1) = allocateXrefId job
         in case splitNsName X (el_name element) of
              Inl e \<Rightarrow> Inl e
            | Inr (namespaceKey, elementName) \<Rightarrow>
                (let startOp =
                       ElementStartOp
                         \<lparr>es_tag = elementName, es_xref = elementId,
                          es_namespace = namespaceForKey X namespaceKey,
                          es_i18nPlaceholder = tagPlaceholder_of (el_i18n element),
                          es_localRefs = [],
                          es_startSourceSpan = el_startSourceSpan element,
                          es_wholeSourceSpan = el_sourceSpan element\<rparr>;
                     job2 = create_push unit [startOp] job1
                 in case ingestElementBindings X unit startOp element job2 of
                      Inl e \<Rightarrow> Inl e
                    | Inr job3 \<Rightarrow>
                        (let job4 = ingestReferences unit elementId (el_references element) job3;
                             (i18nBlockId, job5) =
                               (case message_of (el_i18n element) of
                                  None \<Rightarrow> (None, job4)
                                | Some m \<Rightarrow>
                                    (let (b, j) = allocateXrefId job4
                                     in (Some b,
                                         create_push unit
                                           [I18nStartOp b m (el_startSourceSpan element)] j)))
                         in case ingestNodes X unit children job5 of
                              Inl e \<Rightarrow> Inl e
                            | Inr job6 \<Rightarrow>
                                (let endOp =
                                       ElementEndOp elementId
                                         (end_or_start (el_endSourceSpan element)
                                            (el_startSourceSpan element));
                                     job7 = create_push unit [endOp] job6
                                 in Inr (case i18nBlockId of
                                           None \<Rightarrow> job7
                                         | Some b \<Rightarrow>
                                             create_insertBefore_last unit
                                               (I18nEndOp b
                                                  (end_or_start (el_endSourceSpan element)
                                                     (el_startSourceSpan element)))
                                               job7))))))"

| "ingestTemplate X unit tmpl children job =
     (if unhandled_element_i18n (tm_i18n tmpl)
      then Inl (Error (''Unhandled i18n metadata type for template: ''
                        @ meta_name (tm_i18n tmpl)))
      else
        (let (childView, job1) = allocateView unit job
         in case (case tm_tagName tmpl of
                    None \<Rightarrow> Inr (Some [], None)
                  | Some tagName \<Rightarrow>
                      (if tagName \<noteq> []
                       then (case splitNsName X tagName of
                               Inl e \<Rightarrow> Inl e
                             | Inr (nsPrefix, n) \<Rightarrow> Inr (nsPrefix, Some n))
                       else Inr (Some [], Some tagName))) of
              Inl e \<Rightarrow> Inl e
            | Inr (namespacePrefix, tagNameWithoutNamespace) \<Rightarrow>
         (let i18nPlaceholder = tagPlaceholder_of (tm_i18n tmpl);
              namespace = namespaceForKey X namespacePrefix;
              functionNameSuffix =
                (case tagNameWithoutNamespace of
                   None \<Rightarrow> []
                 | Some n \<Rightarrow> prefixWithNamespace X n namespace)
          in case splitNsName X (case tm_tagName tmpl of None \<Rightarrow> [] | Some n \<Rightarrow> n) of
               Inl e \<Rightarrow> Inl e
             | Inr (nsPrefix, plainName) \<Rightarrow>
         (let templateKind =
                (if plainName = NG_TEMPLATE_TAG_NAME then NgTemplate else Structural);
              templateOp =
                TemplateOp
                  \<lparr>tp_xref = childView, tp_kind = templateKind,
                   tp_tag = tagNameWithoutNamespace,
                   tp_functionNameSuffix = functionNameSuffix, tp_namespace = namespace,
                   tp_i18nPlaceholder = i18nPlaceholder, tp_localRefs = [],
                   tp_startSourceSpan = Some (tm_startSourceSpan tmpl),
                   tp_wholeSourceSpan = Some (tm_sourceSpan tmpl)\<rparr>;
              job2 = create_push unit [templateOp] job1
          in case ingestTemplateBindings X unit templateOp tmpl (Some templateKind) job2 of
               Inl e \<Rightarrow> Inl e
             | Inr job3 \<Rightarrow>
                 (let job4 = ingestReferences unit childView (tm_references tmpl) job3
                  in case ingestNodes X childView children job4 of
                       Inl e \<Rightarrow> Inl e
                     | Inr job5 \<Rightarrow>
                         (let job6 = fold (templateVariable_set childView)
                                       (tm_variables tmpl) job5
                          in case (if templateKind = NgTemplate then message_of (tm_i18n tmpl)
                                   else None) of
                               None \<Rightarrow> Inr job6
                             | Some m \<Rightarrow>
                                 (let (elementId, job7) = allocateXrefId job6;
                                      job8 =
                                        create_insertAfter_head childView
                                          (I18nStartOp elementId m (tm_startSourceSpan tmpl)) job7
                                  in Inr (create_insertBefore_tail childView
                                            (I18nEndOp elementId
                                               (end_or_start (tm_endSourceSpan tmpl)
                                                  (tm_startSourceSpan tmpl)))
                                            job8))))))))"

| "ingestIfBlock X unit sourceSpan branches job =
     (case ingestIfBlock_loop X unit branches 0 None None [] job of
        Inl e \<Rightarrow> Inl e
      | Inr ((firstXref, firstSlotHandle, conditions), job1) \<Rightarrow>
          Inr (update_push unit
                 [ConditionalOp firstXref firstSlotHandle None conditions sourceSpan] job1))"

| "ingestIfBlock_loop X unit [] i firstXref firstSlotHandle conditions job =
     Inr ((firstXref, firstSlotHandle, conditions), job)"
| "ingestIfBlock_loop X unit ((ifCase, children) # rest) i firstXref firstSlotHandle
       conditions job =
     (let (cView, job1) = allocateView unit job
      in case (if i = 0 then ingestControlFlowInsertionPoint X unit cView children job1
               else Inr (None, job1)) of
           Inl e \<Rightarrow> Inl e
         | Inr (tagName, job2) \<Rightarrow>
      (let job3 =
             (case ib_expressionAlias ifCase of
                None \<Rightarrow> job2
              | Some a \<Rightarrow> contextVariables_set cView (var_name a) CTX_REF job2)
       in if unhandled_block_i18n (ib_i18n ifCase)
          then Inl (Error (''Unhandled i18n metadata type for if block: ''
                            @ meta_name (ib_i18n ifCase)))
          else
            (let templateOp =
                   \<lparr>tp_xref = cView, tp_kind = Block, tp_tag = tagName,
                    tp_functionNameSuffix = ''Conditional'', tp_namespace = HTML,
                    tp_i18nPlaceholder = node_of (ib_i18n ifCase), tp_localRefs = [],
                    tp_startSourceSpan = Some (ib_startSourceSpan ifCase),
                    tp_wholeSourceSpan = Some (ib_sourceSpan ifCase)\<rparr>;
                 job4 = create_push unit [TemplateOp templateOp] job3;
                 (firstXref1, firstSlotHandle1) =
                   (if firstXref = None then (Some cView, Some (HandleOf cView))
                    else (firstXref, firstSlotHandle))
             in case (case ib_expression ifCase of
                        None \<Rightarrow> Inr (None, job4)
                      | Some ex \<Rightarrow>
                          (case convertAst X ex None job4 of
                             Inl e \<Rightarrow> Inl e
                           | Inr (x, j) \<Rightarrow> Inr (Some x, j))) of
                  Inl e \<Rightarrow> Inl e
                | Inr (caseExpr, job5) \<Rightarrow>
                    (let conditionalCaseExpr =
                           \<lparr>cc_expr = caseExpr, cc_target = cView,
                            cc_targetSlot = HandleOf cView,
                            cc_alias = ib_expressionAlias ifCase\<rparr>
                     in case ingestNodes X cView children job5 of
                          Inl e \<Rightarrow> Inl e
                        | Inr job6 \<Rightarrow>
                            ingestIfBlock_loop X unit rest (Suc i) firstXref1
                              firstSlotHandle1 (conditions @ [conditionalCaseExpr]) job6))))"

| "ingestSwitchBlock X unit switchBlock cases job =
     (if length cases = 0 then Inr job
      else
        (case ingestSwitchBlock_loop X unit switchBlock cases None None [] job of
           Inl e \<Rightarrow> Inl e
         | Inr ((firstXref, firstSlotHandle, conditions), job1) \<Rightarrow>
             (case convertAst X (sw_expression switchBlock) None job1 of
                Inl e \<Rightarrow> Inl e
              | Inr (test, job2) \<Rightarrow>
                  Inr (update_push unit
                         [ConditionalOp firstXref firstSlotHandle (Some test) conditions
                            (sw_sourceSpan switchBlock)] job2))))"

| "ingestSwitchBlock_loop X unit switchBlock [] firstXref firstSlotHandle conditions job =
     Inr ((firstXref, firstSlotHandle, conditions), job)"
| "ingestSwitchBlock_loop X unit switchBlock ((switchCase, children) # rest) firstXref
       firstSlotHandle conditions job =
     (let (cView, job1) = allocateView unit job
      in if unhandled_block_i18n (sc_i18n switchCase)
         then Inl (Error (''Unhandled i18n metadata type for switch block: ''
                           @ meta_name (sc_i18n switchCase)))
         else
           (let templateOp =
                  \<lparr>tp_xref = cView, tp_kind = Block, tp_tag = None,
                   tp_functionNameSuffix = ''Case'', tp_namespace = HTML,
                   tp_i18nPlaceholder = node_of (sc_i18n switchCase), tp_localRefs = [],
                   tp_startSourceSpan = Some (sc_startSourceSpan switchCase),
                   tp_wholeSourceSpan = Some (sc_sourceSpan switchCase)\<rparr>;
                job2 = create_push unit [TemplateOp templateOp] job1;
                (firstXref1, firstSlotHandle1) =
                  (if firstXref = None then (Some cView, Some (HandleOf cView))
                   else (firstXref, firstSlotHandle))
            in case (case sc_expression switchCase of
                       None \<Rightarrow> Inr (None, job2)
                     | Some ex \<Rightarrow>
                         (case convertAst X ex (Some (sw_startSourceSpan switchBlock)) job2 of
                            Inl e \<Rightarrow> Inl e
                          | Inr (x, j) \<Rightarrow> Inr (Some x, j))) of
                 Inl e \<Rightarrow> Inl e
               | Inr (caseExpr, job3) \<Rightarrow>
                   (let conditionalCaseExpr =
                          \<lparr>cc_expr = caseExpr, cc_target = cView,
                           cc_targetSlot = HandleOf cView, cc_alias = None\<rparr>
                    in case ingestNodes X cView children job3 of
                         Inl e \<Rightarrow> Inl e
                       | Inr job4 \<Rightarrow>
                           ingestSwitchBlock_loop X unit switchBlock rest firstXref1
                             firstSlotHandle1 (conditions @ [conditionalCaseExpr]) job4)))"

| "ingestDeferView X unit suffix i18nMeta None sourceSpan job =
     (if unhandled_block_i18n i18nMeta
      then Inl (Error ''Unhandled i18n metadata type for defer block'')
      else Inr (None, job))"
| "ingestDeferView X unit suffix i18nMeta (Some children) sourceSpan job =
     (if unhandled_block_i18n i18nMeta
      then Inl (Error ''Unhandled i18n metadata type for defer block'')
      else
        (let (secondaryView, job1) = allocateView unit job
         in case ingestNodes X secondaryView children job1 of
              Inl e \<Rightarrow> Inl e
            | Inr job2 \<Rightarrow>
                (let templateOp =
                       \<lparr>tp_xref = secondaryView, tp_kind = Block, tp_tag = None,
                        tp_functionNameSuffix = ''Defer'' @ suffix, tp_namespace = HTML,
                        tp_i18nPlaceholder = node_of i18nMeta, tp_localRefs = [],
                        tp_startSourceSpan = sourceSpan, tp_wholeSourceSpan = sourceSpan\<rparr>
                 in Inr (Some templateOp, create_push unit [TemplateOp templateOp] job2))))"

| "ingestDeferView_loading X unit None job =
     ingestDeferView X unit ''Loading'' None None None job"
| "ingestDeferView_loading X unit (Some (loading, children)) job =
     ingestDeferView X unit ''Loading'' (ld_i18n loading) (Some children)
       (Some (ld_sourceSpan loading)) job"
| "ingestDeferView_placeholder X unit None job =
     ingestDeferView X unit ''Placeholder'' None None None job"
| "ingestDeferView_placeholder X unit (Some (placeholder, children)) job =
     ingestDeferView X unit ''Placeholder'' (ph_i18n placeholder) (Some children)
       (Some (ph_sourceSpan placeholder)) job"
| "ingestDeferView_error X unit None job =
     ingestDeferView X unit ''Error'' None None None job"
| "ingestDeferView_error X unit (Some (err, children)) job =
     ingestDeferView X unit ''Error'' (er_i18n err) (Some children)
       (Some (er_sourceSpan err)) job"

| "ingestDeferBlock X unit deferBlock children loading placeholder err job =
     (case map_of (deferBlocksMeta job) (df_identity deferBlock) of
        None \<Rightarrow> Inl (Error ''AssertionError: unable to find metadata for deferred block'')
      | Some blockMeta \<Rightarrow>
     (case ingestDeferView X unit [] (df_i18n deferBlock) (Some children)
             (Some (df_sourceSpan deferBlock)) job of
        Inl e \<Rightarrow> Inl e
      | Inr (mainOp, job1) \<Rightarrow>
     (case ingestDeferView_loading X unit loading job1 of
        Inl e \<Rightarrow> Inl e
      | Inr (loadingOp, job2) \<Rightarrow>
     (case ingestDeferView_placeholder X unit placeholder job2 of
        Inl e \<Rightarrow> Inl e
      | Inr (placeholderOp, job3) \<Rightarrow>
     (case ingestDeferView_error X unit err job3 of
        Inl e \<Rightarrow> Inl e
      | Inr (errorOp, job4) \<Rightarrow>
          ingestDeferBlock_ops X unit deferBlock (map_option fst loading)
            (map_option fst placeholder) blockMeta mainOp loadingOp placeholderOp errorOp
            job4)))))"

| "ingestForBlock_empty X unit None job = Inr ((None, None), job)"
| "ingestForBlock_empty X unit (Some (emptyInfo, children)) job =
     (let (emptyView, job1) = allocateView unit job
      in case ingestNodes X emptyView children job1 of
           Inl e \<Rightarrow> Inl e
         | Inr job2 \<Rightarrow>
             (case ingestControlFlowInsertionPoint X unit emptyView children job2 of
                Inl e \<Rightarrow> Inl e
              | Inr (emptyTagName, job3) \<Rightarrow> Inr ((Some emptyView, emptyTagName), job3)))"

| "ingestForBlock X unit forBlock children emptyBlock job =
     (let (repeaterView, job1) = allocateView unit job;
          cv = fl_contextVariables forBlock;
          job2 = contextVariables_set repeaterView (var_name (fl_item forBlock))
                   (ContextName (var_value (fl_item forBlock))) job1;
          job3 = contextVariables_set repeaterView (var_name (cv_index cv))
                   (ContextName (var_value (cv_index cv))) job2;
          job4 = contextVariables_set repeaterView (var_name (cv_count cv))
                   (ContextName (var_value (cv_count cv))) job3;
          indexName = disambiguated_name (var_name (cv_index cv)) repeaterView;
          countName = disambiguated_name (var_name (cv_count cv)) repeaterView;
          job5 = contextVariables_set repeaterView indexName
                   (ContextName (var_value (cv_index cv))) job4;
          job6 = contextVariables_set repeaterView countName
                   (ContextName (var_value (cv_count cv))) job5;
          job7 = aliases_add repeaterView
                   \<lparr>alias_identifier = var_name (cv_first cv),
                    alias_expression = binop ''Identical'' (LexicalReadExpr indexName) lit0\<rparr>
                   job6;
          job8 = aliases_add repeaterView
                   \<lparr>alias_identifier = var_name (cv_last cv),
                    alias_expression =
                      binop ''Identical'' (LexicalReadExpr indexName)
                        (binop ''Minus'' (LexicalReadExpr countName) lit1)\<rparr> job7;
          job9 = aliases_add repeaterView
                   \<lparr>alias_identifier = var_name (cv_even cv),
                    alias_expression =
                      binop ''Identical''
                        (binop ''Modulo'' (LexicalReadExpr indexName) lit2) lit0\<rparr> job8;
          job10 = aliases_add repeaterView
                    \<lparr>alias_identifier = var_name (cv_odd cv),
                     alias_expression =
                       binop ''NotIdentical''
                         (binop ''Modulo'' (LexicalReadExpr indexName) lit2) lit0\<rparr> job9;
          sourceSpan =
            convertSourceSpan X (fl_trackBy_span forBlock) (Some (fl_sourceSpan forBlock))
      in case convertAst X (fl_trackBy forBlock) sourceSpan job10 of
           Inl e \<Rightarrow> Inl e
         | Inr (track, job11) \<Rightarrow>
      (case ingestNodes X repeaterView children job11 of
         Inl e \<Rightarrow> Inl e
       | Inr job12 \<Rightarrow>
      (case ingestForBlock_empty X unit emptyBlock job12 of
         Inl e \<Rightarrow> Inl e
       | Inr ((emptyView, emptyTagName), job13) \<Rightarrow>
      (let varNames =
             \<lparr>rv_index = var_name (cv_index cv), rv_count = var_name (cv_count cv),
              rv_first = var_name (cv_first cv), rv_last = var_name (cv_last cv),
              rv_even = var_name (cv_even cv), rv_odd = var_name (cv_odd cv),
              rv_implicit = var_name (fl_item forBlock)\<rparr>;
           empty_i18n = (case emptyBlock of None \<Rightarrow> None | Some (emptyInfo, ch) \<Rightarrow> em_i18n emptyInfo)
       in if unhandled_block_i18n (fl_i18n forBlock)
          then Inl (Error ''AssertionError: Unhandled i18n metadata type or @for'')
          else if unhandled_block_i18n empty_i18n
          then Inl (Error ''AssertionError: Unhandled i18n metadata type or @empty'')
          else
            (case ingestControlFlowInsertionPoint X unit repeaterView children job13 of
               Inl e \<Rightarrow> Inl e
             | Inr (tagName, job14) \<Rightarrow>
                 (let repeaterCreate =
                        \<lparr>rc_xref = repeaterView, rc_emptyView = emptyView, rc_tag = tagName,
                         rc_track = track, rc_varNames = varNames,
                         rc_emptyTag = emptyTagName, rc_i18nPlaceholder = fl_i18n forBlock,
                         rc_emptyI18nPlaceholder = empty_i18n,
                         rc_startSourceSpan = fl_startSourceSpan forBlock,
                         rc_wholeSourceSpan = fl_sourceSpan forBlock\<rparr>;
                      job15 = create_push unit [RepeaterCreateOp repeaterCreate] job14
                  in case convertAst X (fl_expression forBlock)
                            (convertSourceSpan X (fl_expression_span forBlock)
                               (Some (fl_sourceSpan forBlock))) job15 of
                       Inl e \<Rightarrow> Inl e
                     | Inr (expression, job16) \<Rightarrow>
                         Inr (update_push unit
                                [RepeaterOp repeaterView (HandleOf repeaterView) expression
                                   (fl_sourceSpan forBlock)] job16)))))))"
  by pat_completeness auto

text \<open>
  Every call is on the children of the node at hand, or on the rest of the list at hand;
  where the size of the argument stays the same, the callee comes earlier in the order
  given by the second component.
\<close>

termination
  by (relation "inv_image (less_than <*lex*> less_than)
        (\<lambda>x. case x of
           Inl (Inl (Inl (X, u, ns, j))) \<Rightarrow> (size_list size ns, 0::nat)
         | Inl (Inl (Inr (Inl (X, u, el, ns, j)))) \<Rightarrow> (size_list size ns, 1)
         | Inl (Inl (Inr (Inr (X, u, tm, ns, j)))) \<Rightarrow> (size_list size ns, 1)
         | Inl (Inr (Inl (Inl (X, u, sp, bs, j)))) \<Rightarrow>
             (size_list (size_prod (\<lambda>_. 0) (size_list size)) bs, 2)
         | Inl (Inr (Inl (Inr (X, u, bs, i, fx, fs, cs, j)))) \<Rightarrow>
             (size_list (size_prod (\<lambda>_. 0) (size_list size)) bs, 1)
         | Inl (Inr (Inr (Inl (X, u, sw, bs, j)))) \<Rightarrow>
             (size_list (size_prod (\<lambda>_. 0) (size_list size)) bs, 2)
         | Inl (Inr (Inr (Inr (X, u, sw, bs, fx, fs, cs, j)))) \<Rightarrow>
             (size_list (size_prod (\<lambda>_. 0) (size_list size)) bs, 1)
         | Inr (Inl (Inl (X, u, suffix, m, ch, sp, j))) \<Rightarrow>
             (size_option (size_list size) ch, 1)
         | Inr (Inl (Inr (Inl (X, u, b, j)))) \<Rightarrow>
             (size_option (size_prod (\<lambda>_. 0) (size_list size)) b, 2)
         | Inr (Inl (Inr (Inr (X, u, b, j)))) \<Rightarrow>
             (size_option (size_prod (\<lambda>_. 0) (size_list size)) b, 2)
         | Inr (Inr (Inl (Inl (X, u, b, j)))) \<Rightarrow>
             (size_option (size_prod (\<lambda>_. 0) (size_list size)) b, 2)
         | Inr (Inr (Inl (Inr (X, u, d, ns, l, p, e, j)))) \<Rightarrow>
             (Suc (size_list size ns
                   + size_option (size_prod (\<lambda>_. 0) (size_list size)) l
                   + size_option (size_prod (\<lambda>_. 0) (size_list size)) p
                   + size_option (size_prod (\<lambda>_. 0) (size_list size)) e), 3)
         | Inr (Inr (Inr (Inl (X, u, b, j)))) \<Rightarrow>
             (size_option (size_prod (\<lambda>_. 0) (size_list size)) b, 1)
         | Inr (Inr (Inr (Inr (X, u, f, ns, b, j)))) \<Rightarrow>
             (Suc (size_list size ns
                   + size_option (size_prod (\<lambda>_. 0) (size_list size)) b), 1))")
     auto

text \<open>
  \<^verbatim>\<open>ingestComponent\<close>.  The job is the freshly constructed \<^verbatim>\<open>ComponentCompilationJob\<close>,
  whose constructor is not among the sources; it is an argument.
\<close>

definition ingestComponent ::
  "externals \<Rightarrow> Node list \<Rightarrow> CompilationJob \<Rightarrow> error + CompilationJob" where
  "ingestComponent X template job = ingestNodes X (root job) template job"

section \<open>Observations on operations and jobs\<close>

text \<open>Lowering an expression changes nothing of the job but its id counter.\<close>

definition same_units :: "CompilationJob \<Rightarrow> CompilationJob \<Rightarrow> bool" where
  "same_units job job' =
     (root job' = root job \<and> views job' = views job \<and> compatibility job' = compatibility job
      \<and> deferBlocksMeta job' = deferBlocksMeta job)"

text \<open>The kind and the name of a binding operation.\<close>

fun op_bindingKind :: "Op \<Rightarrow> BindingKind option" where
  "op_bindingKind (BindingOp b) = Some (b_kind b)"
| "op_bindingKind _ = None"

fun op_bindingName :: "Op \<Rightarrow> string option" where
  "op_bindingName (BindingOp b) = Some (b_name b)"
| "op_bindingName _ = None"

text \<open>The \<^verbatim>\<open>prefetch\<close> flag of a trigger operation.\<close>

fun defer_prefetch :: "Op \<Rightarrow> bool" where
  "defer_prefetch (DeferOnOp _ _ p _) = p"
| "defer_prefetch (DeferWhenOp _ _ p _) = p"
| "defer_prefetch _ = False"

text \<open>
  A trigger operation made from a trigger of the template carries that trigger's source
  span; the default idle trigger is created without one.
\<close>

fun defer_synthesized :: "Op \<Rightarrow> bool" where
  "defer_synthesized (DeferOnOp _ _ _ None) = True"
| "defer_synthesized _ = False"

definition no_triggers :: "DeferredBlockTriggers \<Rightarrow> bool" where
  "no_triggers t =
     (tr_when t = None \<and> tr_idle t = None \<and> tr_immediate t = None \<and> tr_hover t = None
      \<and> tr_timer t = None \<and> tr_interaction t = None \<and> tr_viewport t = None)"

text \<open>
  The kind and the name that the loop of \<^verbatim>\<open>ingestHostBinding\<close> computes for a host
  property, and the assignment it makes to \<^verbatim>\<open>property.name\<close>.
\<close>

definition hostBindingKind :: "ParsedProperty \<Rightarrow> BindingKind" where
  "hostBindingKind p =
     (if pp_isAnimation p then Animation
      else if startsWith (pp_name p) ''attr.'' then Attribute
      else Property)"

definition hostBindingName :: "ParsedProperty \<Rightarrow> string" where
  "hostBindingName p =
     (if startsWith (pp_name p) ''attr.'' then substring (pp_name p) (length ''attr.'')
      else pp_name p)"

definition stripAttrPrefix :: "ParsedProperty \<Rightarrow> ParsedProperty" where
  "stripAttrPrefix p =
     (if startsWith (pp_name p) ''attr.''
      then p\<lparr>pp_name := substring (pp_name p) (length ''attr.'')\<rparr> else p)"

text \<open>
  What the template of a structural directive keeps of a dynamic binding written on the
  element: a binding of type property, class or style is kept as an extracted
  attribute of kind \<^verbatim>\<open>Property\<close>; an event that is not an animation event is kept the
  same way, by its name.
\<close>

definition structural_demoted :: "BoundAttribute \<Rightarrow> bool" where
  "structural_demoted input =
     (ba_type input = bt_Property \<or> ba_type input = bt_Class \<or> ba_type input = bt_Style)"

definition structural_extractedAttribute :: "XrefId \<Rightarrow> BoundAttribute \<Rightarrow> Op" where
  "structural_extractedAttribute x input =
     ExtractedAttributeOp
       \<lparr>ea_target = x, ea_bindingKind = Property, ea_namespace = None,
        ea_name = ba_name input, ea_expression = None, ea_i18nContext = None,
        ea_i18nMessage = message_of (ba_i18n input),
        ea_securityContext = OneContext (ba_securityContext input)\<rparr>"

definition structural_output :: "externals \<Rightarrow> XrefId \<Rightarrow> BoundEvent \<Rightarrow> Op" where
  "structural_output X x output =
     ExtractedAttributeOp
       \<lparr>ea_target = x, ea_bindingKind = Property, ea_namespace = None,
        ea_name = be_name output, ea_expression = None, ea_i18nContext = None,
        ea_i18nMessage = None,
        ea_securityContext =
          OneContext (domSchema_securityContext X NG_TEMPLATE_TAG_NAME (be_name output) False)\<rparr>"

text \<open>
  A binding operation that is flagged as a structural template attribute, and one that
  is flagged as a text attribute.
\<close>

fun structural_binding :: "Op \<Rightarrow> bool" where
  "structural_binding (BindingOp b) = b_isStructuralTemplateAttribute b"
| "structural_binding _ = False"

fun text_binding :: "Op \<Rightarrow> bool" where
  "text_binding (BindingOp b) = b_isTextAttribute b"
| "text_binding _ = False"

text \<open>The id of a defer operation.\<close>

fun defer_xref :: "Op \<Rightarrow> XrefId option" where
  "defer_xref (DeferOp d) = Some (d_xref d)"
| "defer_xref _ = None"

section \<open>Concrete inputs\<close>

text \<open>
  Collaborators, spans and a job used to run the functions on concrete inputs.  The job
  has a root unit with id 0 and nothing in its lists; the next free id is 1.
\<close>

definition X0 :: externals where
  "X0 = \<lparr>moveBy = (\<lambda>l d. l\<lparr>loc_offset := loc_offset l + d\<rparr>),
          BINARY_OPERATORS = (\<lambda>s. Some (BinaryOperator s)),
          namespaceForKey = (\<lambda>k. if k = Some ''svg'' then SVG else HTML),
          prefixWithNamespace = (\<lambda>n ns. n),
          splitNsName = (\<lambda>n. Inr (None, n)),
          domSchema_securityContext = (\<lambda>tag name isAttribute. NONE),
          calcPossibleSecurityContexts = (\<lambda>selector name isAttribute. [NONE]),
          isSingleI18nIcu = (\<lambda>m. True),
          icuFromI18nMessage_name = (\<lambda>m. ''icu'')\<rparr>"

definition loc0 :: ParseLocation where
  "loc0 = \<lparr>loc_file = ''t.html'', loc_offset = 0, loc_line = 0, loc_col = 0\<rparr>"

definition loc9 :: ParseLocation where
  "loc9 = \<lparr>loc_file = ''t.html'', loc_offset = 9, loc_line = 0, loc_col = 9\<rparr>"

definition span0 :: ParseSourceSpan where
  "span0 = \<lparr>span_start = loc0, span_end = loc9, span_fullStart = loc0\<rparr>"

definition span9 :: ParseSourceSpan where
  "span9 = \<lparr>span_start = loc9, span_end = loc9, span_fullStart = loc9\<rparr>"

definition ps0 :: ParseSpan where
  "ps0 = \<lparr>ps_start = 0, ps_end = 1\<rparr>"

definition unit0 :: CompilationUnit where
  "unit0 = \<lparr>xref = 0, parent = None, create = [], update = [], contextVariables = [],
            aliases = []\<rparr>"

definition job0 :: CompilationJob where
  "job0 = \<lparr>nextXrefId = 1, root = 0, views = [unit0],
           compatibility = TemplateDefinitionBuilder, deferBlocksMeta = []\<rparr>"

text \<open>An element \<^verbatim>\<open><div>\<close> without bindings, with or without an end tag.\<close>

definition div0 :: "ParseSourceSpan option \<Rightarrow> ElementInfo" where
  "div0 endSpan =
     \<lparr>el_name = ''div'', el_attributes = [], el_inputs = [], el_outputs = [],
      el_references = [], el_sourceSpan = span0, el_startSourceSpan = span0,
      el_endSourceSpan = endSpan, el_i18n = None\<rparr>"

text \<open>The operations that ingesting this element leaves in the create list.\<close>

definition div0_ops :: "ParseSourceSpan \<Rightarrow> Op list" where
  "div0_ops endSpan =
     [ElementStartOp
        \<lparr>es_tag = ''div'', es_xref = 1, es_namespace = HTML, es_i18nPlaceholder = None,
         es_localRefs = [], es_startSourceSpan = span0, es_wholeSourceSpan = span0\<rparr>,
      I18nAttributesOp 2 NewSlotHandle 1,
      ElementEndOp 1 endSpan]"

text \<open>An \<^verbatim>\<open><ng-template>\<close> without bindings.\<close>

definition ng_template0 :: TemplateInfo where
  "ng_template0 =
     \<lparr>tm_tagName = Some ''ng-template'', tm_attributes = [], tm_inputs = [], tm_outputs = [],
      tm_templateAttrs = [], tm_references = [], tm_variables = [], tm_sourceSpan = span0,
      tm_startSourceSpan = span0, tm_endSourceSpan = None, tm_i18n = None\<rparr>"

definition unit1 :: CompilationUnit where
  "unit1 = \<lparr>xref = 1, parent = Some 0, create = [], update = [], contextVariables = [],
            aliases = []\<rparr>"

text \<open>The template of \<^verbatim>\<open><div *dir [class.on]="x" [attr.title]="t">\<close>.\<close>

definition class_input :: BoundAttribute where
  "class_input =
     \<lparr>ba_name = ''on'', ba_type = bt_Class, ba_securityContext = NONE,
      ba_value = PropertyRead ps0 ImplicitReceiver ''x'', ba_unit = None,
      ba_sourceSpan = span0, ba_i18n = None\<rparr>"

definition attr_input :: BoundAttribute where
  "attr_input =
     \<lparr>ba_name = ''title'', ba_type = bt_Attribute, ba_securityContext = NONE,
      ba_value = PropertyRead ps0 ImplicitReceiver ''t'', ba_unit = None,
      ba_sourceSpan = span0, ba_i18n = None\<rparr>"

definition structural0 :: TemplateInfo where
  "structural0 =
     \<lparr>tm_tagName = Some ''div'', tm_attributes = [], tm_inputs = [class_input, attr_input],
      tm_outputs = [], tm_templateAttrs = [], tm_references = [], tm_variables = [],
      tm_sourceSpan = span0, tm_startSourceSpan = span0, tm_endSourceSpan = None,
      tm_i18n = None\<rparr>"

text \<open>The children \<^verbatim>\<open>a<div slot="s"></div>\<close> of a block: a text, then an element.\<close>

definition slot_attribute :: TextAttribute where
  "slot_attribute = \<lparr>ta_name = ''slot'', ta_value = ''s'', ta_sourceSpan = span0, ta_i18n = None\<rparr>"

definition text_a :: TextInfo where
  "text_a = \<lparr>tx_value = ''a'', tx_sourceSpan = span0\<rparr>"

definition text_then_div :: "Node list" where
  "text_then_div = [Text text_a, Element ((div0 None)\<lparr>el_attributes := [slot_attribute]\<rparr>) []]"

definition slot_binding :: Op where
  "slot_binding =
     BindingOp
       \<lparr>b_target = 1, b_kind = Attribute, b_name = ''slot'',
        b_expression = Expr (LiteralExpr (LitString ''s'') None), b_unit = None,
        b_securityContext = OneContext NONE, b_isTextAttribute = True,
        b_isStructuralTemplateAttribute = False, b_templateKind = None,
        b_i18nMessage = None, b_sourceSpan = Some span0\<rparr>"

text \<open>Host properties: \<^verbatim>\<open>[@attr.x]\<close>, \<^verbatim>\<open>[attr.x]\<close>, \<^verbatim>\<open>[title]\<close>, and one whose expression
  cannot be lowered.\<close>

definition animation_attr_property :: ParsedProperty where
  "animation_attr_property =
     \<lparr>pp_name = ''attr.x'', pp_expression_ast = LiteralPrimitive ps0 (LitNumber 1),
      pp_isAnimation = True, pp_sourceSpan = span0\<rparr>"

definition attr_property :: ParsedProperty where
  "attr_property =
     \<lparr>pp_name = ''attr.x'', pp_expression_ast = LiteralPrimitive ps0 (LitNumber 1),
      pp_isAnimation = False, pp_sourceSpan = span0\<rparr>"

definition title_property :: ParsedProperty where
  "title_property =
     \<lparr>pp_name = ''title'', pp_expression_ast = LiteralPrimitive ps0 (LitNumber 1),
      pp_isAnimation = False, pp_sourceSpan = span0\<rparr>"

definition failing_property :: ParsedProperty where
  "failing_property =
     \<lparr>pp_name = ''attr.y'', pp_expression_ast = Chain [], pp_isAnimation = False,
      pp_sourceSpan = span0\<rparr>"

definition host_input :: "ParsedProperty list \<Rightarrow> HostBindingInput" where
  "host_input ps =
     \<lparr>componentName = ''C'', componentSelector = ''c'', properties = Some ps,
      attributes = [], events = None\<rparr>"

text \<open>The binding operation expected for one of these properties.\<close>

definition host_op :: "BindingKind \<Rightarrow> string \<Rightarrow> Op" where
  "host_op k n =
     BindingOp
       \<lparr>b_target = 0, b_kind = k, b_name = n,
        b_expression = Expr (LiteralExpr (LitNumber 1) (convertSourceSpan X0 ps0 (Some span0))),
        b_unit = None, b_securityContext = ManyContexts [], b_isTextAttribute = False,
        b_isStructuralTemplateAttribute = False, b_templateKind = None,
        b_i18nMessage = None, b_sourceSpan = Some span0\<rparr>"

text \<open>Triggers of a deferred block: none, and \<^verbatim>\<open>on idle\<close>.\<close>

definition triggers_none :: DeferredBlockTriggers where
  "triggers_none =
     \<lparr>tr_when = None, tr_idle = None, tr_immediate = None, tr_hover = None, tr_timer = None,
      tr_interaction = None, tr_viewport = None\<rparr>"

definition triggers_idle :: DeferredBlockTriggers where
  "triggers_idle = triggers_none\<lparr>tr_idle := Some span0\<rparr>"

text \<open>
  The template of \<^verbatim>\<open><div *dir="s" [class.on]="x" [attr.title]="t" (click)="f">\<close>, its
  template operation, and the job once the operation's id is allocated.
\<close>

definition click_output :: BoundEvent where
  "click_output =
     \<lparr>be_name = ''click'', be_type = Regular, be_handler = PropertyRead ps0 ImplicitReceiver ''f'',
      be_target = None, be_phase = None, be_sourceSpan = span0, be_handlerSpan = span0\<rparr>"

definition dir_attribute :: TextAttribute where
  "dir_attribute = \<lparr>ta_name = ''dir'', ta_value = ''s'', ta_sourceSpan = span0, ta_i18n = None\<rparr>"

definition structural1 :: TemplateInfo where
  "structural1 =
     structural0\<lparr>tm_templateAttrs := [TextAttr dir_attribute], tm_outputs := [click_output]\<rparr>"

definition template_op1 :: Op where
  "template_op1 =
     TemplateOp
       \<lparr>tp_xref = 1, tp_kind = Structural, tp_tag = Some ''div'',
        tp_functionNameSuffix = ''div'', tp_namespace = HTML, tp_i18nPlaceholder = None,
        tp_localRefs = [], tp_startSourceSpan = Some span0, tp_wholeSourceSpan = Some span0\<rparr>"

definition job_structural1 :: CompilationJob where
  "job_structural1 = job0\<lparr>nextXrefId := 2\<rparr>"

text \<open>The operations that the bindings of this template leave in the two lists.\<close>

definition structural1_create :: "Op list" where
  "structural1_create =
     [ExtractedAttributeOp
        \<lparr>ea_target = 1, ea_bindingKind = Property, ea_namespace = None, ea_name = ''on'',
         ea_expression = None, ea_i18nContext = None, ea_i18nMessage = None,
         ea_securityContext = OneContext NONE\<rparr>,
      ExtractedAttributeOp
        \<lparr>ea_target = 1, ea_bindingKind = Property, ea_namespace = None, ea_name = ''click'',
         ea_expression = None, ea_i18nContext = None, ea_i18nMessage = None,
         ea_securityContext = OneContext NONE\<rparr>,
      I18nAttributesOp 2 NewSlotHandle 1]"

definition structural1_update :: "Op list" where
  "structural1_update =
     [BindingOp
        \<lparr>b_target = 1, b_kind = Attribute, b_name = ''dir'',
         b_expression = Expr (LiteralExpr (LitString ''s'') None), b_unit = None,
         b_securityContext = OneContext NONE, b_isTextAttribute = True,
         b_isStructuralTemplateAttribute = True, b_templateKind = Some Structural,
         b_i18nMessage = None, b_sourceSpan = Some span0\<rparr>]"

text \<open>
  A deferred block without children and without secondary blocks, with given triggers;
  a job that has metadata for it; and the create list that ingesting the block leaves,
  up to the trigger operations.
\<close>

definition defer0 :: "DeferredBlockTriggers \<Rightarrow> DeferredBlockTriggers \<Rightarrow> DeferredInfo" where
  "defer0 t pt =
     \<lparr>df_identity = 7, df_triggers = t, df_prefetchTriggers = pt, df_sourceSpan = span0,
      df_i18n = None\<rparr>"

definition job_defer0 :: CompilationJob where
  "job_defer0 = job0\<lparr>deferBlocksMeta := [(7, ''meta'')]\<rparr>"

definition defer0_create :: "Op list \<Rightarrow> Op list" where
  "defer0_create ons =
     [TemplateOp
        \<lparr>tp_xref = 1, tp_kind = Block, tp_tag = None, tp_functionNameSuffix = ''Defer'',
         tp_namespace = HTML, tp_i18nPlaceholder = None, tp_localRefs = [],
         tp_startSourceSpan = Some span0, tp_wholeSourceSpan = Some span0\<rparr>,
      DeferOp
        \<lparr>d_xref = 2, d_mainView = 1, d_mainSlot = HandleOf 1, d_metadata = ''meta'',
         d_sourceSpan = span0, d_placeholderView = None, d_placeholderSlot = None,
         d_loadingSlot = None, d_errorSlot = None, d_placeholderMinimumTime = None,
         d_loadingMinimumTime = None, d_loadingAfterTime = None\<rparr>]
     @ ons"

section \<open>Evaluation on concrete inputs\<close>

lemmas job_defs =
  allocateXrefId_def allocateView_def create_push_def update_push_def updView_def
  getView_def contextVariables_set_def aliases_add_def create_insertBefore_last_def
  create_insertAfter_head_def create_insertBefore_tail_def Let_def

lemmas input_defs =
  X0_def job0_def unit0_def unit1_def div0_def div0_ops_def ps0_def ng_template0_def
  structural0_def class_input_def attr_input_def text_then_div_def text_a_def
  slot_attribute_def slot_binding_def triggers_none_def triggers_idle_def
  click_output_def dir_attribute_def structural1_def template_op1_def job_structural1_def
  structural1_create_def structural1_update_def defer0_def job_defer0_def defer0_create_def

lemmas host_defs =
  ingestHostBinding_def host_input_def animation_attr_property_def attr_property_def
  title_property_def failing_property_def ingestHostProperty_def startsWith_def
  substring_def host_op_def

lemmas binding_defs =
  ingestElementBindings_def ingestTemplateBindings_def createTemplateBinding_def
  elementAttributeBinding_def elementInputBinding_def elementOutput_def
  templateAttrBinding_def templateAttributeBinding_def templateInputBinding_def
  templateOutput_def i18nAttributes_push_def staticAttribute_push_def
  templateVariable_set_def ingestReferences_def some_i18nMessage_not_null_def
  end_or_start_def convertAstWithInterpolation_def NG_TEMPLATE_TAG_NAME_def

section \<open>Reading and changing units\<close>

lemma getView_updView:
  "(\<And>v. xref (f v) = xref v) \<Longrightarrow> getView u (updView u f job) = map_option f (getView u job)"
proof -
  assume fx: "\<And>v. xref (f v) = xref v"
  have "find (\<lambda>v. xref v = u) (map (\<lambda>v. if xref v = u then f v else v) vs)
          = map_option f (find (\<lambda>v. xref v = u) vs)" for vs
    by (induction vs) (simp_all add: fx)
  then show ?thesis
    by (simp add: getView_def updView_def)
qed

lemma getView_create_push:
  "getView u (create_push u ops job)
     = map_option (\<lambda>v. v\<lparr>create := create v @ ops\<rparr>) (getView u job)"
  by (simp add: create_push_def getView_updView)

lemma getView_create_insertBefore_last:
  "getView u (create_insertBefore_last u op job)
     = map_option (\<lambda>v. v\<lparr>create := butlast (create v) @ [op, last (create v)]\<rparr>)
         (getView u job)"
  by (simp add: create_insertBefore_last_def getView_updView)

lemma same_units_refl [simp]: "same_units job job"
  by (simp add: same_units_def)

lemma same_units_trans: "same_units j1 j2 \<Longrightarrow> same_units j2 j3 \<Longrightarrow> same_units j1 j3"
  by (simp add: same_units_def)

lemma same_units_allocateXrefId: "allocateXrefId job = (x, job') \<Longrightarrow> same_units job job'"
  by (auto simp: allocateXrefId_def same_units_def)

lemma convertAst_same_units:
  "convertAst X a base job = Inr (x, job') \<Longrightarrow> same_units job job'"
  "convertAsts X as base job = Inr (xs, job') \<Longrightarrow> same_units job job'"
  "convertEntries X ks vs base job = Inr (es, job') \<Longrightarrow> same_units job job'"
proof (induction X a base job and X as base job and X ks vs base job
       arbitrary: x job' and xs job' and es job'
       rule: convertAst_convertAsts_convertEntries.induct)
  case (4 X span receiver key val base job)
  from "4.prems" obtain r j1 k j2 v where
    steps: "convertAst X receiver base job = Inr (r, j1)"
      "convertAst X key base j1 = Inr (k, j2)" "convertAst X val base j2 = Inr (v, job')"
    by (auto split: sum.splits)
  have "same_units job j1" "same_units j1 j2" "same_units j2 job'"
    using steps "4.IH" by auto
  then show ?case
    by (blast intro: same_units_trans)
next
  case (8 X span operation left right base job)
  from "8.prems" obtain operator l j1 r where
    steps: "BINARY_OPERATORS X operation = Some operator"
      "convertAst X left base job = Inr (l, j1)" "convertAst X right base j1 = Inr (r, job')"
    by (auto split: sum.splits option.splits)
  have "same_units job j1" "same_units j1 job'"
    using steps "8.IH" by auto
  then show ?case
    by (blast intro: same_units_trans)
next
  case (14 X span condition trueExp falseExp base job)
  from "14.prems" obtain c j1 t j2 f where
    steps: "convertAst X condition base job = Inr (c, j1)"
      "convertAst X trueExp base j1 = Inr (t, j2)" "convertAst X falseExp base j2 = Inr (f, job')"
    by (auto split: sum.splits)
  have "same_units job j1" "same_units j1 j2" "same_units j2 job'"
    using steps "14.IH" by auto
  then show ?case
    by (blast intro: same_units_trans)
next
  case (16 X span ex name args base job)
  then show ?case
    by (auto simp: Let_def split: sum.splits prod.splits
          dest!: same_units_allocateXrefId intro: same_units_trans)
qed (auto simp: Let_def split: sum.splits prod.splits if_splits option.splits
       intro: same_units_trans)

lemma getView_same_units: "same_units job job' \<Longrightarrow> getView u job' = getView u job"
  by (simp add: same_units_def getView_def)

lemma getView_update_push:
  "getView u (update_push u ops job)
     = map_option (\<lambda>v. v\<lparr>update := update v @ ops\<rparr>) (getView u job)"
  by (simp add: update_push_def getView_updView)

lemma root_updView [simp]: "root (updView u f job) = root job"
  by (simp add: updView_def)

lemma root_create_push [simp]: "root (create_push u ops job) = root job"
  by (simp add: create_push_def)

lemma root_update_push [simp]: "root (update_push u ops job) = root job"
  by (simp add: update_push_def)

section \<open>Expression lowering: property reads and calls\<close>

text \<open>
  C4.  A property read whose receiver is an explicit \<^verbatim>\<open>this\<close> lowers to a bare lexical
  read by name, except when the name is \<^verbatim>\<open>$any\<close> or \<^verbatim>\<open>$event\<close>: then it lowers to a
  property read on the context of the root view.  A property read whose receiver is the
  implicit receiver always lowers to a bare lexical read.  Neither changes the job.
\<close>

theorem convertAst_PropertyRead_receivers:
  "convertAst X (PropertyRead span ThisReceiver name) base job =
     (if name = ''$any'' \<or> name = ''$event''
      then Inr (ReadPropExpr (ContextExpr (root job)) name (convertSourceSpan X span base), job)
      else Inr (LexicalReadExpr name, job))
   \<and> convertAst X (PropertyRead span ImplicitReceiver name) base job
       = Inr (LexicalReadExpr name, job)"
  by simp

theorem convertAst_PropertyRead_receivers_witness:
  "convertAst X0 (PropertyRead ps0 ThisReceiver ''$event'') None job0
     = Inr (ReadPropExpr (ContextExpr 0) ''$event'' None, job0)
   \<and> convertAst X0 (PropertyRead ps0 ThisReceiver ''$any'') None job0
     = Inr (ReadPropExpr (ContextExpr 0) ''$any'' None, job0)
   \<and> convertAst X0 (PropertyRead ps0 ThisReceiver ''title'') None job0
     = Inr (LexicalReadExpr ''title'', job0)
   \<and> convertAst X0 (PropertyRead ps0 ImplicitReceiver ''$event'') None job0
     = Inr (LexicalReadExpr ''$event'', job0)"
  using convertAst_PropertyRead_receivers [of X0 ps0 "''$event''" None job0]
    convertAst_PropertyRead_receivers [of X0 ps0 "''$any''" None job0]
    convertAst_PropertyRead_receivers [of X0 ps0 "''title''" None job0]
  by (simp add: convertSourceSpan_def job0_def)




section \<open>Switch blocks without cases\<close>

text \<open>
  C8.  Ingesting a switch block with zero cases returns the job as it was: no operation
  is appended to any list of any unit, no view and no id is allocated.  The same holds
  for the node dispatcher on a template that is just this block.
\<close>

theorem ingestSwitchBlock_no_cases:
  "ingestSwitchBlock X unit switchBlock [] job = Inr job
   \<and> ingestNodes X unit [SwitchBlock switchBlock []] job = Inr job"
  by simp

section \<open>The end of an element\<close>

text \<open>
  C7.  When ingesting an element succeeds, the last operation of the unit's create list
  is the element-end operation of that element (its id is the one allocated for the
  element, the next free id of the job at the start), and its source span is the span
  of the end tag if the element has one, and the span of the start tag otherwise.
\<close>

theorem ingestElement_end_span:
  assumes "ingestElement X unit element children job = Inr job'"
    and "getView unit job' = Some v"
  shows "create v \<noteq> []
     \<and> last (create v)
       = ElementEndOp (nextXrefId job)
           (case el_endSourceSpan element of
              None \<Rightarrow> el_startSourceSpan element
            | Some endSpan \<Rightarrow> endSpan)"
  using assms
  by (auto simp: allocateXrefId_def end_or_start_def getView_create_push
        getView_create_insertBefore_last Let_def
      split: if_splits sum.splits prod.splits option.splits)

theorem ingestElement_end_span_witness:
  "ingestElement X0 0 (div0 None) [] job0
     = Inr (job0\<lparr>nextXrefId := 3, views := [unit0\<lparr>create := div0_ops span0\<rparr>]\<rparr>)
   \<and> last (div0_ops span0) = ElementEndOp 1 span0
   \<and> ingestElement X0 0 (div0 (Some span9)) [] job0
     = Inr (job0\<lparr>nextXrefId := 3, views := [unit0\<lparr>create := div0_ops span9\<rparr>]\<rparr>)
   \<and> last (div0_ops span9) = ElementEndOp 1 span9"
proof -
  have no_end: "ingestElement X0 0 (div0 None) [] job0
     = Inr (job0\<lparr>nextXrefId := 3, views := [unit0\<lparr>create := div0_ops span0\<rparr>]\<rparr>)"
    by (simp add: input_defs job_defs binding_defs)
  have with_end: "ingestElement X0 0 (div0 (Some span9)) [] job0
     = Inr (job0\<lparr>nextXrefId := 3, views := [unit0\<lparr>create := div0_ops span9\<rparr>]\<rparr>)"
    by (simp add: input_defs job_defs binding_defs)
  have unit: "getView 0 (job0\<lparr>nextXrefId := 3, views := [unit0\<lparr>create := ops\<rparr>]\<rparr>)
                = Some (unit0\<lparr>create := ops\<rparr>)" for ops
    by (simp add: getView_def unit0_def)
  from ingestElement_end_span [OF no_end unit] ingestElement_end_span [OF with_end unit]
    no_end with_end
  show ?thesis
    by (simp add: job0_def div0_def)
qed

section \<open>Default trigger of a deferred block\<close>

lemma defer_synthesized_DeferOnOp [simp]:
  "defer_synthesized (DeferOnOp x k p s) \<longleftrightarrow> s = None"
  by (cases s) simp_all

lemma deferTriggers_round_result:
  assumes "deferTriggers_round X x p t ons0 whens0 job = Inr ((ons, whens), job')"
  obtains a b where
    "ons = ons0 @ a
           @ (if ons0 = [] \<and> whens0 = [] \<and> no_triggers t
              then [DeferOnOp x Idle False None] else [])"
    "whens = whens0 @ b"
    "\<forall>op \<in> set a \<union> set b. defer_prefetch op = p \<and> \<not> defer_synthesized op"
    "a = [] \<and> b = [] \<longleftrightarrow> no_triggers t"
proof -
  define a where "a =
     (case tr_idle t of None \<Rightarrow> [] | Some sp \<Rightarrow> [DeferOnOp x Idle p (Some sp)])
     @ (case tr_immediate t of None \<Rightarrow> [] | Some sp \<Rightarrow> [DeferOnOp x Immediate p (Some sp)])
     @ (case tr_timer t of None \<Rightarrow> []
        | Some tt \<Rightarrow> [DeferOnOp x (Timer (tt_delay tt)) p (Some (tt_sourceSpan tt))])
     @ (case tr_hover t of None \<Rightarrow> []
        | Some rt \<Rightarrow> [DeferOnOp x (Hover (referenceTarget rt)) p (Some (rt_sourceSpan rt))])
     @ (case tr_interaction t of None \<Rightarrow> []
        | Some rt \<Rightarrow>
            [DeferOnOp x (Interaction (referenceTarget rt)) p (Some (rt_sourceSpan rt))])
     @ (case tr_viewport t of None \<Rightarrow> []
        | Some rt \<Rightarrow> [DeferOnOp x (Viewport (referenceTarget rt)) p (Some (rt_sourceSpan rt))])"
  have a_ops: "\<forall>op \<in> set a. defer_prefetch op = p \<and> \<not> defer_synthesized op"
    by (auto simp: a_def split: option.splits)
  have a_empty: "a = [] \<longleftrightarrow> tr_idle t = None \<and> tr_immediate t = None \<and> tr_timer t = None
                    \<and> tr_hover t = None \<and> tr_interaction t = None \<and> tr_viewport t = None"
    by (auto simp: a_def split: option.splits)
  obtain b where b: "whens = whens0 @ b"
      "\<forall>op \<in> set b. defer_prefetch op = p \<and> \<not> defer_synthesized op"
      "b = [] \<longleftrightarrow> tr_when t = None"
      "ons = (if ons0 @ a = [] \<and> whens = [] then ons0 @ a @ [DeferOnOp x Idle False None]
              else ons0 @ a)"
  proof (cases "tr_when t")
    case None
    with assms have "whens = whens0 @ []"
      and "ons = (if ons0 @ a = [] \<and> whens = [] then ons0 @ a @ [DeferOnOp x Idle False None]
                  else ons0 @ a)"
      by (auto simp: deferTriggers_round_def a_def Let_def split: option.splits if_splits)
    with None show thesis
      using that [of "[]"] by simp
  next
    case (Some w)
    with assms obtain e j where e: "convertAst X (wt_value w) (Some (wt_sourceSpan w)) job = Inr (e, j)"
      by (auto simp: deferTriggers_round_def Let_def split: if_splits sum.splits)
    with Some assms have "whens = whens0 @ [DeferWhenOp x e p (wt_sourceSpan w)]"
      and "ons = (if ons0 @ a = [] \<and> whens = [] then ons0 @ a @ [DeferOnOp x Idle False None]
                  else ons0 @ a)"
      by (auto simp: deferTriggers_round_def a_def Let_def split: option.splits if_splits)
    with Some show thesis
      using that [of "[DeferWhenOp x e p (wt_sourceSpan w)]"] by simp
  qed
  have none: "no_triggers t \<longleftrightarrow> a = [] \<and> b = []"
    using a_empty b(3) by (auto simp: no_triggers_def)
  have "ons = ons0 @ a @ (if ons0 = [] \<and> whens0 = [] \<and> no_triggers t
                           then [DeferOnOp x Idle False None] else [])"
    using b(1,4) none by auto
  with a_ops b(1,2) none show thesis
    by (intro that [of a b]) auto
qed

lemma deferTriggers_round_returns:
  "tr_when t = None
     \<Longrightarrow> \<exists>ons whens. deferTriggers_round X x p t ons0 whens0 job = Inr ((ons, whens), job)"
  by (simp add: deferTriggers_round_def Let_def)

text \<open>
  The trigger loop of a deferred block, when it returns.  If the block has no regular
  trigger at all (so that no pass yields a non-prefetch trigger), exactly one trigger
  operation is synthesized: an idle trigger for the block, not prefetching, and it is
  the only non-prefetching trigger operation; nothing is synthesized for the prefetch
  pass.  If the block has a regular trigger (an on-trigger or a when-trigger), no
  trigger operation is synthesized, and a non-prefetching trigger operation exists.
  The loop returns whenever neither pass has a when-trigger.
\<close>

lemma ingestDeferTriggers_synthesized:
  "(tr_when triggers = None \<and> tr_when prefetchTriggers = None \<longrightarrow>
      (\<exists>r. ingestDeferTriggers X deferXref triggers prefetchTriggers job = Inr (r, job)))
   \<and> (\<forall>deferOnOps deferWhenOps job'.
         ingestDeferTriggers X deferXref triggers prefetchTriggers job
           = Inr ((deferOnOps, deferWhenOps), job') \<longrightarrow>
         (no_triggers triggers \<longrightarrow>
            filter defer_synthesized (deferOnOps @ deferWhenOps)
              = [DeferOnOp deferXref Idle False None]
            \<and> filter (\<lambda>op. \<not> defer_prefetch op) (deferOnOps @ deferWhenOps)
              = [DeferOnOp deferXref Idle False None])
         \<and> (\<not> no_triggers triggers \<longrightarrow>
              filter defer_synthesized (deferOnOps @ deferWhenOps) = []
              \<and> filter (\<lambda>op. \<not> defer_prefetch op) (deferOnOps @ deferWhenOps) \<noteq> []))"
proof (intro conjI impI allI)
  assume "tr_when triggers = None \<and> tr_when prefetchTriggers = None"
  then have w: "tr_when triggers = None" "tr_when prefetchTriggers = None"
    by simp_all
  from deferTriggers_round_returns [OF w(1)] obtain ons1 whens1 where
    r1: "deferTriggers_round X deferXref False triggers [] [] job = Inr ((ons1, whens1), job)"
    by blast
  from deferTriggers_round_returns [OF w(2)] obtain ons2 whens2 where
    r2: "deferTriggers_round X deferXref True prefetchTriggers ons1 whens1 job
           = Inr ((ons2, whens2), job)"
    by blast
  show "\<exists>r. ingestDeferTriggers X deferXref triggers prefetchTriggers job = Inr (r, job)"
    by (simp add: ingestDeferTriggers_def r1 r2)
next
  fix deferOnOps deferWhenOps job'
  assume run: "ingestDeferTriggers X deferXref triggers prefetchTriggers job
                 = Inr ((deferOnOps, deferWhenOps), job')"
  then obtain ons1 whens1 job1 where
    r1: "deferTriggers_round X deferXref False triggers [] [] job = Inr ((ons1, whens1), job1)"
    and r2: "deferTriggers_round X deferXref True prefetchTriggers ons1 whens1 job1
               = Inr ((deferOnOps, deferWhenOps), job')"
    by (auto simp: ingestDeferTriggers_def split: sum.splits)
  obtain a1 b1 where one:
      "ons1 = a1 @ (if no_triggers triggers then [DeferOnOp deferXref Idle False None] else [])"
      "whens1 = b1"
      "\<forall>op \<in> set a1 \<union> set b1. \<not> defer_prefetch op \<and> \<not> defer_synthesized op"
      "a1 = [] \<and> b1 = [] \<longleftrightarrow> no_triggers triggers"
    by (rule deferTriggers_round_result [OF r1]) (simp add: that)
  have nonempty: "\<not> (ons1 = [] \<and> whens1 = [])"
    using one by auto
  obtain a2 b2 where two: "deferOnOps = ons1 @ a2" "deferWhenOps = whens1 @ b2"
      "\<forall>op \<in> set a2 \<union> set b2. defer_prefetch op \<and> \<not> defer_synthesized op"
    by (rule deferTriggers_round_result [OF r2]) (use nonempty in \<open>auto intro!: that\<close>)
  have f2: "filter defer_synthesized a2 = []" "filter defer_synthesized b2 = []"
    "filter (\<lambda>op. \<not> defer_prefetch op) a2 = []" "filter (\<lambda>op. \<not> defer_prefetch op) b2 = []"
    using two(3) by (auto simp: filter_empty_conv)
  have f1: "filter defer_synthesized a1 = []" "filter defer_synthesized b1 = []"
    "filter (\<lambda>op. \<not> defer_prefetch op) a1 = a1" "filter (\<lambda>op. \<not> defer_prefetch op) b1 = b1"
    using one(3) by (auto simp: filter_empty_conv filter_id_conv)
  {
    assume "no_triggers triggers"
    then show "filter defer_synthesized (deferOnOps @ deferWhenOps)
                 = [DeferOnOp deferXref Idle False None]"
      using one two(1,2) f1 f2 by auto
  }
  {
    assume "no_triggers triggers"
    then show "filter (\<lambda>op. \<not> defer_prefetch op) (deferOnOps @ deferWhenOps)
                 = [DeferOnOp deferXref Idle False None]"
      using one two(1,2) f1 f2 by auto
  }
  {
    assume "\<not> no_triggers triggers"
    then show "filter defer_synthesized (deferOnOps @ deferWhenOps) = []"
      using one two(1,2) f1 f2 by auto
  }
  {
    assume "\<not> no_triggers triggers"
    then show "filter (\<lambda>op. \<not> defer_prefetch op) (deferOnOps @ deferWhenOps) \<noteq> []"
      using one two(1,2) f1 f2 by auto
  }
qed

text \<open>The trigger loop changes nothing of the units.\<close>

lemma deferTriggers_round_same_units:
  assumes "deferTriggers_round X x p t ons whens job = Inr (r, job')"
  shows "same_units job job'"
proof (cases "tr_when t")
  case None
  with assms have "job' = job"
    unfolding deferTriggers_round_def Let_def by (simp split: if_splits)
  then show ?thesis
    by simp
next
  case (Some w)
  with assms obtain y where
    "convertAst X (wt_value w) (Some (wt_sourceSpan w)) job = Inr (y, job')"
    unfolding deferTriggers_round_def Let_def
    by (auto simp del: convertAst.simps split: if_splits sum.splits prod.splits)
  then show ?thesis
    by (rule convertAst_same_units(1))
qed

lemma ingestDeferTriggers_same_units:
  assumes "ingestDeferTriggers X x t pt job = Inr (r, job')"
  shows "same_units job job'"
proof -
  from assms obtain r1 job1 r2 where
    "deferTriggers_round X x False t [] [] job = Inr (r1, job1)"
    "deferTriggers_round X x True pt (fst r1) (snd r1) job1 = Inr (r2, job')"
    unfolding ingestDeferTriggers_def by (auto split: sum.splits)
  then show ?thesis
    by (blast intro: same_units_trans deferTriggers_round_same_units)
qed

text \<open>
  The end of \<^verbatim>\<open>ingestDeferBlock\<close>, after the views: the defer operation, whose id is
  the next free id, and the on-triggers go to the end of the unit's create list, the
  when-triggers to the end of its update list, and nothing else changes in the unit.
\<close>

lemma ingestDeferBlock_ops_effect:
  assumes "ingestDeferBlock_ops X unit d l p meta m lo po eo job = Inr job'"
  obtains op ons whens job2 job3 where
    "defer_xref op = Some (nextXrefId job)"
    "ingestDeferTriggers X (nextXrefId job) (df_triggers d) (df_prefetchTriggers d) job2
       = Inr ((ons, whens), job3)"
    "getView unit job'
       = map_option (\<lambda>v. v\<lparr>create := create v @ op # ons, update := update v @ whens\<rparr>)
           (getView unit job)"
proof (cases m)
  case None
  with assms show ?thesis
    by (simp add: ingestDeferBlock_ops_def)
next
  case (Some main)
  define op where "op = DeferOp
     \<lparr>d_xref = nextXrefId job, d_mainView = tp_xref main,
      d_mainSlot = HandleOf (tp_xref main), d_metadata = meta,
      d_sourceSpan = df_sourceSpan d,
      d_placeholderView = map_option tp_xref po,
      d_placeholderSlot = map_option (\<lambda>t. HandleOf (tp_xref t)) po,
      d_loadingSlot = map_option (\<lambda>t. HandleOf (tp_xref t)) lo,
      d_errorSlot = map_option (\<lambda>t. HandleOf (tp_xref t)) eo,
      d_placeholderMinimumTime = (case p of None \<Rightarrow> None | Some p \<Rightarrow> ph_minimumTime p),
      d_loadingMinimumTime = (case l of None \<Rightarrow> None | Some l \<Rightarrow> ld_minimumTime l),
      d_loadingAfterTime = (case l of None \<Rightarrow> None | Some l \<Rightarrow> ld_afterTime l)\<rparr>"
  define job2 where
    "job2 = create_push unit [op] (job\<lparr>nextXrefId := Suc (nextXrefId job)\<rparr>)"
  from assms Some obtain ons whens job3 where
    t: "ingestDeferTriggers X (nextXrefId job) (df_triggers d) (df_prefetchTriggers d) job2
          = Inr ((ons, whens), job3)"
    and job': "job' = update_push unit whens (create_push unit ons job3)"
    unfolding ingestDeferBlock_ops_def job2_def op_def
    by (auto simp: allocateXrefId_def Let_def split: sum.splits)
  have "getView unit job3 = getView unit job2"
    using ingestDeferTriggers_same_units [OF t] by (rule getView_same_units)
  moreover have "getView unit job2
      = map_option (\<lambda>v. v\<lparr>create := create v @ [op]\<rparr>) (getView unit job)"
    unfolding job2_def getView_create_push by (simp add: getView_def)
  ultimately have "getView unit job'
      = map_option (\<lambda>v. v\<lparr>create := create v @ op # ons, update := update v @ whens\<rparr>)
          (getView unit job)"
    unfolding job' getView_update_push getView_create_push
    by (cases "getView unit job") simp_all
  moreover have "defer_xref op = Some (nextXrefId job)"
    by (simp add: op_def)
  ultimately show ?thesis
    using t by (rule that [rotated 2])
qed

text \<open>
  C3.  A deferred block, when its ingestion succeeds.  After the main view and the
  secondary views are ingested, the unit gains exactly these operations: at the end of
  its create list the defer operation of the block, whose id is the next free id, and
  the on-trigger operations; at the end of its update list the when-trigger
  operations.  If the block has no regular trigger at all (so that no pass yields a
  non-prefetch trigger), exactly one of these trigger operations is synthesized: an
  idle trigger for the block, not prefetching, and it is the only non-prefetching
  trigger operation; nothing is synthesized for the prefetch pass.  If the block has a
  regular trigger (an on-trigger or a when-trigger), no trigger operation is
  synthesized, and a non-prefetching trigger operation exists.
\<close>

theorem ingestDeferBlock_default_idle:
  assumes "ingestDeferBlock X unit d children loading placeholder err job = Inr job'"
  shows "\<exists>mainOp job1 loadingOp job2 placeholderOp job3 errorOp job4 op ons whens.
      ingestDeferView X unit [] (df_i18n d) (Some children) (Some (df_sourceSpan d)) job
        = Inr (mainOp, job1)
    \<and> ingestDeferView_loading X unit loading job1 = Inr (loadingOp, job2)
    \<and> ingestDeferView_placeholder X unit placeholder job2 = Inr (placeholderOp, job3)
    \<and> ingestDeferView_error X unit err job3 = Inr (errorOp, job4)
    \<and> defer_xref op = Some (nextXrefId job4)
    \<and> getView unit job'
        = map_option (\<lambda>v. v\<lparr>create := create v @ op # ons, update := update v @ whens\<rparr>)
            (getView unit job4)
    \<and> (no_triggers (df_triggers d) \<longrightarrow>
          filter defer_synthesized (ons @ whens) = [DeferOnOp (nextXrefId job4) Idle False None]
          \<and> filter (\<lambda>op. \<not> defer_prefetch op) (ons @ whens)
            = [DeferOnOp (nextXrefId job4) Idle False None])
    \<and> (\<not> no_triggers (df_triggers d) \<longrightarrow>
          filter defer_synthesized (ons @ whens) = []
          \<and> filter (\<lambda>op. \<not> defer_prefetch op) (ons @ whens) \<noteq> [])"
proof -
  from assms obtain blockMeta mainOp job1 loadingOp job2 placeholderOp job3 errorOp job4 where
    steps: "ingestDeferView X unit [] (df_i18n d) (Some children) (Some (df_sourceSpan d)) job
              = Inr (mainOp, job1)"
      "ingestDeferView_loading X unit loading job1 = Inr (loadingOp, job2)"
      "ingestDeferView_placeholder X unit placeholder job2 = Inr (placeholderOp, job3)"
      "ingestDeferView_error X unit err job3 = Inr (errorOp, job4)"
    and ops: "ingestDeferBlock_ops X unit d (map_option fst loading) (map_option fst placeholder)
         blockMeta mainOp loadingOp placeholderOp errorOp job4 = Inr job'"
    by (auto simp del: ingestDeferView.simps split: option.splits sum.splits)
  from ops obtain op ons whens j2 j3 where
    op: "defer_xref op = Some (nextXrefId job4)"
    and t: "ingestDeferTriggers X (nextXrefId job4) (df_triggers d) (df_prefetchTriggers d) j2
              = Inr ((ons, whens), j3)"
    and unit: "getView unit job'
       = map_option (\<lambda>v. v\<lparr>create := create v @ op # ons, update := update v @ whens\<rparr>)
           (getView unit job4)"
    by (rule ingestDeferBlock_ops_effect)
  note s = ingestDeferTriggers_synthesized
             [of "df_triggers d" "df_prefetchTriggers d" X "nextXrefId job4" j2,
              THEN conjunct2, rule_format, OF t]
  have syn: "no_triggers (df_triggers d) \<longrightarrow>
          filter defer_synthesized (ons @ whens) = [DeferOnOp (nextXrefId job4) Idle False None]
          \<and> filter (\<lambda>op. \<not> defer_prefetch op) (ons @ whens)
            = [DeferOnOp (nextXrefId job4) Idle False None]"
    using s by blast
  have nosyn: "\<not> no_triggers (df_triggers d) \<longrightarrow>
          filter defer_synthesized (ons @ whens) = []
          \<and> filter (\<lambda>op. \<not> defer_prefetch op) (ons @ whens) \<noteq> []"
    using s by blast
  from steps op unit syn nosyn show ?thesis
    by (intro exI conjI)
qed

theorem ingestDeferBlock_default_idle_witness:
  "ingestDeferBlock X0 0 (defer0 triggers_none triggers_idle) [] None None None job_defer0
     = Inr (job_defer0\<lparr>nextXrefId := 3,
              views := [unit0\<lparr>create := defer0_create
                                  [DeferOnOp 2 Idle False None,
                                   DeferOnOp 2 Idle True (Some span0)]\<rparr>, unit1]\<rparr>)
   \<and> ingestDeferBlock X0 0 (defer0 triggers_idle triggers_none) [] None None None job_defer0
     = Inr (job_defer0\<lparr>nextXrefId := 3,
              views := [unit0\<lparr>create := defer0_create [DeferOnOp 2 Idle False (Some span0)]\<rparr>,
                        unit1]\<rparr>)
   \<and> no_triggers (df_triggers (defer0 triggers_none triggers_idle))
   \<and> \<not> no_triggers (df_triggers (defer0 triggers_idle triggers_none))
   \<and> (\<exists>job4 op ons whens.
         defer_xref op = Some (nextXrefId job4)
       \<and> getView 0 (job_defer0\<lparr>nextXrefId := 3,
              views := [unit0\<lparr>create := defer0_create
                                  [DeferOnOp 2 Idle False None,
                                   DeferOnOp 2 Idle True (Some span0)]\<rparr>, unit1]\<rparr>)
           = map_option (\<lambda>v. v\<lparr>create := create v @ op # ons, update := update v @ whens\<rparr>)
               (getView 0 job4)
       \<and> filter defer_synthesized (ons @ whens) = [DeferOnOp (nextXrefId job4) Idle False None])
   \<and> (\<exists>job4 op ons whens.
         defer_xref op = Some (nextXrefId job4)
       \<and> getView 0 (job_defer0\<lparr>nextXrefId := 3,
              views := [unit0\<lparr>create := defer0_create [DeferOnOp 2 Idle False (Some span0)]\<rparr>,
                        unit1]\<rparr>)
           = map_option (\<lambda>v. v\<lparr>create := create v @ op # ons, update := update v @ whens\<rparr>)
               (getView 0 job4)
       \<and> filter defer_synthesized (ons @ whens) = [])"
proof -
  have default: "ingestDeferBlock X0 0 (defer0 triggers_none triggers_idle) [] None None None
       job_defer0
     = Inr (job_defer0\<lparr>nextXrefId := 3,
              views := [unit0\<lparr>create := defer0_create
                                  [DeferOnOp 2 Idle False None,
                                   DeferOnOp 2 Idle True (Some span0)]\<rparr>, unit1]\<rparr>)"
    by (simp add: input_defs job_defs ingestDeferBlock_ops_def ingestDeferTriggers_def
          deferTriggers_round_def)
  have explicit: "ingestDeferBlock X0 0 (defer0 triggers_idle triggers_none) [] None None None
       job_defer0
     = Inr (job_defer0\<lparr>nextXrefId := 3,
              views := [unit0\<lparr>create := defer0_create [DeferOnOp 2 Idle False (Some span0)]\<rparr>,
                        unit1]\<rparr>)"
    by (simp add: input_defs job_defs ingestDeferBlock_ops_def ingestDeferTriggers_def
          deferTriggers_round_def)
  have none: "no_triggers (df_triggers (defer0 triggers_none triggers_idle))"
    and idle: "\<not> no_triggers (df_triggers (defer0 triggers_idle triggers_none))"
    by (simp_all add: no_triggers_def defer0_def triggers_none_def triggers_idle_def)
  from ingestDeferBlock_default_idle [OF default] none
  have one: "\<exists>job4 op ons whens.
         defer_xref op = Some (nextXrefId job4)
       \<and> getView 0 (job_defer0\<lparr>nextXrefId := 3,
              views := [unit0\<lparr>create := defer0_create
                                  [DeferOnOp 2 Idle False None,
                                   DeferOnOp 2 Idle True (Some span0)]\<rparr>, unit1]\<rparr>)
           = map_option (\<lambda>v. v\<lparr>create := create v @ op # ons, update := update v @ whens\<rparr>)
               (getView 0 job4)
       \<and> filter defer_synthesized (ons @ whens) = [DeferOnOp (nextXrefId job4) Idle False None]"
    by blast
  from ingestDeferBlock_default_idle [OF explicit] idle
  have two: "\<exists>job4 op ons whens.
         defer_xref op = Some (nextXrefId job4)
       \<and> getView 0 (job_defer0\<lparr>nextXrefId := 3,
              views := [unit0\<lparr>create := defer0_create [DeferOnOp 2 Idle False (Some span0)]\<rparr>,
                        unit1]\<rparr>)
           = map_option (\<lambda>v. v\<lparr>create := create v @ op # ons, update := update v @ whens\<rparr>)
               (getView 0 job4)
       \<and> filter defer_synthesized (ons @ whens) = []"
    by blast
  from default explicit none idle one two show ?thesis
    by (intro conjI)
qed

section \<open>Host bindings: the kind of a property binding\<close>

text \<open>
  C2, as stated, fails: a host property named \<^verbatim>\<open>attr.x\<close> that is an animation property is
  ingested as a binding of kind \<^verbatim>\<open>Animation\<close>, not \<^verbatim>\<open>Attribute\<close>.  The source sets the kind
  to \<^verbatim>\<open>Attribute\<close> for the prefix and then, in a second statement, to \<^verbatim>\<open>Animation\<close> for
  an animation property.
\<close>

theorem ingestHostBinding_attr_animation_counterexample:
  "(case snd (ingestHostBinding X0 (host_input [animation_attr_property]) job0) of
      Inl e \<Rightarrow> None
    | Inr job \<Rightarrow>
        map_option (\<lambda>v. map (\<lambda>op. (op_bindingKind op, op_bindingName op)) (update v))
          (getView 0 job))
   = Some [(Some Animation, Some ''x'')]"
  by (simp add: ingestHostBinding_def host_input_def animation_attr_property_def
        ingestHostProperty_def startsWith_def substring_def convertSourceSpan_def
        input_defs job_defs)

lemma ingestHostProperty_effect:
  assumes "ingestHostProperty X p k sc job = Inr job'"
  shows "\<exists>op. root job' = root job
            \<and> getView (root job) job'
                = map_option (\<lambda>v. v\<lparr>update := update v @ [op]\<rparr>) (getView (root job) job)
            \<and> op_bindingKind op = Some k \<and> op_bindingName op = Some (pp_name p)"
proof -
  define lowered where "lowered =
     (case pp_expression_ast p of
        Interpolation strings exprs \<Rightarrow>
          (case convertAsts X exprs (Some (pp_sourceSpan p)) job of
             Inl e \<Rightarrow> Inl e
           | Inr (xs, job1) \<Rightarrow> Inr (ir_Interpolation strings xs [], job1))
      | ast \<Rightarrow>
          (case convertAst X ast (Some (pp_sourceSpan p)) job of
             Inl e \<Rightarrow> Inl e
           | Inr (x, job1) \<Rightarrow> Inr (Expr x, job1)))"
  have unfolded: "ingestHostProperty X p k sc job =
     (case lowered of
        Inl e \<Rightarrow> Inl e
      | Inr (expression, job1) \<Rightarrow>
          Inr (update_push (root job1)
                 [BindingOp \<lparr>b_target = root job1, b_kind = k,
                    b_name = pp_name p, b_expression = expression, b_unit = None,
                    b_securityContext = ManyContexts sc,
                    b_isTextAttribute = False, b_isStructuralTemplateAttribute = False,
                    b_templateKind = None, b_i18nMessage = None,
                    b_sourceSpan = Some (pp_sourceSpan p)\<rparr>] job1))"
    by (simp add: ingestHostProperty_def lowered_def)
  with assms obtain expression job1 where
    lowered: "lowered = Inr (expression, job1)"
    and job': "job' = update_push (root job1)
                 [BindingOp \<lparr>b_target = root job1, b_kind = k,
                    b_name = pp_name p, b_expression = expression, b_unit = None,
                    b_securityContext = ManyContexts sc,
                    b_isTextAttribute = False, b_isStructuralTemplateAttribute = False,
                    b_templateKind = None, b_i18nMessage = None,
                    b_sourceSpan = Some (pp_sourceSpan p)\<rparr>] job1"
    by (cases lowered) auto
  from lowered have job1: "same_units job job1"
    unfolding lowered_def
    by (cases "pp_expression_ast p")
       (auto simp del: convertAst.simps split: sum.splits dest: convertAst_same_units)
  from job1 have r: "root job1 = root job"
    by (simp add: same_units_def)
  show ?thesis
    unfolding job' r
    by (intro exI conjI) (simp add: r getView_update_push getView_same_units [OF job1])+
qed

lemma ingestHostProperties_effect:
  assumes "ingestHostProperties X selector ps job = (ps', Inr job')"
  shows "\<exists>ops. root job' = root job
            \<and> getView (root job) job'
                = map_option (\<lambda>v. v\<lparr>update := update v @ ops\<rparr>) (getView (root job) job)
            \<and> map op_bindingKind ops = map (\<lambda>p. Some (hostBindingKind p)) ps
            \<and> map op_bindingName ops = map (\<lambda>p. Some (hostBindingName p)) ps"
  using assms
proof (induction ps arbitrary: job ps')
  case Nil
  then show ?case
    by (auto intro!: exI [of _ "[]"] simp: option.map_ident)
next
  case (Cons p0 rest)
  define p where "p = (if startsWith (pp_name p0) ''attr.''
                       then p0\<lparr>pp_name := substring (pp_name p0) (length ''attr.'')\<rparr> else p0)"
  define sc where "sc = filter (\<lambda>context. context \<noteq> NONE)
                          (calcPossibleSecurityContexts X selector (pp_name p)
                             (hostBindingKind p0 = Attribute))"
  have animation: "pp_isAnimation p = pp_isAnimation p0"
    by (simp add: p_def)
  from Cons.prems obtain job1 rest1 where
    one: "ingestHostProperty X p (hostBindingKind p0) sc job = Inr job1"
    and two: "ingestHostProperties X selector rest job1 = (rest1, Inr job')"
    by (auto simp: Let_def p_def sc_def hostBindingKind_def
          split: if_splits sum.splits prod.splits)
  from ingestHostProperty_effect [OF one] obtain op where
    op: "root job1 = root job"
      "getView (root job) job1
         = map_option (\<lambda>v. v\<lparr>update := update v @ [op]\<rparr>) (getView (root job) job)"
      "op_bindingKind op = Some (hostBindingKind p0)" "op_bindingName op = Some (pp_name p)"
    by blast
  from Cons.IH [OF two] obtain ops where
    ops: "root job' = root job1"
      "getView (root job1) job'
         = map_option (\<lambda>v. v\<lparr>update := update v @ ops\<rparr>) (getView (root job1) job1)"
      "map op_bindingKind ops = map (\<lambda>p. Some (hostBindingKind p)) rest"
      "map op_bindingName ops = map (\<lambda>p. Some (hostBindingName p)) rest"
    by blast
  have name: "pp_name p = hostBindingName p0"
    by (simp add: p_def hostBindingName_def)
  show ?case
    using op ops name
    by (intro exI [of _ "op # ops"]) (simp add: option.map_comp comp_def)
qed

lemma fold_ingestHostAttribute_effect:
  "\<exists>ops. root (fold (\<lambda>(name, expr) j. ingestHostAttribute name expr (f name) j) as job)
           = root job
       \<and> getView (root job)
           (fold (\<lambda>(name, expr) j. ingestHostAttribute name expr (f name) j) as job)
         = map_option (\<lambda>v. v\<lparr>update := update v @ ops\<rparr>) (getView (root job) job)"
proof (induction as arbitrary: job)
  case Nil
  show ?case
    by (auto intro!: exI [of _ "[]"] simp: option.map_ident)
next
  case (Cons a as)
  obtain name expr where a: "a = (name, expr)"
    by (cases a)
  define job1 where "job1 = ingestHostAttribute name expr (f name) job"
  have r: "root job1 = root job"
    by (simp add: job1_def ingestHostAttribute_def)
  obtain op where g: "getView (root job) job1
      = map_option (\<lambda>v. v\<lparr>update := update v @ [op]\<rparr>) (getView (root job) job)"
    by (simp add: job1_def ingestHostAttribute_def getView_update_push)
  from Cons.IH [of job1] obtain ops where
    "root (fold (\<lambda>(name, expr) j. ingestHostAttribute name expr (f name) j) as job1)
       = root job1"
    "getView (root job1)
       (fold (\<lambda>(name, expr) j. ingestHostAttribute name expr (f name) j) as job1)
     = map_option (\<lambda>v. v\<lparr>update := update v @ ops\<rparr>) (getView (root job1) job1)"
    by blast
  then show ?case
    using r g
    by (intro exI [of _ "op # ops"]) (simp add: a job1_def option.map_comp comp_def)
qed

lemma makeListenerHandlerOps_same_units:
  "makeListenerHandlerOps X h sp job = Inr (ops, job') \<Longrightarrow> same_units job job'"
  by (auto simp: makeListenerHandlerOps_def Let_def split: if_splits sum.splits
        dest: convertAst_same_units)

lemma ingestHostEvent_effect:
  assumes "ingestHostEvent X event job = Inr job'"
  shows "root job' = root job
       \<and> (\<exists>ops. getView (root job) job'
                 = map_option (\<lambda>v. v\<lparr>create := create v @ ops\<rparr>) (getView (root job) job))"
proof -
  from assms obtain ops job1 where
    job1: "same_units job job1"
    and job': "job' = create_push (root job1) ops job1"
    by (auto simp: ingestHostEvent_def Let_def split: sum.splits prod.splits if_splits
          dest: makeListenerHandlerOps_same_units)
  from job1 have r: "root job1 = root job"
    by (simp add: same_units_def)
  show ?thesis
    unfolding job' r
    by (auto simp: r getView_create_push getView_same_units [OF job1])
qed

lemma forE_ingestHostEvent_effect:
  assumes "forE (ingestHostEvent X) es job = Inr job'"
  shows "root job' = root job
       \<and> (\<exists>ops. getView (root job) job'
                 = map_option (\<lambda>v. v\<lparr>create := create v @ ops\<rparr>) (getView (root job) job))"
  using assms
proof (induction es arbitrary: job)
  case Nil
  then show ?case
    by (auto intro!: exI [of _ "[]"] simp: option.map_ident)
next
  case (Cons e es)
  from Cons.prems obtain job1 where
    one: "ingestHostEvent X e job = Inr job1" and two: "forE (ingestHostEvent X) es job1 = Inr job'"
    by (auto split: sum.splits)
  from ingestHostEvent_effect [OF one] obtain ops1 where
    a: "root job1 = root job"
       "getView (root job) job1
          = map_option (\<lambda>v. v\<lparr>create := create v @ ops1\<rparr>) (getView (root job) job)"
    by blast
  from Cons.IH [OF two] obtain ops2 where
    b: "root job' = root job1"
       "getView (root job1) job'
          = map_option (\<lambda>v. v\<lparr>create := create v @ ops2\<rparr>) (getView (root job1) job1)"
    by blast
  show ?case
    using a b
    by (auto intro!: exI [of _ "ops1 @ ops2"] simp: option.map_comp comp_def)
qed

text \<open>
  C2, amended.  When host-binding ingestion succeeds, the update list of the root unit
  is extended, first, by one binding operation for each host property, in order.  The
  name of the operation is the name of the property without the prefix \<^verbatim>\<open>attr.\<close>, if
  it has the prefix.  The kind is \<^verbatim>\<open>Animation\<close> for an animation property, whatever
  its name; otherwise \<^verbatim>\<open>Attribute\<close> for a name with the prefix, and \<^verbatim>\<open>Property\<close> for
  any other name.
\<close>

theorem ingestHostBinding_property_kinds:
  assumes "ingestHostBinding X input job = (input', Inr job')"
    and "getView (root job) job = Some v"
  shows "\<exists>v' ops others.
           getView (root job) job' = Some v'
           \<and> update v' = update v @ ops @ others
           \<and> map op_bindingKind ops
               = map (\<lambda>p. Some (hostBindingKind p))
                   (case properties input of None \<Rightarrow> [] | Some ps \<Rightarrow> ps)
           \<and> map op_bindingName ops
               = map (\<lambda>p. Some (hostBindingName p))
                   (case properties input of None \<Rightarrow> [] | Some ps \<Rightarrow> ps)"
proof -
  define ps where "ps = (case properties input of None \<Rightarrow> [] | Some ps \<Rightarrow> ps)"
  define f where "f = (\<lambda>name. filter (\<lambda>context. context \<noteq> NONE)
                          (calcPossibleSecurityContexts X (componentSelector input) name True))"
  from assms(1) obtain ps' job1 where
    one: "ingestHostProperties X (componentSelector input) ps job = (ps', Inr job1)"
    and two: "forE (ingestHostEvent X) (case events input of None \<Rightarrow> [] | Some es \<Rightarrow> es)
                (fold (\<lambda>(name, expr) j. ingestHostAttribute name expr (f name) j)
                   (attributes input) job1) = Inr job'"
    by (auto simp: ingestHostBinding_def ps_def f_def Let_def
          split: option.splits prod.splits sum.splits)
  define job2 where
    "job2 = fold (\<lambda>(name, expr) j. ingestHostAttribute name expr (f name) j)
              (attributes input) job1"
  from ingestHostProperties_effect [OF one] obtain ops where
    a: "root job1 = root job"
       "getView (root job) job1
          = map_option (\<lambda>v. v\<lparr>update := update v @ ops\<rparr>) (getView (root job) job)"
       "map op_bindingKind ops = map (\<lambda>p. Some (hostBindingKind p)) ps"
       "map op_bindingName ops = map (\<lambda>p. Some (hostBindingName p)) ps"
    by blast
  from fold_ingestHostAttribute_effect [of f "attributes input" job1] obtain others where
    b: "root job2 = root job1"
       "getView (root job1) job2
          = map_option (\<lambda>v. v\<lparr>update := update v @ others\<rparr>) (getView (root job1) job1)"
    unfolding job2_def by blast
  from forE_ingestHostEvent_effect [OF two [folded job2_def]] obtain cs where
    c: "getView (root job2) job'
          = map_option (\<lambda>v. v\<lparr>create := create v @ cs\<rparr>) (getView (root job2) job2)"
    by blast
  show ?thesis
    using a b c assms(2)
    by (intro exI [of _ "v\<lparr>update := update v @ ops @ others, create := create v @ cs\<rparr>"]
          exI [of _ ops] exI [of _ others])
       (simp add: ps_def)
qed

theorem ingestHostBinding_property_kinds_witness:
  "ingestHostBinding X0
     (host_input [animation_attr_property, attr_property, title_property]) job0
     = (host_input
          [animation_attr_property\<lparr>pp_name := ''x''\<rparr>, attr_property\<lparr>pp_name := ''x''\<rparr>,
           title_property],
        Inr (job0\<lparr>views :=
               [unit0\<lparr>update :=
                  [host_op Animation ''x'', host_op Attribute ''x'',
                   host_op Property ''title'']\<rparr>]\<rparr>))
   \<and> map hostBindingKind [animation_attr_property, attr_property, title_property]
       = [Animation, Attribute, Property]
   \<and> map hostBindingName [animation_attr_property, attr_property, title_property]
       = [''x'', ''x'', ''title'']"
proof -
  have run: "ingestHostBinding X0
     (host_input [animation_attr_property, attr_property, title_property]) job0
     = (host_input
          [animation_attr_property\<lparr>pp_name := ''x''\<rparr>, attr_property\<lparr>pp_name := ''x''\<rparr>,
           title_property],
        Inr (job0\<lparr>views :=
               [unit0\<lparr>update :=
                  [host_op Animation ''x'', host_op Attribute ''x'',
                   host_op Property ''title'']\<rparr>]\<rparr>))"
    by (simp add: host_defs input_defs job_defs)
  have unit: "getView (root job0) job0 = Some unit0"
    by (simp add: input_defs job_defs)
  have kinds: "map hostBindingKind [animation_attr_property, attr_property, title_property]
                 = [Animation, Attribute, Property]"
    by (simp add: hostBindingKind_def host_defs)
  have names: "map hostBindingName [animation_attr_property, attr_property, title_property]
                 = [''x'', ''x'', ''title'']"
    by (simp add: hostBindingName_def host_defs)
  from ingestHostBinding_property_kinds [OF run unit] run kinds names
  show ?thesis
    by (intro conjI)
qed

section \<open>Host bindings: what ingestion writes to its input\<close>

lemma ingestHostProperties_input:
  "ingestHostProperties X selector ps job = (ps', r)
     \<Longrightarrow> \<exists>n\<le>length ps. ps' = map stripAttrPrefix (take n ps) @ drop n ps
                        \<and> (\<forall>job'. r = Inr job' \<longrightarrow> n = length ps)"
proof (induction ps arbitrary: job ps' r)
  case Nil
  then show ?case
    by simp
next
  case (Cons p0 rest)
  define k where "k = (if pp_isAnimation (stripAttrPrefix p0) then Animation
                       else if startsWith (pp_name p0) ''attr.'' then Attribute else Property)"
  define sc where "sc = filter (\<lambda>context. context \<noteq> NONE)
                          (calcPossibleSecurityContexts X selector (pp_name (stripAttrPrefix p0))
                             (k = Attribute))"
  show ?case
  proof (cases "ingestHostProperty X (stripAttrPrefix p0) k sc job")
    case (Inl e)
    with Cons.prems have "ps' = stripAttrPrefix p0 # rest" "r = Inl e"
      by (auto simp: Let_def k_def sc_def stripAttrPrefix_def split: if_splits)
    then show ?thesis
      by (intro exI [of _ 1]) simp
  next
    case (Inr job1)
    obtain rest1 r1 where rest1: "ingestHostProperties X selector rest job1 = (rest1, r1)"
      by (cases "ingestHostProperties X selector rest job1")
    with Inr Cons.prems have result: "ps' = stripAttrPrefix p0 # rest1" "r = r1"
      by (auto simp: Let_def k_def sc_def stripAttrPrefix_def split: if_splits)
    from Cons.IH [OF rest1] obtain n where
      n: "n \<le> length rest" "rest1 = map stripAttrPrefix (take n rest) @ drop n rest"
         "\<forall>job'. r1 = Inr job' \<longrightarrow> n = length rest"
      by blast
    show ?thesis
      using n result by (intro exI [of _ "Suc n"]) simp
  qed
qed

text \<open>
  C10.  Host-binding ingestion leaves its input as it was, except for the names of
  host properties: the properties the loop has reached (all of them when ingestion
  returns a job, a leading part of them when it throws) have the prefix \<^verbatim>\<open>attr.\<close>
  stripped from their name if they had it, and are otherwise unchanged; no other field
  of a property and no other field of the input is changed.
\<close>

theorem ingestHostBinding_input:
  "\<exists>n \<le> length (case properties input of None \<Rightarrow> [] | Some ps \<Rightarrow> ps).
      fst (ingestHostBinding X input job)
        = input\<lparr>properties :=
                  map_option (\<lambda>ps. map stripAttrPrefix (take n ps) @ drop n ps)
                    (properties input)\<rparr>
      \<and> (\<forall>job'. snd (ingestHostBinding X input job) = Inr job' \<longrightarrow>
            fst (ingestHostBinding X input job)
              = input\<lparr>properties := map_option (map stripAttrPrefix) (properties input)\<rparr>)"
proof (cases "properties input")
  case None
  then show ?thesis
    by (simp add: ingestHostBinding_def)
next
  case (Some ps)
  obtain ps' r where loop: "ingestHostProperties X (componentSelector input) ps job = (ps', r)"
    by (cases "ingestHostProperties X (componentSelector input) ps job")
  from ingestHostProperties_input [OF loop] obtain n where
    n: "n \<le> length ps" "ps' = map stripAttrPrefix (take n ps) @ drop n ps"
       "\<forall>job'. r = Inr job' \<longrightarrow> n = length ps"
    by blast
  have first: "fst (ingestHostBinding X input job) = input\<lparr>properties := Some ps'\<rparr>"
    by (simp add: ingestHostBinding_def Some loop)
  have "r = Inr (projr r)" if "snd (ingestHostBinding X input job) = Inr job'" for job'
    using that by (cases r) (simp_all add: ingestHostBinding_def Some loop)
  then have "ps' = map stripAttrPrefix ps" if "snd (ingestHostBinding X input job) = Inr job'"
    for job'
    using that n by (metis drop_all append_Nil2 order_refl take_all)
  then show ?thesis
    using n(1,2) first Some by (intro exI [of _ n]) simp
qed

theorem ingestHostBinding_input_witness:
  "fst (ingestHostBinding X0 (host_input [attr_property, title_property]) job0)
     = host_input [attr_property\<lparr>pp_name := ''x''\<rparr>, title_property]
   \<and> (\<exists>job'. snd (ingestHostBinding X0 (host_input [attr_property, title_property]) job0)
               = Inr job')
   \<and> ingestHostBinding X0 (host_input [attr_property, failing_property, attr_property]) job0
     = (host_input
          [attr_property\<lparr>pp_name := ''x''\<rparr>, failing_property\<lparr>pp_name := ''y''\<rparr>,
           attr_property],
        Inl (Error ''AssertionError: Chain in unknown context''))"
proof -
  have returns: "\<exists>job'. snd (ingestHostBinding X0 (host_input [attr_property, title_property])
                              job0) = Inr job'"
    by (simp add: host_defs input_defs job_defs)
  have strip: "map stripAttrPrefix [attr_property, title_property]
                 = [attr_property\<lparr>pp_name := ''x''\<rparr>, title_property]"
    by (simp add: stripAttrPrefix_def host_defs)
  have throws: "ingestHostBinding X0
       (host_input [attr_property, failing_property, attr_property]) job0
     = (host_input
          [attr_property\<lparr>pp_name := ''x''\<rparr>, failing_property\<lparr>pp_name := ''y''\<rparr>,
           attr_property],
        Inl (Error ''AssertionError: Chain in unknown context''))"
    by (simp add: host_defs failing_property_def input_defs job_defs)
  from ingestHostBinding_input [of "host_input [attr_property, title_property]" X0 job0]
    returns strip throws
  show ?thesis
    by (auto simp: host_input_def)
qed

section \<open>The i18n-attributes operation\<close>

text \<open>
  The test \<^verbatim>\<open>bindings.some(b => b?.i18nMessage) !== null\<close> holds for every array of
  bindings: \<^verbatim>\<open>some\<close> returns a boolean, which is never \<^verbatim>\<open>null\<close>.
\<close>

lemma some_i18nMessage_not_null_always: "some_i18nMessage_not_null bindings"
  by (simp add: some_i18nMessage_not_null_def)

text \<open>
  C1, at a failing input.  Ingesting the element \<^verbatim>\<open><div></div>\<close>, which has no binding at
  all and so none with an i18n message, leaves an i18n-attributes operation for the
  element in the create list, between the element-start and the element-end
  operation.  The same happens for an \<^verbatim>\<open><ng-template>\<close> without bindings: the
  i18n-attributes operation follows the template operation.
\<close>

theorem ingest_i18nAttributes_without_message:
  "ingestComponent X0 [Element (div0 None) []] job0
     = Inr (job0\<lparr>nextXrefId := 3,
              views := [unit0\<lparr>create :=
                [ElementStartOp
                   \<lparr>es_tag = ''div'', es_xref = 1, es_namespace = HTML,
                    es_i18nPlaceholder = None, es_localRefs = [],
                    es_startSourceSpan = span0, es_wholeSourceSpan = span0\<rparr>,
                 I18nAttributesOp 2 NewSlotHandle 1,
                 ElementEndOp 1 span0]\<rparr>]\<rparr>)
   \<and> ingestComponent X0 [Template ng_template0 []] job0
     = Inr (job0\<lparr>nextXrefId := 3,
              views := [unit0\<lparr>create :=
                [TemplateOp
                   \<lparr>tp_xref = 1, tp_kind = NgTemplate, tp_tag = Some ''ng-template'',
                    tp_functionNameSuffix = ''ng-template'', tp_namespace = HTML,
                    tp_i18nPlaceholder = None, tp_localRefs = [],
                    tp_startSourceSpan = Some span0, tp_wholeSourceSpan = Some span0\<rparr>,
                 I18nAttributesOp 2 NewSlotHandle 1]\<rparr>, unit1]\<rparr>)"
  by (simp add: ingestComponent_def input_defs job_defs binding_defs)

section \<open>The insertion point of a control-flow block\<close>

text \<open>
  What the loop over the children computes: comments apart, the children must be some
  nodes that are neither elements nor templates with a tag name, followed by exactly
  one node that is; that node is the root.  Any node after the root ends the loop with
  \<^verbatim>\<open>null\<close>; nodes before it do not.
\<close>

lemma insertionPoint_loop_with_root:
  "insertionPoint_loop children (Some r)
     = (if filter (\<lambda>c. \<not> is_Comment c) children = [] then Some (Some r) else None)"
  by (induction children) simp_all

lemma insertionPoint_loop_without_root:
  "insertionPoint_loop children None
     = (case dropWhile (\<lambda>c. \<not> is_root_candidate c) (filter (\<lambda>c. \<not> is_Comment c) children) of
          [] \<Rightarrow> Some None
        | [r] \<Rightarrow> Some (Some r)
        | _ \<Rightarrow> None)"
proof (induction children)
  case Nil
  show ?case
    by simp
next
  case (Cons child rest)
  show ?case
  proof (cases "is_Comment child")
    case True
    with Cons show ?thesis
      by simp
  next
    case False
    show ?thesis
    proof (cases "is_root_candidate child")
      case True
      with False show ?thesis
        by (simp add: insertionPoint_loop_with_root split: list.splits)
    next
      case candidate: False
      with False Cons show ?thesis
        by simp
    qed
  qed
qed

text \<open>
  C6, at a failing input.  The children of the branch are a text node and then one
  element, \<^verbatim>\<open>a<div slot="s"></div>\<close>: ignoring comments they are not exactly one element.
  The function still returns the tag name \<^verbatim>\<open>div\<close> and copies the static attribute of
  the element onto the branch (a binding operation for the branch's view, here 1, in
  the update list of the unit).
\<close>

theorem ingestControlFlowInsertionPoint_leading_text:
  "ingestControlFlowInsertionPoint X0 0 1 text_then_div job0
     = Inr (Some ''div'', job0\<lparr>views := [unit0\<lparr>update := [slot_binding]\<rparr>]\<rparr>)"
  by (simp add: ingestControlFlowInsertionPoint_def input_defs job_defs binding_defs)

text \<open>The same children, one element alone and two elements, for comparison.\<close>

lemma ingestControlFlowInsertionPoint_examples:
  "ingestControlFlowInsertionPoint X0 0 1 [Element (div0 None) []] job0 = Inr (Some ''div'', job0)"
  "ingestControlFlowInsertionPoint X0 0 1 [Element (div0 None) [], Text text_a] job0
     = Inr (None, job0)"
  "ingestControlFlowInsertionPoint X0 0 1 [Element (div0 None) [], Element (div0 None) []] job0
     = Inr (None, job0)"
  "ingestControlFlowInsertionPoint X0 0 1 [Comment, Element (div0 None) [], Comment] job0
     = Inr (Some ''div'', job0)"
  "ingestControlFlowInsertionPoint X0 0 1 [Template ng_template0 []] job0 = Inr (None, job0)"
  by (simp_all add: ingestControlFlowInsertionPoint_def input_defs job_defs binding_defs)


section \<open>Bindings of a structural template\<close>

text \<open>
  On the template of a structural directive, a binding that is not flagged as a
  structural template attribute and has type property, class or style yields an
  extracted attribute (of kind \<^verbatim>\<open>Property\<close>, with the binding's name, message and
  security context) and no binding operation; a binding with an expression value (not
  a text) of type attribute or animation yields \<^verbatim>\<open>null\<close>.  Neither changes the job.
\<close>

lemma createTemplateBinding_structural:
  "(type = bt_Property \<or> type = bt_Class \<or> type = bt_Style \<longrightarrow>
      createTemplateBinding X xrefId type name val unit securityContext False
          (Some Structural) i18nMessage sourceSpan job
        = Inr (Some (ExtractedAttributeOp
                 \<lparr>ea_target = xrefId, ea_bindingKind = Property, ea_namespace = None,
                  ea_name = name, ea_expression = None, ea_i18nContext = None,
                  ea_i18nMessage = i18nMessage,
                  ea_securityContext = OneContext securityContext\<rparr>), job))
   \<and> (type = bt_Attribute \<or> type = bt_Animation \<longrightarrow>
        createTemplateBinding X xrefId type name (ValueAST a) unit securityContext False
            (Some Structural) i18nMessage sourceSpan job
          = Inr (None, job))"
  by (auto simp: createTemplateBinding_def)

lemma asMessage_message_of: "asMessage i = Inr m \<Longrightarrow> m = message_of i"
  by (cases i rule: asMessage.cases) auto

text \<open>The loop over \<^verbatim>\<open>template.inputs\<close>: the job stays, and each input gives its entry.\<close>

lemma templateInputBinding_structural:
  assumes "templateInputBinding X op (Some Structural) input job = Inr (r, job')"
  shows "job' = job
     \<and> r = (if structural_demoted input
            then Some (structural_extractedAttribute (op_xref op) input) else None)"
proof -
  from assms obtain m where m: "asMessage (ba_i18n input) = Inr m"
    and c: "createTemplateBinding X (op_xref op) (ba_type input) (ba_name input)
              (ValueAST (astOf (ba_value input))) (ba_unit input) (ba_securityContext input)
              False (Some Structural) m (ba_sourceSpan input) job = Inr (r, job')"
    by (auto simp: templateInputBinding_def split: sum.splits)
  from c createTemplateBinding_structural
         [of "ba_type input" X "op_xref op" "ba_name input" "ValueAST (astOf (ba_value input))"
             "ba_unit input" "ba_securityContext input" m "ba_sourceSpan input" job
             "astOf (ba_value input)"]
    asMessage_message_of [OF m]
  show ?thesis
    by (cases "ba_type input")
       (simp_all add: structural_demoted_def structural_extractedAttribute_def)
qed

lemma mapE_templateInputBinding_structural:
  "mapE (templateInputBinding X op (Some Structural)) inputs job = Inr (bs, job')
     \<Longrightarrow> job' = job
         \<and> bs = map (\<lambda>input. if structural_demoted input
                              then Some (structural_extractedAttribute (op_xref op) input)
                              else None) inputs"
proof (induction inputs arbitrary: bs)
  case Nil
  then show ?case
    by simp
next
  case (Cons input inputs)
  from Cons.prems obtain r job1 rs where
    step: "templateInputBinding X op (Some Structural) input job = Inr (r, job1)"
    and rest: "mapE (templateInputBinding X op (Some Structural)) inputs job1 = Inr (rs, job')"
    and bs: "bs = r # rs"
    by (auto split: sum.splits)
  from templateInputBinding_structural [OF step] rest Cons.IH [of rs] bs show ?case
    by simp
qed

lemma structural_inputs_extracted:
  "map the (filter is_ExtractedAttribute
      (map (\<lambda>input. if structural_demoted input
                     then Some (structural_extractedAttribute x input) else None) inputs))
     = map (structural_extractedAttribute x) (filter structural_demoted inputs)"
  by (induction inputs) (simp_all add: structural_extractedAttribute_def)

lemma structural_inputs_no_binding:
  "filter is_Binding
      (map (\<lambda>input. if structural_demoted input
                     then Some (structural_extractedAttribute x input) else None) inputs)
     = []"
  by (induction inputs) (simp_all add: structural_extractedAttribute_def)

text \<open>
  The loops over \<^verbatim>\<open>template.templateAttrs\<close> and \<^verbatim>\<open>template.attributes\<close>: they change
  nothing of the units, and an entry is \<^verbatim>\<open>null\<close> or a binding operation, flagged as a
  structural template attribute in the first loop and as a text attribute in the
  second.
\<close>

lemma convertAstWithInterpolation_same_units:
  assumes "convertAstWithInterpolation X val m sp job = Inr (x, job')"
  shows "same_units job job'"
proof (cases val)
  case (ValueString str)
  with assms show ?thesis
    by (simp add: convertAstWithInterpolation_def)
next
  case (ValueAST a)
  show ?thesis
  proof (cases a)
    case (Interpolation strings exprs)
    with assms ValueAST obtain xs where "convertAsts X exprs sp job = Inr (xs, job')"
      by (auto simp: convertAstWithInterpolation_def split: sum.splits)
    then show ?thesis
      by (rule convertAst_same_units(2))
  qed (use assms ValueAST in
        \<open>auto simp: convertAstWithInterpolation_def simp del: convertAst.simps
           split: sum.splits dest!: convertAst_same_units(1)\<close>)
qed

lemma createTemplateBinding_flagged:
  assumes "createTemplateBinding X x t n val u sc True k m sp job = Inr (r, job')"
  shows "same_units job job' \<and> (\<forall>u. r = Some u \<longrightarrow> structural_binding u)"
  using assms
  by (auto simp: createTemplateBinding_def Let_def split: if_splits sum.splits
        dest!: convertAstWithInterpolation_same_units)

lemma createTemplateBinding_text_attribute:
  assumes "createTemplateBinding X x bt_Attribute n (ValueString str) u sc st k m sp job
             = Inr (r, job')"
  shows "same_units job job' \<and> (\<forall>u. r = Some u \<longrightarrow> text_binding u)"
  using assms
  by (auto simp: createTemplateBinding_def Let_def split: if_splits sum.splits
        dest!: convertAstWithInterpolation_same_units)

lemma templateAttrBinding_flagged:
  assumes "templateAttrBinding X op k attr job = Inr (r, job')"
  shows "same_units job job' \<and> (\<forall>u. r = Some u \<longrightarrow> structural_binding u)"
  using assms
  by (auto simp: templateAttrBinding_def Let_def split: TemplateAttr.splits sum.splits
        dest!: createTemplateBinding_flagged)

lemma templateAttributeBinding_text:
  assumes "templateAttributeBinding X op k attr job = Inr (r, job')"
  shows "same_units job job' \<and> (\<forall>u. r = Some u \<longrightarrow> text_binding u)"
  using assms
  by (auto simp: templateAttributeBinding_def Let_def split: sum.splits
        dest!: createTemplateBinding_text_attribute)

lemma mapE_entries:
  assumes "mapE f xs s = Inr (ys, s')"
    and "\<And>x s y s'. f x s = Inr (y, s') \<Longrightarrow> same_units s s' \<and> P y"
  shows "same_units s s' \<and> (\<forall>y \<in> set ys. P y) \<and> length ys = length xs"
  using assms(1)
proof (induction xs arbitrary: s ys)
  case Nil
  then show ?case
    by simp
next
  case (Cons x xs)
  from Cons.prems obtain y s1 ys1 where
    step: "f x s = Inr (y, s1)" and rest: "mapE f xs s1 = Inr (ys1, s')" and ys: "ys = y # ys1"
    by (auto split: sum.splits)
  from assms(2) [OF step] Cons.IH [OF rest] ys show ?case
    by (auto intro: same_units_trans)
qed

lemma binding_entries:
  assumes "\<forall>r \<in> set bs. \<forall>u. r = Some u \<longrightarrow> P u"
    and "\<And>u. P u \<Longrightarrow> \<not> is_ExtractedAttribute (Some u)"
  shows "filter is_ExtractedAttribute bs = []"
    and "\<forall>u \<in> set (map the (filter is_Binding bs)). P u"
    and "length (map the (filter is_Binding bs)) \<le> length bs"
proof -
  have "\<not> is_ExtractedAttribute r" if "r \<in> set bs" for r
    using assms that by (cases r) auto
  then show "filter is_ExtractedAttribute bs = []"
    by (simp add: filter_empty_conv)
  have "P (the r)" if "r \<in> set bs" "is_Binding r" for r
    using assms(1) that by (cases r) auto
  then show "\<forall>u \<in> set (map the (filter is_Binding bs)). P u"
    by auto
  show "length (map the (filter is_Binding bs)) \<le> length bs"
    by simp
qed

lemma flagged_not_extracted:
  "structural_binding u \<Longrightarrow> \<not> is_ExtractedAttribute (Some u)"
  "text_binding u \<Longrightarrow> \<not> is_ExtractedAttribute (Some u)"
  by (cases u; simp)+

text \<open>
  The loop over \<^verbatim>\<open>template.outputs\<close>: an event that is not an animation event leaves an
  extracted attribute in the create list, and nothing else changes in the unit.
\<close>

lemma templateOutput_structural:
  assumes "templateOutput X unit op (Some Structural) output job = Inr job'"
  shows "getView unit job'
     = map_option (\<lambda>v. v\<lparr>create := create v
                           @ map (structural_output X (op_xref op))
                               (filter (\<lambda>output. be_type output \<noteq> pe_Animation) [output])\<rparr>)
         (getView unit job)"
proof (cases "be_type output = pe_Animation")
  case True
  with assms have "job' = job"
    by (simp add: templateOutput_def split: if_splits)
  with True show ?thesis
    by (simp add: option.map_ident)
next
  case False
  with assms have "job' = create_push unit [structural_output X (op_xref op) output] job"
    by (simp add: templateOutput_def structural_output_def Let_def split: if_splits)
  with False show ?thesis
    by (simp add: getView_create_push)
qed

lemma forE_templateOutput_structural:
  "forE (templateOutput X unit op (Some Structural)) outs job = Inr job'
     \<Longrightarrow> getView unit job'
         = map_option (\<lambda>v. v\<lparr>create := create v
                               @ map (structural_output X (op_xref op))
                                   (filter (\<lambda>output. be_type output \<noteq> pe_Animation) outs)\<rparr>)
             (getView unit job)"
proof (induction outs arbitrary: job)
  case Nil
  then show ?case
    by (simp add: option.map_ident)
next
  case (Cons out outs)
  from Cons.prems obtain job1 where
    step: "templateOutput X unit op (Some Structural) out job = Inr job1"
    and rest: "forE (templateOutput X unit op (Some Structural)) outs job1 = Inr job'"
    by (auto split: sum.splits)
  show ?case
    unfolding Cons.IH [OF rest] templateOutput_structural [OF step]
    by (cases "getView unit job") simp_all
qed

text \<open>
  C5.  The bindings of the template of a structural directive, when their ingestion
  succeeds.  The create list of the unit gains, in this order: one extracted attribute
  (of kind \<^verbatim>\<open>Property\<close>, with the binding's name, message and security context) for
  every input of type property, class or style, and nothing for an input of type
  attribute or animation; one extracted attribute for every event that is not an
  animation event; the i18n-attributes operation.  The update list gains binding
  operations only, each flagged as a structural template attribute or as a text
  attribute, and at most one for each template attribute and each attribute literal:
  none of them comes from an input.  Nothing else changes in the unit.
\<close>

theorem ingestTemplateBindings_structural:
  assumes "ingestTemplateBindings X unit op tmpl (Some Structural) job = Inr job'"
    and "getView unit job = Some v"
  shows "\<exists>updates x.
     getView unit job'
       = Some (v\<lparr>create := create v
                   @ map (structural_extractedAttribute (op_xref op))
                       (filter structural_demoted (tm_inputs tmpl))
                   @ map (structural_output X (op_xref op))
                       (filter (\<lambda>output. be_type output \<noteq> pe_Animation) (tm_outputs tmpl))
                   @ [I18nAttributesOp x NewSlotHandle (op_xref op)],
                 update := update v @ updates\<rparr>)
     \<and> (\<forall>u \<in> set updates. structural_binding u \<or> text_binding u)
     \<and> length updates \<le> length (tm_templateAttrs tmpl) + length (tm_attributes tmpl)"
proof -
  from assms(1) obtain bs1 job1 bs2 job2 bs3 job3 job4 where
    steps: "mapE (templateAttrBinding X op (Some Structural)) (tm_templateAttrs tmpl) job
              = Inr (bs1, job1)"
      "mapE (templateAttributeBinding X op (Some Structural)) (tm_attributes tmpl) job1
         = Inr (bs2, job2)"
      "mapE (templateInputBinding X op (Some Structural)) (tm_inputs tmpl) job2 = Inr (bs3, job3)"
      "forE (templateOutput X unit op (Some Structural)) (tm_outputs tmpl)
         (update_push unit (map the (filter is_Binding (bs1 @ bs2 @ bs3)))
            (create_push unit (map the (filter is_ExtractedAttribute (bs1 @ bs2 @ bs3))) job3))
       = Inr job4"
      "job' = i18nAttributes_push unit op (bs1 @ bs2 @ bs3) job4"
    by (auto simp: ingestTemplateBindings_def Let_def split: sum.splits)
  have one: "same_units job job1 \<and> (\<forall>r \<in> set bs1. \<forall>u. r = Some u \<longrightarrow> structural_binding u)
               \<and> length bs1 = length (tm_templateAttrs tmpl)"
    by (rule mapE_entries [OF steps(1)]) (rule templateAttrBinding_flagged)
  have two: "same_units job1 job2 \<and> (\<forall>r \<in> set bs2. \<forall>u. r = Some u \<longrightarrow> text_binding u)
               \<and> length bs2 = length (tm_attributes tmpl)"
    by (rule mapE_entries [OF steps(2)]) (rule templateAttributeBinding_text)
  note three = mapE_templateInputBinding_structural [OF steps(3)]
  from one have b1: "\<forall>r \<in> set bs1. \<forall>u. r = Some u \<longrightarrow> structural_binding u"
    by simp
  from two have b2: "\<forall>r \<in> set bs2. \<forall>u. r = Some u \<longrightarrow> text_binding u"
    by simp
  note e1 = binding_entries [OF b1 flagged_not_extracted(1)]
  note e2 = binding_entries [OF b2 flagged_not_extracted(2)]
  define updates where
    "updates = map the (filter is_Binding bs1) @ map the (filter is_Binding bs2)"
  have extracted: "map the (filter is_ExtractedAttribute (bs1 @ bs2 @ bs3))
      = map (structural_extractedAttribute (op_xref op)) (filter structural_demoted (tm_inputs tmpl))"
    using e1(1) e2(1) three by (simp add: structural_inputs_extracted)
  have bindings: "map the (filter is_Binding (bs1 @ bs2 @ bs3)) = updates"
    using three by (simp add: updates_def structural_inputs_no_binding)
  have flags: "\<forall>u \<in> set updates. structural_binding u \<or> text_binding u"
    using e1(2) e2(2) unfolding updates_def by auto
  have len: "length updates \<le> length (tm_templateAttrs tmpl) + length (tm_attributes tmpl)"
    using e1(3) e2(3) one two unfolding updates_def by simp
  have "getView unit job1 = getView unit job" "getView unit job2 = getView unit job1"
    using one two by (simp_all add: getView_same_units)
  with three assms(2) have job3: "getView unit job3 = Some v"
    by simp
  obtain x job5 where a: "allocateXrefId job4 = (x, job5)"
    by (cases "allocateXrefId job4")
  have job': "job' = create_push unit [I18nAttributesOp x NewSlotHandle (op_xref op)] job5"
    using steps(5) a by (simp add: i18nAttributes_push_def some_i18nMessage_not_null_always)
  have "getView unit job'
       = Some (v\<lparr>create := create v
                   @ map (structural_extractedAttribute (op_xref op))
                       (filter structural_demoted (tm_inputs tmpl))
                   @ map (structural_output X (op_xref op))
                       (filter (\<lambda>output. be_type output \<noteq> pe_Animation) (tm_outputs tmpl))
                   @ [I18nAttributesOp x NewSlotHandle (op_xref op)],
                 update := update v @ updates\<rparr>)"
    unfolding job' getView_create_push
      getView_same_units [OF same_units_allocateXrefId [OF a]]
      forE_templateOutput_structural [OF steps(4)] getView_update_push getView_create_push
      job3 extracted bindings
    by simp
  with flags len show ?thesis
    by blast
qed

theorem ingestTemplateBindings_structural_witness:
  "ingestTemplateBindings X0 0 template_op1 structural1 (Some Structural) job_structural1
     = Inr (job_structural1\<lparr>nextXrefId := 3,
                 views := [unit0\<lparr>create := structural1_create,
                                  update := structural1_update\<rparr>]\<rparr>)
   \<and> getView 0 job_structural1 = Some unit0
   \<and> map (structural_extractedAttribute (op_xref template_op1))
         (filter structural_demoted (tm_inputs structural1))
       @ map (structural_output X0 (op_xref template_op1))
           (filter (\<lambda>output. be_type output \<noteq> pe_Animation) (tm_outputs structural1))
       @ [I18nAttributesOp 2 NewSlotHandle (op_xref template_op1)]
     = structural1_create
   \<and> list_all (\<lambda>u. structural_binding u \<or> text_binding u) structural1_update
   \<and> (\<exists>updates x.
         getView 0 (job_structural1\<lparr>nextXrefId := 3,
                        views := [unit0\<lparr>create := structural1_create,
                                         update := structural1_update\<rparr>]\<rparr>)
           = Some (unit0\<lparr>create := create unit0
                       @ map (structural_extractedAttribute (op_xref template_op1))
                           (filter structural_demoted (tm_inputs structural1))
                       @ map (structural_output X0 (op_xref template_op1))
                           (filter (\<lambda>output. be_type output \<noteq> pe_Animation)
                              (tm_outputs structural1))
                       @ [I18nAttributesOp x NewSlotHandle (op_xref template_op1)],
                     update := update unit0 @ updates\<rparr>)
         \<and> list_all (\<lambda>u. structural_binding u \<or> text_binding u) updates
         \<and> length updates
             \<le> length (tm_templateAttrs structural1) + length (tm_attributes structural1))"
proof -
  have run: "ingestTemplateBindings X0 0 template_op1 structural1 (Some Structural)
       job_structural1
     = Inr (job_structural1\<lparr>nextXrefId := 3,
                 views := [unit0\<lparr>create := structural1_create,
                                  update := structural1_update\<rparr>]\<rparr>)"
    by (simp add: input_defs job_defs binding_defs)
  have unit: "getView 0 job_structural1 = Some unit0"
    by (simp add: input_defs job_defs)
  have ops: "map (structural_extractedAttribute (op_xref template_op1))
         (filter structural_demoted (tm_inputs structural1))
       @ map (structural_output X0 (op_xref template_op1))
           (filter (\<lambda>output. be_type output \<noteq> pe_Animation) (tm_outputs structural1))
       @ [I18nAttributesOp 2 NewSlotHandle (op_xref template_op1)]
     = structural1_create"
    by (simp add: input_defs structural_extractedAttribute_def structural_demoted_def
          structural_output_def NG_TEMPLATE_TAG_NAME_def)
  have flags: "list_all (\<lambda>u. structural_binding u \<or> text_binding u) structural1_update"
    by (simp add: structural1_update_def)
  have bindings: "\<exists>updates x.
         getView 0 (job_structural1\<lparr>nextXrefId := 3,
                        views := [unit0\<lparr>create := structural1_create,
                                         update := structural1_update\<rparr>]\<rparr>)
           = Some (unit0\<lparr>create := create unit0
                       @ map (structural_extractedAttribute (op_xref template_op1))
                           (filter structural_demoted (tm_inputs structural1))
                       @ map (structural_output X0 (op_xref template_op1))
                           (filter (\<lambda>output. be_type output \<noteq> pe_Animation)
                              (tm_outputs structural1))
                       @ [I18nAttributesOp x NewSlotHandle (op_xref template_op1)],
                     update := update unit0 @ updates\<rparr>)
         \<and> list_all (\<lambda>u. structural_binding u \<or> text_binding u) updates
         \<and> length updates
             \<le> length (tm_templateAttrs structural1) + length (tm_attributes structural1)"
    unfolding list_all_iff by (rule ingestTemplateBindings_structural [OF run unit])
  from run unit ops flags bindings show ?thesis
    by (intro conjI)
qed

text \<open>
  The whole template \<^verbatim>\<open><div *dir [class.on]="x" [attr.title]="t">\<close>: the class binding
  is an extracted attribute in the create list, the attribute binding leaves nothing,
  and the update list stays empty.
\<close>

lemma ingestTemplate_structural_example:
  "ingestComponent X0 [Template structural0 []] job0
     = Inr (job0\<lparr>nextXrefId := 3,
              views := [unit0\<lparr>create :=
                [TemplateOp
                   \<lparr>tp_xref = 1, tp_kind = Structural, tp_tag = Some ''div'',
                    tp_functionNameSuffix = ''div'', tp_namespace = HTML,
                    tp_i18nPlaceholder = None, tp_localRefs = [],
                    tp_startSourceSpan = Some span0, tp_wholeSourceSpan = Some span0\<rparr>,
                 ExtractedAttributeOp
                   \<lparr>ea_target = 1, ea_bindingKind = Property, ea_namespace = None,
                    ea_name = ''on'', ea_expression = None, ea_i18nContext = None,
                    ea_i18nMessage = None, ea_securityContext = OneContext NONE\<rparr>,
                 I18nAttributesOp 2 NewSlotHandle 1]\<rparr>, unit1]\<rparr>)"
  by (simp add: ingestComponent_def input_defs job_defs binding_defs)

end
